theory Spec2Isabelle
  imports Complex_Main "HOL-Library.Word"
begin

section \<open>Data model of the traffic manager\<close>

text \<open>
  The collision stage and the motion planner compute on C++ \<open>float\<close> and \<open>double\<close>
  values. They are embedded as \<^typ>\<open>real\<close>; the one non-finite value the code
  writes on purpose, \<open>std::numeric_limits<float>::infinity()\<close> for the distance
  margin, is kept apart in the type \<open>margin\<close>. Rounding is not modelled.
\<close>

type_synonym ActorId = "32 word"

datatype error =
    OutOfRange       \<comment> \<open>\<open>std::out_of_range\<close> thrown by \<open>.at()\<close>\<close>
  | EmptyFront       \<comment> \<open>\<open>front()\<close> of an empty container\<close>

datatype margin = Finite real | Infinity

fun margin_gt :: "margin \<Rightarrow> real \<Rightarrow> bool" where
  "margin_gt (Finite m) r = (m > r)"
| "margin_gt Infinity r = True"

fun margin_lt :: "margin \<Rightarrow> real \<Rightarrow> bool" where
  "margin_lt (Finite m) r = (m < r)"
| "margin_lt Infinity r = False"

record Vector3D =
  vx :: real
  vy :: real
  vz :: real

type_synonym Location = Vector3D

text \<open>
  Modelled from the spec: the rotation of \<open>carla/geom/Rotation.h\<close>, which is not among
  the sources. The spec asks of it only that it exposes the forward unit vector, so the
  rotation is represented by that vector.
\<close>

record Rotation =
  forward_vector :: Vector3D

definition GetForwardVector :: "Rotation \<Rightarrow> Vector3D" where
  "GetForwardVector r = forward_vector r"

record Transform =
  location :: Location
  rotation :: Rotation

record KinematicState = Transform +
  velocity :: Vector3D
  physics_enabled :: bool

datatype ActorType = Vehicle | Pedestrian | Any

record StaticAttributes =
  actor_type :: ActorType
  half_length :: real
  half_width :: real
  speed_limit :: real

datatype TLS = Red | Yellow | Green | Off | Unknown

record TrafficLightState =
  tl_state :: TLS
  at_traffic_light :: bool

text \<open>
  Modelled from the spec: the waypoint of \<open>SimpleWaypoint.h\<close>, which is not among the
  sources; it exposes its transform (location and rotation) and a junction flag.
\<close>

record SimpleWaypoint =
  wp_transform :: Transform
  wp_junction :: bool

type_synonym Buffer = "SimpleWaypoint list"
type_synonym LocationList = "Location list"
type_synonym Polygon = "(real \<times> real) list"

record CollisionLock =
  lead_vehicle_id :: ActorId
  distance_to_lead_vehicle :: real
  initial_lock_distance :: real

record CollisionHazardData =
  hazard :: bool
  hazard_actor_id :: ActorId
  available_distance_margin :: margin

record GeometryComparison =
  reference_vehicle_to_other_geodesic :: real
  other_vehicle_to_reference_geodesic :: real
  inter_geodesic_distance :: real
  inter_bbox_distance :: real

type_synonym KinematicStateMap = "ActorId \<rightharpoonup> KinematicState"
type_synonym StaticAttributeMap = "ActorId \<rightharpoonup> StaticAttributes"
type_synonym TrafficLightStateMap = "ActorId \<rightharpoonup> TrafficLightState"
type_synonym BufferMap = "ActorId \<rightharpoonup> Buffer"
type_synonym CollisionLockMap = "ActorId \<rightharpoonup> CollisionLock"
type_synonym GeodesicBoundaryMap = "ActorId \<rightharpoonup> LocationList"
type_synonym GeometryComparisonMap = "string \<rightharpoonup> GeometryComparison"

text \<open>
  The numeric constants of \<open>Constants.h\<close> are not among the sources: every function
  takes them as a record, and every theorem holds for all their values.
\<close>

record Constants =
  BOUNDARY_EXTENSION_RATE :: real
  BOUNDARY_EXTENSION_MINIMUM :: real
  LOCKING_DISTANCE_PADDING :: real
  MAX_LOCKING_EXTENSION :: real
  COS_10_DEGREES :: real
  WALKER_TIME_EXTENSION :: real
  SQUARE_ROOT_OF_TWO :: real
  MAX_COLLISION_RADIUS :: real
  VERTICAL_OVERLAP_THRESHOLD :: real
  JUNCTION_LOOK_AHEAD :: real
  HIGHWAY_SPEED :: real
  TARGET_WAYPOINT_TIME_HORIZON :: real
  TARGET_WAYPOINT_HORIZON_LENGTH :: real
  FOLLOW_DISTANCE_RATE :: real
  MIN_FOLLOW_LEAD_DISTANCE :: real
  RELATIVE_APPROACH_SPEED :: real
  CRITICAL_BRAKING_MARGIN :: real
  EPSILON_RELATIVE_SPEED :: real
  HYBRID_MODE_DT :: real

text \<open>\<open>std::numeric_limits<float>::epsilon()\<close> of the IEEE single format.\<close>

definition float_epsilon :: real where
  "float_epsilon = 1 / 2 ^ 23"

section \<open>Vector primitives\<close>

text \<open>
  Modelled from the spec: the vector primitives of \<open>carla/geom\<close> (\<open>Vector3D.h\<close>,
  \<open>Math.h\<close>) and the macros \<open>SQUARE\<close> and \<open>MAX\<close>, which are not among the sources.
  They are the usual componentwise sum, difference and scaling, the Euclidean dot
  product, length and squared distance; \<open>SQUARE\<close> is the square and \<open>MAX\<close> the
  maximum. \<open>MakeUnitVector\<close> divides by the length (in HOL a zero vector stays
  zero, where the float code would divide by zero).
\<close>

definition vec :: "real \<Rightarrow> real \<Rightarrow> real \<Rightarrow> Vector3D" where
  "vec a b c = \<lparr>vx = a, vy = b, vz = c\<rparr>"

definition vadd :: "Vector3D \<Rightarrow> Vector3D \<Rightarrow> Vector3D" where
  "vadd a b = vec (vx a + vx b) (vy a + vy b) (vz a + vz b)"

definition vsub :: "Vector3D \<Rightarrow> Vector3D \<Rightarrow> Vector3D" where
  "vsub a b = vec (vx a - vx b) (vy a - vy b) (vz a - vz b)"

definition vscale :: "Vector3D \<Rightarrow> real \<Rightarrow> Vector3D" where
  "vscale a k = vec (vx a * k) (vy a * k) (vz a * k)"

definition vdiv :: "Vector3D \<Rightarrow> real \<Rightarrow> Vector3D" where
  "vdiv a k = vec (vx a / k) (vy a / k) (vz a / k)"

definition Dot :: "Vector3D \<Rightarrow> Vector3D \<Rightarrow> real" where
  "Dot a b = vx a * vx b + vy a * vy b + vz a * vz b"

definition Length :: "Vector3D \<Rightarrow> real" where
  "Length a = sqrt (vx a * vx a + vy a * vy a + vz a * vz a)"

definition DistanceSquared :: "Vector3D \<Rightarrow> Vector3D \<Rightarrow> real" where
  "DistanceSquared a b = Dot (vsub a b) (vsub a b)"

definition MakeUnitVector :: "Vector3D \<Rightarrow> Vector3D" where
  "MakeUnitVector a = vscale a (1 / Length a)"

definition SQUARE :: "real \<Rightarrow> real" where
  "SQUARE a = a * a"

definition wp_GetLocation :: "SimpleWaypoint \<Rightarrow> Location" where
  "wp_GetLocation w = location (wp_transform w)"

definition wp_GetForwardVector :: "SimpleWaypoint \<Rightarrow> Vector3D" where
  "wp_GetForwardVector w = GetForwardVector (rotation (wp_transform w))"

definition wp_DistanceSquared :: "SimpleWaypoint \<Rightarrow> SimpleWaypoint \<Rightarrow> real" where
  "wp_DistanceSquared w w' = DistanceSquared (wp_GetLocation w) (wp_GetLocation w')"

definition CheckJunction :: "SimpleWaypoint \<Rightarrow> bool" where
  "CheckJunction w = wp_junction w"

text \<open>
  The collaborators the two stages call but do not define: the polygon distance of the
  geometry library (\<open>bg::distance\<close>) and \<open>GetTargetWaypoint\<close> of
  \<open>LocalizationUtils.h\<close>, which returns a waypoint of the buffer and its index. Both
  are parameters of the model.
\<close>

record Externals =
  bg_distance :: "Polygon \<Rightarrow> Polygon \<Rightarrow> real"
  GetTargetWaypoint :: "Buffer \<Rightarrow> real \<Rightarrow> SimpleWaypoint \<times> nat"

section \<open>Boundary builder\<close>

definition GetBoundingBoxExtention ::
  "Constants \<Rightarrow> ActorId \<Rightarrow> KinematicState \<Rightarrow> CollisionLockMap \<Rightarrow> real" where
  "GetBoundingBoxExtention K actor_id kinematic_state collision_lock_map =
     (let velocity_fwd = Dot (velocity kinematic_state) (GetForwardVector (rotation kinematic_state));
          bbox_extension = BOUNDARY_EXTENSION_RATE K * velocity_fwd + BOUNDARY_EXTENSION_MINIMUM K
      in case collision_lock_map actor_id of
           None \<Rightarrow> bbox_extension
         | Some lock \<Rightarrow>
             (let lock_boundary_length = distance_to_lead_vehicle lock + LOCKING_DISTANCE_PADDING K
              in if lock_boundary_length - initial_lock_distance lock < MAX_LOCKING_EXTENSION K
                 then lock_boundary_length
                 else bbox_extension))"

definition GetBoundary :: "Constants \<Rightarrow> KinematicState \<Rightarrow> StaticAttributes \<Rightarrow> LocationList" where
  "GetBoundary K kinematic_state attributes =
     (let heading_vector = GetForwardVector (rotation kinematic_state);
          forward_extension =
            (if actor_type attributes = Pedestrian
             then Length (velocity kinematic_state) * WALKER_TIME_EXTENSION K else 0);
          bbox_x = half_length attributes;
          bbox_y = half_width attributes;
          x_boundary_vector = vscale heading_vector (bbox_x + forward_extension);
          perpendicular_vector = MakeUnitVector (vec (- vy heading_vector) (vx heading_vector) 0);
          y_boundary_vector = vscale perpendicular_vector (bbox_y + forward_extension);
          loc = location kinematic_state
      in [vadd loc (vsub x_boundary_vector y_boundary_vector),
          vadd loc (vsub (vscale x_boundary_vector (- 1)) y_boundary_vector),
          vadd loc (vadd (vscale x_boundary_vector (- 1)) y_boundary_vector),
          vadd loc (vadd x_boundary_vector y_boundary_vector)])"

text \<open>
  The rib loop of \<open>GetGeodesicBoundary\<close>. \<open>j\<close> is the loop index, \<open>boundary_end\<close>
  the last waypoint a rib was emitted at (\<open>None\<close> for \<open>nullptr\<close>), \<open>current_point\<close> the
  waypoint examined in this iteration. As in the source, the iteration ends by
  \<open>current_point = waypoint_buffer.at(j)\<close> with the index before its increment.
\<close>

definition walk_reached :: "Buffer \<Rightarrow> SimpleWaypoint \<Rightarrow> real \<Rightarrow> nat \<Rightarrow> SimpleWaypoint \<Rightarrow> bool" where
  "walk_reached waypoint_buffer boundary_start bbox_extension_square j current_point =
     (wp_DistanceSquared boundary_start current_point > bbox_extension_square
      \<or> j = length waypoint_buffer - 1)"

definition walk_emits :: "Constants \<Rightarrow> SimpleWaypoint option \<Rightarrow> SimpleWaypoint \<Rightarrow> bool \<Rightarrow> bool" where
  "walk_emits K boundary_end current_point reached_distance =
     (case boundary_end of
        None \<Rightarrow> True
      | Some e \<Rightarrow> Dot (wp_GetForwardVector e) (wp_GetForwardVector current_point) < COS_10_DEGREES K
                  \<or> reached_distance)"

definition rib_left :: "SimpleWaypoint \<Rightarrow> real \<Rightarrow> Location" where
  "rib_left current_point width =
     (let heading_vector = wp_GetForwardVector current_point;
          perpendicular_vector = MakeUnitVector (vec (- vy heading_vector) (vx heading_vector) 0);
          scaled_perpendicular = vscale perpendicular_vector width
      in vadd (wp_GetLocation current_point) scaled_perpendicular)"

definition rib_right :: "SimpleWaypoint \<Rightarrow> real \<Rightarrow> Location" where
  "rib_right current_point width =
     (let heading_vector = wp_GetForwardVector current_point;
          perpendicular_vector = MakeUnitVector (vec (- vy heading_vector) (vx heading_vector) 0);
          scaled_perpendicular = vscale perpendicular_vector width
      in vadd (wp_GetLocation current_point) (vscale scaled_perpendicular (- 1)))"

function boundary_walk ::
  "Constants \<Rightarrow> Buffer \<Rightarrow> SimpleWaypoint \<Rightarrow> real \<Rightarrow> real \<Rightarrow> nat \<Rightarrow> bool \<Rightarrow> SimpleWaypoint option
     \<Rightarrow> SimpleWaypoint \<Rightarrow> LocationList \<Rightarrow> LocationList \<Rightarrow> LocationList \<times> LocationList" where
  "boundary_walk K waypoint_buffer boundary_start bbox_extension_square width j reached_distance
       boundary_end current_point left_boundary right_boundary =
     (if \<not> reached_distance \<and> j < length waypoint_buffer then
        (if walk_emits K boundary_end current_point
              (walk_reached waypoint_buffer boundary_start bbox_extension_square j current_point)
         then boundary_walk K waypoint_buffer boundary_start bbox_extension_square width (Suc j)
                (walk_reached waypoint_buffer boundary_start bbox_extension_square j current_point)
                (Some current_point) (waypoint_buffer ! j)
                (left_boundary @ [rib_left current_point width])
                (right_boundary @ [rib_right current_point width])
         else boundary_walk K waypoint_buffer boundary_start bbox_extension_square width (Suc j)
                (walk_reached waypoint_buffer boundary_start bbox_extension_square j current_point)
                boundary_end (waypoint_buffer ! j)
                left_boundary right_boundary)
      else (left_boundary, right_boundary))"
  by pat_completeness auto
termination
  by (relation "measure (\<lambda>(K, buf, bs, e, w, j, r, be, cp, l, rb). length buf - j)") auto

declare boundary_walk.simps [simp del]

definition GetGeodesicBoundary ::
  "Constants \<Rightarrow> Externals \<Rightarrow> ActorId \<Rightarrow> GeodesicBoundaryMap \<Rightarrow> KinematicState
     \<Rightarrow> StaticAttributes \<Rightarrow> Buffer \<Rightarrow> real \<Rightarrow> CollisionLockMap
     \<Rightarrow> error + (LocationList \<times> GeodesicBoundaryMap)" where
  "GetGeodesicBoundary K X actor_id geodesic_boundary_map kinematic_state attributes
       waypoint_buffer specific_lead_distance collision_lock_map =
     (case geodesic_boundary_map actor_id of
        Some geodesic_boundary \<Rightarrow> Inr (geodesic_boundary, geodesic_boundary_map)
      | None \<Rightarrow>
          (let bbox = GetBoundary K kinematic_state attributes in
           if actor_type attributes = Vehicle then
             (let bbox_extension =
                    max specific_lead_distance
                        (GetBoundingBoxExtention K actor_id kinematic_state collision_lock_map);
                  bbox_extension_square = SQUARE bbox_extension;
                  width = half_width attributes;
                  len = half_length attributes;
                  target_wp_info = GetTargetWaypoint X waypoint_buffer len;
                  boundary_start = fst target_wp_info;
                  boundary_start_index = snd target_wp_info
              in if boundary_start_index < length waypoint_buffer then
                   (let ribs = boundary_walk K waypoint_buffer boundary_start bbox_extension_square
                                 width boundary_start_index False None
                                 (waypoint_buffer ! boundary_start_index) [] [];
                        geodesic_boundary = rev (snd ribs) @ bbox @ fst ribs
                    in Inr (geodesic_boundary, geodesic_boundary_map(actor_id \<mapsto> geodesic_boundary)))
                 else Inl OutOfRange)
           else Inr (bbox, geodesic_boundary_map(actor_id \<mapsto> bbox))))"

definition GetPolygon :: "LocationList \<Rightarrow> error + Polygon" where
  "GetPolygon boundary =
     (case boundary of
        [] \<Rightarrow> Inl EmptyFront
      | front # _ \<Rightarrow> Inr (map (\<lambda>l. (vx l, vy l)) boundary @ [(vx front, vy front)]))"

section \<open>Geometry cache\<close>

text \<open>\<open>std::to_string\<close> on an unsigned integer: its decimal digits.\<close>

fun to_string :: "nat \<Rightarrow> string" where
  "to_string n =
     (if n < 10 then [''0123456789'' ! n]
      else to_string (n div 10) @ [''0123456789'' ! (n mod 10)])"

declare to_string.simps [simp del]

definition actor_id_key :: "ActorId \<Rightarrow> ActorId \<Rightarrow> string" where
  "actor_id_key reference_vehicle_id other_actor_id =
     (if reference_vehicle_id < other_actor_id
      then to_string (unat reference_vehicle_id) @ ''|'' @ to_string (unat other_actor_id)
      else to_string (unat other_actor_id) @ ''|'' @ to_string (unat other_actor_id))"

definition bind_result :: "error + 'a \<Rightarrow> ('a \<Rightarrow> error + 'b) \<Rightarrow> error + 'b" where
  "bind_result r f = (case r of Inl e \<Rightarrow> Inl e | Inr v \<Rightarrow> f v)"

definition GetGeometryBetweenActors ::
  "Constants \<Rightarrow> Externals \<Rightarrow> GeometryComparisonMap \<Rightarrow> GeodesicBoundaryMap \<Rightarrow> ActorId \<Rightarrow> ActorId
     \<Rightarrow> KinematicState \<Rightarrow> KinematicState \<Rightarrow> StaticAttributes \<Rightarrow> StaticAttributes
     \<Rightarrow> Buffer \<Rightarrow> Buffer \<Rightarrow> CollisionLockMap \<Rightarrow> real \<Rightarrow> real
     \<Rightarrow> error + (GeometryComparison \<times> GeometryComparisonMap \<times> GeodesicBoundaryMap)" where
  "GetGeometryBetweenActors K X geometry_cache geodesic_boundary_map reference_vehicle_id other_actor_id
       reference_vehicle_state other_vehicle_state reference_vehicle_attributes other_vehicle_attributes
       reference_vehicle_buffer other_vehicle_buffer collision_lock_map
       reference_lead_distance other_lead_distance =
     (case geometry_cache (actor_id_key reference_vehicle_id other_actor_id) of
        Some mCache \<Rightarrow>
          Inr (mCache\<lparr>reference_vehicle_to_other_geodesic := other_vehicle_to_reference_geodesic mCache,
                      other_vehicle_to_reference_geodesic := reference_vehicle_to_other_geodesic mCache\<rparr>,
               geometry_cache, geodesic_boundary_map)
      | None \<Rightarrow>
          bind_result (GetPolygon (GetBoundary K reference_vehicle_state reference_vehicle_attributes))
            (\<lambda>reference_polygon.
          bind_result (GetPolygon (GetBoundary K other_vehicle_state other_vehicle_attributes))
            (\<lambda>other_polygon.
          bind_result (GetGeodesicBoundary K X reference_vehicle_id geodesic_boundary_map
                         reference_vehicle_state reference_vehicle_attributes reference_vehicle_buffer
                         reference_lead_distance collision_lock_map)
            (\<lambda>(reference_geodesic, geodesic_boundary_map1).
          bind_result (GetPolygon reference_geodesic)
            (\<lambda>reference_geodesic_polygon.
          bind_result (GetGeodesicBoundary K X other_actor_id geodesic_boundary_map1
                         other_vehicle_state other_vehicle_attributes other_vehicle_buffer
                         other_lead_distance collision_lock_map)
            (\<lambda>(other_geodesic, geodesic_boundary_map2).
          bind_result (GetPolygon other_geodesic)
            (\<lambda>other_geodesic_polygon.
             (let mCache =
                    \<lparr>reference_vehicle_to_other_geodesic =
                       bg_distance X reference_polygon other_geodesic_polygon,
                     other_vehicle_to_reference_geodesic =
                       bg_distance X other_polygon reference_geodesic_polygon,
                     inter_geodesic_distance =
                       bg_distance X reference_geodesic_polygon other_geodesic_polygon,
                     inter_bbox_distance = bg_distance X reference_polygon other_polygon\<rparr>
              in Inr (mCache,
                      geometry_cache(actor_id_key reference_vehicle_id other_actor_id \<mapsto> mCache),
                      geodesic_boundary_map2)))))))))"

section \<open>Collision negotiator\<close>

text \<open>
  The guarded normalisation of the two direction vectors: the vector is divided by its
  length only when the length exceeds twice the float epsilon.
\<close>

definition normalized :: "Vector3D \<Rightarrow> Vector3D" where
  "normalized v =
     (let magnitude = Length v
      in if magnitude > 2 * float_epsilon then vdiv v magnitude else v)"

text \<open>
  The comparison the negotiator calls \<open>ego_angular_priority\<close>, with the headings and
  direction vectors it is computed from, as the source computes them.
\<close>

definition ego_angular_priority :: "KinematicState \<Rightarrow> KinematicState \<Rightarrow> bool" where
  "ego_angular_priority reference_vehicle_state other_vehicle_state =
     (let reference_location = location reference_vehicle_state;
          other_location = location other_vehicle_state;
          reference_heading = GetForwardVector (rotation reference_vehicle_state);
          reference_to_other = normalized (vsub other_location reference_location);
          other_heading = GetForwardVector (rotation reference_vehicle_state);
          other_to_reference = normalized (vsub reference_location other_location)
      in Dot reference_heading reference_to_other < Dot other_heading other_to_reference)"

text \<open>The collision locking mechanism of the hazard branch.\<close>

definition update_collision_lock ::
  "CollisionLockMap \<Rightarrow> ActorId \<Rightarrow> ActorId \<Rightarrow> GeometryComparison \<Rightarrow> CollisionLockMap" where
  "update_collision_lock collision_locks reference_vehicle_id other_actor_id geometry_comparison =
     (case collision_locks reference_vehicle_id of
        Some lock \<Rightarrow>
          (if other_actor_id = lead_vehicle_id lock then
             (if other_vehicle_to_reference_geodesic geometry_comparison < 0.1
              then collision_locks(reference_vehicle_id \<mapsto>
                     lock\<lparr>distance_to_lead_vehicle := inter_bbox_distance geometry_comparison\<rparr>)
              else collision_locks(reference_vehicle_id \<mapsto>
                     lock\<lparr>distance_to_lead_vehicle :=
                            reference_vehicle_to_other_geodesic geometry_comparison\<rparr>))
           else collision_locks(reference_vehicle_id \<mapsto>
                  \<lparr>lead_vehicle_id = other_actor_id,
                   distance_to_lead_vehicle = inter_bbox_distance geometry_comparison,
                   initial_lock_distance = inter_bbox_distance geometry_comparison\<rparr>))
      | None \<Rightarrow>
          collision_locks(reference_vehicle_id \<mapsto>
            \<lparr>lead_vehicle_id = other_actor_id,
             distance_to_lead_vehicle = inter_bbox_distance geometry_comparison,
             initial_lock_distance = inter_bbox_distance geometry_comparison\<rparr>))"

text \<open>The flush at the end of \<open>NegotiateCollision\<close>, taken when no hazard was found.\<close>

definition flush_collision_lock :: "CollisionLockMap \<Rightarrow> ActorId \<Rightarrow> CollisionLockMap" where
  "flush_collision_lock collision_locks reference_vehicle_id =
     (if collision_locks reference_vehicle_id \<noteq> None
      then collision_locks(reference_vehicle_id := None)
      else collision_locks)"

definition NegotiateCollision ::
  "Constants \<Rightarrow> Externals \<Rightarrow> ActorId \<Rightarrow> ActorId \<Rightarrow> GeometryComparisonMap \<Rightarrow> GeodesicBoundaryMap
     \<Rightarrow> CollisionLockMap \<Rightarrow> KinematicState \<Rightarrow> KinematicState \<Rightarrow> StaticAttributes \<Rightarrow> StaticAttributes
     \<Rightarrow> TrafficLightState \<Rightarrow> Buffer \<Rightarrow> Buffer \<Rightarrow> nat \<Rightarrow> real \<Rightarrow> real
     \<Rightarrow> error + ((bool \<times> margin) \<times> GeometryComparisonMap \<times> GeodesicBoundaryMap \<times> CollisionLockMap)" where
  "NegotiateCollision K X reference_vehicle_id other_actor_id geometry_cache geodesic_boundary_map
       collision_locks reference_vehicle_state other_vehicle_state
       reference_vehicle_attributes other_vehicle_attributes reference_tl_state
       reference_vehicle_buffer other_vehicle_buffer reference_junction_look_ahead_index
       reference_lead_distance other_lead_distance =
     (let reference_location = location reference_vehicle_state;
          other_location = location other_vehicle_state;
          reference_heading = GetForwardVector (rotation reference_vehicle_state);
          reference_to_other = normalized (vsub other_location reference_location);
          reference_vehicle_length = half_length reference_vehicle_attributes * SQUARE_ROOT_OF_TWO K;
          other_vehicle_length = half_length other_vehicle_attributes * SQUARE_ROOT_OF_TWO K;
          inter_vehicle_distance = DistanceSquared reference_location other_location;
          ego_bounding_box_extension =
            GetBoundingBoxExtention K reference_vehicle_id reference_vehicle_state collision_locks;
          other_bounding_box_extension =
            GetBoundingBoxExtention K other_actor_id other_vehicle_state collision_locks;
          inter_vehicle_length = reference_vehicle_length + other_vehicle_length;
          ego_detection_range = SQUARE (ego_bounding_box_extension + inter_vehicle_length);
          cross_detection_range =
            SQUARE (ego_bounding_box_extension + inter_vehicle_length + other_bounding_box_extension);
          other_vehicle_in_ego_range = (inter_vehicle_distance < ego_detection_range);
          other_vehicles_in_cross_detection_range = (inter_vehicle_distance < cross_detection_range);
          other_vehicle_in_front = (Dot reference_heading reference_to_other > 0)
      in case reference_vehicle_buffer of
           [] \<Rightarrow> Inl EmptyFront
         | closest_point # _ \<Rightarrow>
             (let ego_inside_junction = CheckJunction closest_point;
                  ego_at_traffic_light = at_traffic_light reference_tl_state;
                  ego_stopped_by_light = (tl_state reference_tl_state \<noteq> Green)
              in if \<not> reference_junction_look_ahead_index < length reference_vehicle_buffer
                 then Inl OutOfRange
                 else
                   (let look_ahead_point = reference_vehicle_buffer ! reference_junction_look_ahead_index;
                        ego_at_junction_entrance =
                          (\<not> CheckJunction closest_point \<and> CheckJunction look_ahead_point)
                    in if \<not> (ego_at_junction_entrance \<and> ego_at_traffic_light \<and> ego_stopped_by_light)
                          \<and> ((ego_inside_junction \<and> other_vehicles_in_cross_detection_range)
                             \<or> (\<not> ego_inside_junction \<and> other_vehicle_in_front
                                 \<and> other_vehicle_in_ego_range))
                       then
                         bind_result
                           (GetGeometryBetweenActors K X geometry_cache geodesic_boundary_map
                              reference_vehicle_id other_actor_id
                              reference_vehicle_state other_vehicle_state
                              reference_vehicle_attributes other_vehicle_attributes
                              reference_vehicle_buffer other_vehicle_buffer collision_locks
                              reference_lead_distance other_lead_distance)
                           (\<lambda>(geometry_comparison, geometry_cache1, geodesic_boundary_map1).
                              (let geodesic_path_bbox_touching =
                                     (inter_geodesic_distance geometry_comparison < 0.1);
                                   vehicle_bbox_touching =
                                     (inter_bbox_distance geometry_comparison < 0.1);
                                   ego_path_clear =
                                     (other_vehicle_to_reference_geodesic geometry_comparison > 0.1);
                                   other_path_clear =
                                     (reference_vehicle_to_other_geodesic geometry_comparison > 0.1);
                                   ego_path_priority =
                                     (reference_vehicle_to_other_geodesic geometry_comparison
                                        < other_vehicle_to_reference_geodesic geometry_comparison);
                                   angular_priority =
                                     ego_angular_priority reference_vehicle_state other_vehicle_state
                               in if geodesic_path_bbox_touching
                                     \<and> ((\<not> vehicle_bbox_touching
                                          \<and> (\<not> ego_path_clear
                                              \<or> (ego_path_clear \<and> other_path_clear
                                                  \<and> \<not> angular_priority \<and> \<not> ego_path_priority)))
                                        \<or> (vehicle_bbox_touching \<and> \<not> angular_priority
                                            \<and> \<not> ego_path_priority))
                                  then
                                    (let specific_distance_margin =
                                           max reference_lead_distance (BOUNDARY_EXTENSION_MINIMUM K);
                                         available_distance_margin =
                                           max (reference_vehicle_to_other_geodesic geometry_comparison
                                                  - specific_distance_margin) 0
                                     in Inr ((True, Finite available_distance_margin),
                                             geometry_cache1, geodesic_boundary_map1,
                                             update_collision_lock collision_locks reference_vehicle_id
                                               other_actor_id geometry_comparison))
                                  else Inr ((False, Infinity), geometry_cache1, geodesic_boundary_map1,
                                            flush_collision_lock collision_locks reference_vehicle_id)))
                       else Inr ((False, Infinity), geometry_cache, geodesic_boundary_map,
                                 flush_collision_lock collision_locks reference_vehicle_id))))"

section \<open>Collision avoidance driver\<close>

text \<open>
  The \<open>Parameters\<close> object and the spatial index \<open>TrackTraffic\<close> are inputs of the
  stage; only the getters the two stages call are kept. The set returned by
  \<open>GetOverlappingVehicles\<close> is given as the list of its elements in iteration order.
\<close>

record Parameters =
  GetDistanceToLeadingVehicle :: "ActorId \<Rightarrow> real"
  GetCollisionDetection :: "ActorId \<Rightarrow> ActorId \<Rightarrow> bool"
  GetPercentageIgnoreVehicles :: "ActorId \<Rightarrow> real"
  GetPercentageIgnoreWalkers :: "ActorId \<Rightarrow> real"
  GetVehicleTargetVelocity :: "ActorId \<Rightarrow> real \<Rightarrow> real"
  GetSynchronousMode :: bool

record TrackTraffic =
  GetOverlappingVehicles :: "ActorId \<Rightarrow> ActorId list"

text \<open>
  \<open>GetLocation\<close> and \<open>GetType\<close> of \<open>VehicleStateAndAttributeQuery.h\<close> read the maps
  with \<open>.at()\<close>: a missing id is \<open>std::out_of_range\<close>.
\<close>

definition GetLocation :: "KinematicStateMap \<Rightarrow> ActorId \<Rightarrow> error + Location" where
  "GetLocation state_map actor_id =
     (case state_map actor_id of None \<Rightarrow> Inl OutOfRange | Some s \<Rightarrow> Inr (location s))"

definition GetType :: "StaticAttributeMap \<Rightarrow> ActorId \<Rightarrow> error + ActorType" where
  "GetType attribute_map actor_id =
     (case attribute_map actor_id of None \<Rightarrow> Inl OutOfRange | Some a \<Rightarrow> Inr (actor_type a))"

text \<open>The filter loop over the overlapping actors.\<close>

fun collect_candidates ::
  "Constants \<Rightarrow> KinematicStateMap \<Rightarrow> ActorId \<Rightarrow> Location \<Rightarrow> ActorId list \<Rightarrow> ActorId list
     \<Rightarrow> error + ActorId list" where
  "collect_candidates K state_map ego_actor_id ego_location [] collision_candidate_ids =
     Inr collision_candidate_ids"
| "collect_candidates K state_map ego_actor_id ego_location (overlapping_actor_id # rest)
       collision_candidate_ids =
     bind_result (GetLocation state_map overlapping_actor_id)
       (\<lambda>overlapping_actor_location.
          if overlapping_actor_id \<noteq> ego_actor_id
             \<and> DistanceSquared overlapping_actor_location ego_location
                 < SQUARE (MAX_COLLISION_RADIUS K)
             \<and> \<bar>vz ego_location - vz overlapping_actor_location\<bar> < VERTICAL_OVERLAP_THRESHOLD K
          then collect_candidates K state_map ego_actor_id ego_location rest
                 (collision_candidate_ids @ [overlapping_actor_id])
          else collect_candidates K state_map ego_actor_id ego_location rest
                 collision_candidate_ids)"

text \<open>
  The key \<open>std::sort\<close> orders the candidates by: the squared distance to the ego. Every
  candidate has passed \<open>GetLocation\<close> in the filter loop, so the lookup here cannot fail.
  (\<open>std::sort\<close> leaves the order of candidates at equal distance open; the model keeps
  their order.)
\<close>

definition candidate_distance :: "KinematicStateMap \<Rightarrow> Location \<Rightarrow> ActorId \<Rightarrow> real" where
  "candidate_distance state_map ego_location a_id =
     (case state_map a_id of
        None \<Rightarrow> 0
      | Some s \<Rightarrow> DistanceSquared ego_location (location s))"

text \<open>
  The ignore policy. \<open>rand n\<close> is the value of the \<open>n\<close>-th call of \<open>rand()\<close>; the
  counter of calls is threaded through. By the short-circuit evaluation of the source
  a vehicle or a pedestrian costs one call, any other actor type none. The result is
  whether the hazard is committed.
\<close>

definition ignore_policy ::
  "Parameters \<Rightarrow> (nat \<Rightarrow> nat) \<Rightarrow> ActorId \<Rightarrow> ActorType \<Rightarrow> nat \<Rightarrow> bool \<times> nat" where
  "ignore_policy P rand ego_actor_id other_actor_type rand_calls =
     (if other_actor_type = Vehicle then
        (GetPercentageIgnoreVehicles P ego_actor_id \<le> real (rand rand_calls mod 101), Suc rand_calls)
      else if other_actor_type = Pedestrian then
        (GetPercentageIgnoreWalkers P ego_actor_id \<le> real (rand rand_calls mod 101), Suc rand_calls)
      else (False, rand_calls))"

text \<open>
  The loop over the sorted candidates. It stops at the first committed hazard; the
  result is \<open>(collision_hazard, obstacle_id, available_distance_margin)\<close> with the
  caches, the lock map and the counter of \<open>rand()\<close> calls.
\<close>

fun check_candidates ::
  "Constants \<Rightarrow> Externals \<Rightarrow> Parameters \<Rightarrow> (nat \<Rightarrow> nat) \<Rightarrow> KinematicStateMap \<Rightarrow> StaticAttributeMap
     \<Rightarrow> TrafficLightStateMap \<Rightarrow> BufferMap \<Rightarrow> ActorId \<Rightarrow> KinematicState \<Rightarrow> StaticAttributes
     \<Rightarrow> nat \<Rightarrow> real \<Rightarrow> ActorId list
     \<Rightarrow> GeometryComparisonMap \<Rightarrow> GeodesicBoundaryMap \<Rightarrow> CollisionLockMap \<Rightarrow> nat
     \<Rightarrow> error + ((bool \<times> ActorId \<times> margin)
                  \<times> GeometryComparisonMap \<times> GeodesicBoundaryMap \<times> CollisionLockMap \<times> nat)" where
  "check_candidates K X P rand state_map attribute_map tl_state_map buffer_map ego_actor_id
       ego_kinematic_state ego_attributes look_ahead_index reference_lead_distance []
       geometry_cache geodesic_boundary_map collision_locks rand_calls =
     Inr ((False, 0, Infinity), geometry_cache, geodesic_boundary_map, collision_locks, rand_calls)"
| "check_candidates K X P rand state_map attribute_map tl_state_map buffer_map ego_actor_id
       ego_kinematic_state ego_attributes look_ahead_index reference_lead_distance
       (other_actor_id # rest)
       geometry_cache geodesic_boundary_map collision_locks rand_calls =
     bind_result (GetType attribute_map other_actor_id) (\<lambda>other_actor_type.
       case state_map other_actor_id of
         None \<Rightarrow> Inl OutOfRange
       | Some other_kinematic_state \<Rightarrow>
          (case attribute_map other_actor_id of
             None \<Rightarrow> Inl OutOfRange
           | Some other_attributes \<Rightarrow>
              (case (GetCollisionDetection P ego_actor_id other_actor_id,
                     tl_state_map ego_actor_id, buffer_map ego_actor_id, buffer_map other_actor_id) of
                 (True, Some ego_tl_state, Some ego_buffer, Some other_buffer) \<Rightarrow>
                   bind_result
                     (NegotiateCollision K X ego_actor_id other_actor_id geometry_cache
                        geodesic_boundary_map collision_locks ego_kinematic_state
                        other_kinematic_state ego_attributes other_attributes ego_tl_state
                        ego_buffer other_buffer look_ahead_index reference_lead_distance
                        (GetDistanceToLeadingVehicle P other_actor_id))
                     (\<lambda>(negotiation_result, geometry_cache1, geodesic_boundary_map1, collision_locks1).
                        if fst negotiation_result then
                          (let decision = ignore_policy P rand ego_actor_id other_actor_type rand_calls
                           in if fst decision
                              then Inr ((True, other_actor_id, snd negotiation_result),
                                        geometry_cache1, geodesic_boundary_map1, collision_locks1,
                                        snd decision)
                              else check_candidates K X P rand state_map attribute_map tl_state_map
                                     buffer_map ego_actor_id ego_kinematic_state ego_attributes
                                     look_ahead_index reference_lead_distance rest
                                     geometry_cache1 geodesic_boundary_map1 collision_locks1
                                     (snd decision))
                        else check_candidates K X P rand state_map attribute_map tl_state_map
                               buffer_map ego_actor_id ego_kinematic_state ego_attributes
                               look_ahead_index reference_lead_distance rest
                               geometry_cache1 geodesic_boundary_map1 collision_locks1 rand_calls)
               | _ \<Rightarrow>
                   check_candidates K X P rand state_map attribute_map tl_state_map buffer_map
                     ego_actor_id ego_kinematic_state ego_attributes look_ahead_index
                     reference_lead_distance rest
                     geometry_cache geodesic_boundary_map collision_locks rand_calls)))"

definition CollisionAvoidance ::
  "Constants \<Rightarrow> Externals \<Rightarrow> Parameters \<Rightarrow> TrackTraffic \<Rightarrow> (nat \<Rightarrow> nat) \<Rightarrow> nat \<Rightarrow> ActorId list
     \<Rightarrow> KinematicStateMap \<Rightarrow> StaticAttributeMap \<Rightarrow> TrafficLightStateMap \<Rightarrow> BufferMap
     \<Rightarrow> CollisionLockMap \<Rightarrow> CollisionHazardData list \<Rightarrow> nat
     \<Rightarrow> error + (CollisionHazardData list \<times> CollisionLockMap \<times> nat)" where
  "CollisionAvoidance K X P track_traffic rand index vehicle_id_list state_map attribute_map
       tl_state_map buffer_map collision_locks output_array rand_calls =
     (if \<not> index < length vehicle_id_list then Inl OutOfRange
      else
        (let ego_actor_id = vehicle_id_list ! index in
         bind_result
           (case (state_map ego_actor_id, attribute_map ego_actor_id) of
              (Some ego_kinematic_state, Some ego_attributes) \<Rightarrow>
                (let ego_location = location ego_kinematic_state in
                 case buffer_map ego_actor_id of
                   None \<Rightarrow> Inl OutOfRange
                 | Some ego_buffer \<Rightarrow>
                     (let look_ahead_index =
                            snd (GetTargetWaypoint X ego_buffer (JUNCTION_LOOK_AHEAD K))
                      in bind_result
                           (collect_candidates K state_map ego_actor_id ego_location
                              (GetOverlappingVehicles track_traffic ego_actor_id) [])
                           (\<lambda>collision_candidate_ids.
                              bind_result
                                (check_candidates K X P rand state_map attribute_map tl_state_map
                                   buffer_map ego_actor_id ego_kinematic_state ego_attributes
                                   look_ahead_index (GetDistanceToLeadingVehicle P ego_actor_id)
                                   (sort_key (candidate_distance state_map ego_location)
                                      collision_candidate_ids)
                                   Map.empty Map.empty collision_locks rand_calls)
                                (\<lambda>(verdict, geometry_cache, geodesic_boundary_map,
                                    collision_locks1, rand_calls1).
                                   Inr (verdict, collision_locks1, rand_calls1)))))
            | _ \<Rightarrow> Inr ((False, 0, Infinity), collision_locks, rand_calls))
           (\<lambda>(verdict, collision_locks1, rand_calls1).
              if \<not> index < length output_array then Inl OutOfRange
              else Inr (output_array[index :=
                          \<lparr>hazard = fst verdict,
                           hazard_actor_id = fst (snd verdict),
                           available_distance_margin = snd (snd verdict)\<rparr>],
                        collision_locks1, rand_calls1))))"

text \<open>
  The two conditions of the driver, for stating which candidates its loop negotiates
  with: \<open>collision_candidate\<close> is the condition of the filter loop and
  \<open>negotiation_guard\<close> the condition that guards the call of \<open>NegotiateCollision\<close>
  in the loop over the candidates. An ego with a state and attributes \<open>negotiates\<close>
  with every overlapping actor that satisfies both, as long as the loop has not
  stopped at a committed hazard. \<open>policy_may_ignore\<close> says that the ignore policy
  can drop a hazard of the actor: the percentage that applies to its type is above the
  least value \<open>rand() % 101\<close> takes, or its type is neither vehicle nor pedestrian.
\<close>

definition collision_candidate ::
  "Constants \<Rightarrow> KinematicStateMap \<Rightarrow> ActorId \<Rightarrow> Location \<Rightarrow> ActorId \<Rightarrow> bool" where
  "collision_candidate K state_map ego_actor_id ego_location overlapping_actor_id =
     (case state_map overlapping_actor_id of
        None \<Rightarrow> False
      | Some s \<Rightarrow>
          overlapping_actor_id \<noteq> ego_actor_id
          \<and> DistanceSquared (location s) ego_location < SQUARE (MAX_COLLISION_RADIUS K)
          \<and> \<bar>vz ego_location - vz (location s)\<bar> < VERTICAL_OVERLAP_THRESHOLD K)"

definition negotiation_guard ::
  "Parameters \<Rightarrow> TrafficLightStateMap \<Rightarrow> BufferMap \<Rightarrow> ActorId \<Rightarrow> ActorId \<Rightarrow> bool" where
  "negotiation_guard P tl_state_map buffer_map ego_actor_id other_actor_id =
     (GetCollisionDetection P ego_actor_id other_actor_id
      \<and> tl_state_map ego_actor_id \<noteq> None
      \<and> buffer_map ego_actor_id \<noteq> None
      \<and> buffer_map other_actor_id \<noteq> None)"

definition negotiates ::
  "Constants \<Rightarrow> Parameters \<Rightarrow> TrackTraffic \<Rightarrow> KinematicStateMap \<Rightarrow> StaticAttributeMap
     \<Rightarrow> TrafficLightStateMap \<Rightarrow> BufferMap \<Rightarrow> ActorId \<Rightarrow> ActorId \<Rightarrow> bool" where
  "negotiates K P track_traffic state_map attribute_map tl_state_map buffer_map
       ego_actor_id other_actor_id =
     (case (state_map ego_actor_id, attribute_map ego_actor_id) of
        (Some ego_kinematic_state, Some ego_attributes) \<Rightarrow>
          other_actor_id \<in> set (GetOverlappingVehicles track_traffic ego_actor_id)
          \<and> collision_candidate K state_map ego_actor_id (location ego_kinematic_state)
               other_actor_id
          \<and> negotiation_guard P tl_state_map buffer_map ego_actor_id other_actor_id
      | _ \<Rightarrow> False)"

definition policy_may_ignore :: "Parameters \<Rightarrow> StaticAttributeMap \<Rightarrow> ActorId \<Rightarrow> ActorId \<Rightarrow> bool" where
  "policy_may_ignore P attribute_map ego_actor_id other_actor_id =
     (case attribute_map other_actor_id of
        None \<Rightarrow> False
      | Some other_attributes \<Rightarrow>
          (if actor_type other_attributes = Vehicle
           then 0 < GetPercentageIgnoreVehicles P ego_actor_id
           else if actor_type other_attributes = Pedestrian
           then 0 < GetPercentageIgnoreWalkers P ego_actor_id
           else True))"

section \<open>Motion planner\<close>

text \<open>
  Time instants of \<open>chr::system_clock\<close> are seconds as reals; \<open>now n\<close> is the reading
  of the \<open>n\<close>-th call of \<open>system_clock::now()\<close>, and the counter of calls is threaded
  through like the one of \<open>rand()\<close>.
\<close>

type_synonym TimeInstance = real

record StateEntry =
  deviation :: real
  deviation_integral :: real
  time_instance :: TimeInstance
  velocity_state :: real
  velocity_integral :: real

record ActuationSignal =
  throttle :: real
  brake :: real
  steer :: real

record VehicleControl =
  control_throttle :: real
  control_brake :: real
  control_steer :: real

datatype Command =
    ApplyVehicleControl ActorId VehicleControl
  | ApplyTransform ActorId Transform

text \<open>The vehicle control a command carries; a transform carries none.\<close>

fun issued_control :: "Command \<Rightarrow> VehicleControl option" where
  "issued_control (ApplyVehicleControl a c) = Some c"
| "issued_control (ApplyTransform a t) = None"

text \<open>
  The collaborators of the planner that are not among the sources: the PID controller
  of \<open>PIDController.h\<close> and the two deviation products of \<open>LocalizationUtils.h\<close>.
  They are parameters of the model.
\<close>

record Controller =
  StateUpdate :: "StateEntry \<Rightarrow> real \<Rightarrow> real \<Rightarrow> real \<Rightarrow> TimeInstance \<Rightarrow> StateEntry"
  RunStep :: "StateEntry \<Rightarrow> StateEntry \<Rightarrow> real list \<Rightarrow> real list \<Rightarrow> ActuationSignal"
  DeviationDotProduct :: "Location \<Rightarrow> Vector3D \<Rightarrow> Location \<Rightarrow> real"
  DeviationCrossProduct :: "Location \<Rightarrow> Vector3D \<Rightarrow> Location \<Rightarrow> real"

definition wp_Distance :: "SimpleWaypoint \<Rightarrow> Location \<Rightarrow> real" where
  "wp_Distance w l = Length (vsub (wp_GetLocation w) l)"

text \<open>
  The collision related data handling: the dynamic target velocity before clipping
  and the flag \<open>collision_emergency_stop\<close>.
\<close>

definition collision_handling ::
  "Constants \<Rightarrow> KinematicStateMap \<Rightarrow> CollisionHazardData \<Rightarrow> Vector3D \<Rightarrow> Vector3D \<Rightarrow> real
     \<Rightarrow> error + (real \<times> bool)" where
  "collision_handling K state_map collision_hazard ego_velocity ego_heading max_target_velocity =
     (if hazard collision_hazard then
        (case state_map (hazard_actor_id collision_hazard) of
           None \<Rightarrow> Inl OutOfRange
         | Some other_kinematic_state \<Rightarrow>
             (let other_velocity = velocity other_kinematic_state;
                  ego_relative_speed = Length (vsub ego_velocity other_velocity);
                  available_distance_margin = available_distance_margin collision_hazard;
                  other_speed_along_heading = Dot other_velocity ego_heading;
                  follow_lead_distance =
                    ego_relative_speed * FOLLOW_DISTANCE_RATE K + MIN_FOLLOW_LEAD_DISTANCE K;
                  approach =
                    (if ego_relative_speed > EPSILON_RELATIVE_SPEED K then
                       (if margin_gt available_distance_margin follow_lead_distance
                        then (other_speed_along_heading + RELATIVE_APPROACH_SPEED K, False)
                        else if margin_gt available_distance_margin (CRITICAL_BRAKING_MARGIN K)
                        then (max other_speed_along_heading (RELATIVE_APPROACH_SPEED K), False)
                        else (max_target_velocity, True))
                     else (max_target_velocity, False))
              in Inr (fst approach,
                      (if margin_lt available_distance_margin (CRITICAL_BRAKING_MARGIN K)
                       then True else snd approach))))
      else Inr (max_target_velocity, False))"

text \<open>The transform of the teleport branch.\<close>

definition teleport_target :: "Constants \<Rightarrow> Externals \<Rightarrow> Buffer \<Rightarrow> Location \<Rightarrow> real \<Rightarrow> Transform" where
  "teleport_target K X waypoint_buffer ego_location dynamic_target_velocity =
     (let target_displacement = dynamic_target_velocity * HYBRID_MODE_DT K;
          teleport_target_waypoint = fst (GetTargetWaypoint X waypoint_buffer target_displacement);
          base_displacement = wp_Distance teleport_target_waypoint ego_location;
          missing_displacement =
            (if base_displacement < target_displacement
             then target_displacement - base_displacement else 0);
          target_base_transform = wp_transform teleport_target_waypoint;
          target_base_location = location target_base_transform;
          target_heading = GetForwardVector (rotation target_base_transform);
          teleportation_location = vadd target_base_location (vscale target_heading missing_displacement)
      in \<lparr>location = teleportation_location, rotation = rotation target_base_transform\<rparr>)"

definition initial_state :: "TimeInstance \<Rightarrow> StateEntry" where
  "initial_state t =
     \<lparr>deviation = 0, deviation_integral = 0, time_instance = t,
      velocity_state = 0, velocity_integral = 0\<rparr>"

definition MotionPlan ::
  "Constants \<Rightarrow> Externals \<Rightarrow> Controller \<Rightarrow> Parameters \<Rightarrow> (nat \<Rightarrow> TimeInstance) \<Rightarrow> nat \<Rightarrow> ActorId list
     \<Rightarrow> KinematicStateMap \<Rightarrow> StaticAttributeMap \<Rightarrow> BufferMap
     \<Rightarrow> real list \<Rightarrow> real list \<Rightarrow> real list \<Rightarrow> real list
     \<Rightarrow> CollisionHazardData list \<Rightarrow> bool list
     \<Rightarrow> (ActorId \<rightharpoonup> StateEntry) \<Rightarrow> (ActorId \<rightharpoonup> TimeInstance) \<Rightarrow> Command list \<Rightarrow> nat
     \<Rightarrow> error + ((ActorId \<rightharpoonup> StateEntry) \<times> (ActorId \<rightharpoonup> TimeInstance) \<times> Command list \<times> nat)" where
  "MotionPlan K X C P now index vehicle_id_list state_map attribute_map buffer_map
       urban_longitudinal_parameters highway_longitudinal_parameters
       urban_lateral_parameters highway_lateral_parameters
       collision_frame tl_frame pid_state_map teleportation_instance output_array clock_calls =
     (if \<not> index < length vehicle_id_list then Inl OutOfRange
      else
        (let actor_id = vehicle_id_list ! index in
         case state_map actor_id of
           None \<Rightarrow> Inl OutOfRange
         | Some kinematic_state \<Rightarrow>
        (let ego_location = location kinematic_state;
             ego_velocity = velocity kinematic_state;
             ego_speed = Length ego_velocity;
             ego_heading = GetForwardVector (rotation kinematic_state);
             ego_physics_enabled = physics_enabled kinematic_state
         in case buffer_map actor_id of
              None \<Rightarrow> Inl OutOfRange
            | Some waypoint_buffer \<Rightarrow>
        (if \<not> index < length collision_frame then Inl OutOfRange
         else if \<not> index < length tl_frame then Inl OutOfRange
         else
        (let collision_hazard = collision_frame ! index;
             tl_hazard = tl_frame ! index;
             target_point_distance =
               max (ego_speed * TARGET_WAYPOINT_TIME_HORIZON K) (TARGET_WAYPOINT_HORIZON_LENGTH K);
             target_waypoint = fst (GetTargetWaypoint X waypoint_buffer target_point_distance);
             target_location = wp_GetLocation target_waypoint;
             dot_product = 1 - DeviationDotProduct C ego_location ego_heading target_location;
             cross_product = DeviationCrossProduct C ego_location ego_heading target_location;
             current_deviation = (if cross_product < 0 then dot_product * (- 1) else dot_product);
             pid_state_map1 =
               (if pid_state_map actor_id = None
                then pid_state_map(actor_id \<mapsto> initial_state (now clock_calls))
                else pid_state_map);
             clock_calls1 = (if pid_state_map actor_id = None then Suc clock_calls else clock_calls);
             previous_state =
               (case pid_state_map actor_id of
                  None \<Rightarrow> initial_state (now clock_calls)
                | Some st \<Rightarrow> st);
             longitudinal_parameters =
               (if ego_speed > HIGHWAY_SPEED K
                then highway_longitudinal_parameters else urban_longitudinal_parameters);
             lateral_parameters =
               (if ego_speed > HIGHWAY_SPEED K
                then highway_lateral_parameters else urban_lateral_parameters)
         in case attribute_map actor_id of
              None \<Rightarrow> Inl OutOfRange
            | Some attributes \<Rightarrow>
        (let ego_speed_limit = speed_limit attributes;
             max_target_velocity = GetVehicleTargetVelocity P actor_id ego_speed_limit / 3.6
         in bind_result
              (collision_handling K state_map collision_hazard ego_velocity ego_heading
                 max_target_velocity)
              (\<lambda>(unclipped_target_velocity, collision_emergency_stop).
        (let dynamic_target_velocity = min max_target_velocity unclipped_target_velocity;
             emergency_stop = (tl_hazard \<or> collision_emergency_stop);
             current_time = now clock_calls1;
             clock_calls2 = Suc clock_calls1
         in if ego_physics_enabled then
              (let updated_state =
                     StateUpdate C previous_state ego_speed dynamic_target_velocity
                       current_deviation current_time;
                   stepped_signal =
                     RunStep C updated_state previous_state longitudinal_parameters lateral_parameters;
                   current_state =
                     (if emergency_stop
                      then updated_state\<lparr>deviation_integral := 0, velocity_integral := 0\<rparr>
                      else updated_state);
                   actuation_signal =
                     (if emergency_stop
                      then stepped_signal\<lparr>throttle := 0, brake := 1\<rparr>
                      else stepped_signal)
               in if \<not> index < length output_array then Inl OutOfRange
                  else Inr (pid_state_map1(actor_id \<mapsto> current_state),
                            teleportation_instance,
                            output_array[index :=
                              ApplyVehicleControl actor_id
                                \<lparr>control_throttle = throttle actuation_signal,
                                 control_brake = brake actuation_signal,
                                 control_steer = steer actuation_signal\<rparr>],
                            clock_calls2))
            else
              (let current_state = initial_state (now clock_calls2);
                   clock_calls3 = Suc clock_calls2;
                   teleportation_instance1 =
                     (if teleportation_instance actor_id = None
                      then teleportation_instance(actor_id \<mapsto> now clock_calls3)
                      else teleportation_instance);
                   clock_calls4 =
                     (if teleportation_instance actor_id = None then Suc clock_calls3 else clock_calls3);
                   last_teleport =
                     (case teleportation_instance actor_id of
                        None \<Rightarrow> now clock_calls3
                      | Some t \<Rightarrow> t);
                   elapsed_time = current_time - last_teleport;
                   teleportation_transform =
                     (if \<not> emergency_stop
                         \<and> (GetSynchronousMode P \<or> elapsed_time > HYBRID_MODE_DT K)
                      then teleport_target K X waypoint_buffer ego_location dynamic_target_velocity
                      else \<lparr>location = ego_location, rotation = rotation kinematic_state\<rparr>)
               in if \<not> index < length output_array then Inl OutOfRange
                  else Inr (pid_state_map1(actor_id \<mapsto> current_state),
                            teleportation_instance1,
                            output_array[index := ApplyTransform actor_id teleportation_transform],
                            clock_calls4))))))))))"

text \<open>
  A run of the planner: the states \<open>(pid_state_map, teleportation_instance,
  output_array, clock_calls)\<close> reached from a state by any number of successful
  \<open>MotionPlan\<close> calls, each with inputs of its own.
\<close>

inductive MotionPlan_calls ::
  "(nat \<Rightarrow> TimeInstance)
     \<Rightarrow> (ActorId \<rightharpoonup> StateEntry) \<times> (ActorId \<rightharpoonup> TimeInstance) \<times> Command list \<times> nat
     \<Rightarrow> (ActorId \<rightharpoonup> StateEntry) \<times> (ActorId \<rightharpoonup> TimeInstance) \<times> Command list \<times> nat
     \<Rightarrow> bool"
  for now :: "nat \<Rightarrow> TimeInstance" where
    no_call: "MotionPlan_calls now s s"
  | one_more_call:
      "MotionPlan_calls now s (pid_state_map, teleportation_instance, output_array, clock_calls)
       \<Longrightarrow> MotionPlan K X C P now index vehicle_id_list state_map attribute_map buffer_map
             urban_longitudinal_parameters highway_longitudinal_parameters
             urban_lateral_parameters highway_lateral_parameters collision_frame tl_frame
             pid_state_map teleportation_instance output_array clock_calls = Inr s'
       \<Longrightarrow> MotionPlan_calls now s s'"

section \<open>The rules of the specification\<close>

text \<open>
  The gate of the negotiator in the words of the specification: \<open>d\<^sup>2\<close> is the squared
  distance of the two locations, \<open>L\<close> the sum of the two half-lengths scaled by
  \<open>\<surd>2\<close>, and the ranges are the squares of the extended lengths.
\<close>

definition spec_gate ::
  "Constants \<Rightarrow> ActorId \<Rightarrow> ActorId \<Rightarrow> CollisionLockMap \<Rightarrow> KinematicState \<Rightarrow> KinematicState
     \<Rightarrow> StaticAttributes \<Rightarrow> StaticAttributes \<Rightarrow> TrafficLightState \<Rightarrow> Buffer \<Rightarrow> nat \<Rightarrow> bool" where
  "spec_gate K ref other locks ref_state other_state ref_attr other_attr tls buffer lookahead =
     (let d2 = DistanceSquared (location ref_state) (location other_state);
          ext_ref = GetBoundingBoxExtention K ref ref_state locks;
          ext_other = GetBoundingBoxExtention K other other_state locks;
          L = half_length ref_attr * SQUARE_ROOT_OF_TWO K
              + half_length other_attr * SQUARE_ROOT_OF_TWO K;
          ego_range = (ext_ref + L)\<^sup>2;
          cross_range = (ext_ref + L + ext_other)\<^sup>2;
          other_in_front =
            (Dot (GetForwardVector (rotation ref_state))
                 (normalized (vsub (location other_state) (location ref_state))) > 0);
          ego_inside_junction = wp_junction (buffer ! 0);
          ego_at_junction_entrance =
            (\<not> wp_junction (buffer ! 0) \<and> wp_junction (buffer ! lookahead));
          ego_stopped_by_light = (tl_state tls \<noteq> Green)
      in \<not> (ego_at_junction_entrance \<and> at_traffic_light tls \<and> ego_stopped_by_light)
         \<and> ((ego_inside_junction \<and> d2 < cross_range)
            \<or> (\<not> ego_inside_junction \<and> other_in_front \<and> d2 < ego_range)))"

text \<open>The hazard rule in the words of the specification, over the five geometric
  predicates of a comparison and the angular priority.\<close>

definition spec_hazard_rule :: "GeometryComparison \<Rightarrow> bool \<Rightarrow> bool" where
  "spec_hazard_rule gc angular_priority =
     (let corridors_touching = (inter_geodesic_distance gc < 0.1);
          bodies_touching = (inter_bbox_distance gc < 0.1);
          ego_path_clear = (other_vehicle_to_reference_geodesic gc > 0.1);
          other_path_clear = (reference_vehicle_to_other_geodesic gc > 0.1);
          ego_path_priority =
            (reference_vehicle_to_other_geodesic gc < other_vehicle_to_reference_geodesic gc)
      in corridors_touching
         \<and> ((\<not> bodies_touching
              \<and> (\<not> ego_path_clear
                  \<or> (ego_path_clear \<and> other_path_clear
                      \<and> \<not> angular_priority \<and> \<not> ego_path_priority)))
            \<or> (bodies_touching \<and> \<not> angular_priority \<and> \<not> ego_path_priority)))"

text \<open>The margin in the words of the specification.\<close>

definition spec_margin :: "Constants \<Rightarrow> GeometryComparison \<Rightarrow> real \<Rightarrow> real" where
  "spec_margin K gc lead_distance =
     max (reference_vehicle_to_other_geodesic gc - max lead_distance (BOUNDARY_EXTENSION_MINIMUM K)) 0"

text \<open>The angular priority in the words of the specification: the second dot product
  takes the forward vector of the other vehicle.\<close>

definition spec_angular_priority :: "KinematicState \<Rightarrow> KinematicState \<Rightarrow> bool" where
  "spec_angular_priority ref_state other_state =
     (Dot (GetForwardVector (rotation ref_state))
          (normalized (vsub (location other_state) (location ref_state)))
      < Dot (GetForwardVector (rotation other_state))
            (normalized (vsub (location ref_state) (location other_state))))"

section \<open>An example scene\<close>

text \<open>
  Sample values for the constants, and stand-ins for the collaborators, for running
  the two stages on a straight road along the x axis: \<open>example_target_waypoint\<close> scans
  the buffer for the first waypoint at the asked distance from its front, and
  \<open>example_distance\<close> is the gap between the x-extents of two rings, which is their
  distance when their edges are parallel to the axes and their y-extents overlap, as
  for every vehicle of the scene.
\<close>

definition example_constants :: Constants where
  "example_constants =
     \<lparr>BOUNDARY_EXTENSION_RATE = 4, BOUNDARY_EXTENSION_MINIMUM = 2.5,
      LOCKING_DISTANCE_PADDING = 4, MAX_LOCKING_EXTENSION = 10, COS_10_DEGREES = 0.9848,
      WALKER_TIME_EXTENSION = 1.5, SQUARE_ROOT_OF_TWO = 1.414, MAX_COLLISION_RADIUS = 100,
      VERTICAL_OVERLAP_THRESHOLD = 4, JUNCTION_LOOK_AHEAD = 10, HIGHWAY_SPEED = 14,
      TARGET_WAYPOINT_TIME_HORIZON = 0.5, TARGET_WAYPOINT_HORIZON_LENGTH = 2.5,
      FOLLOW_DISTANCE_RATE = 0.1, MIN_FOLLOW_LEAD_DISTANCE = 5, RELATIVE_APPROACH_SPEED = 2.5,
      CRITICAL_BRAKING_MARGIN = 0.25, EPSILON_RELATIVE_SPEED = 0.001, HYBRID_MODE_DT = 0.05\<rparr>"

definition waypoint_at :: "real \<Rightarrow> bool \<Rightarrow> SimpleWaypoint" where
  "waypoint_at a j =
     \<lparr>wp_transform = \<lparr>location = vec a 0 0, rotation = \<lparr>forward_vector = vec 1 0 0\<rparr>\<rparr>,
      wp_junction = j\<rparr>"

fun scan_target :: "SimpleWaypoint \<Rightarrow> real \<Rightarrow> nat \<Rightarrow> Buffer \<Rightarrow> SimpleWaypoint \<times> nat" where
  "scan_target front d i [] = (front, i)"
| "scan_target front d i [w] = (w, i)"
| "scan_target front d i (w # v # ws) =
     (if wp_DistanceSquared front w < d * d then scan_target front d (Suc i) (v # ws) else (w, i))"

definition example_target_waypoint :: "Buffer \<Rightarrow> real \<Rightarrow> SimpleWaypoint \<times> nat" where
  "example_target_waypoint buf d =
     (case buf of [] \<Rightarrow> (waypoint_at 0 False, 0) | front # _ \<Rightarrow> scan_target front d 0 buf)"

fun min_x :: "Polygon \<Rightarrow> real" where
  "min_x [] = 0"
| "min_x [p] = fst p"
| "min_x (p # q # ps) = min (fst p) (min_x (q # ps))"

fun max_x :: "Polygon \<Rightarrow> real" where
  "max_x [] = 0"
| "max_x [p] = fst p"
| "max_x (p # q # ps) = max (fst p) (max_x (q # ps))"

definition example_distance :: "Polygon \<Rightarrow> Polygon \<Rightarrow> real" where
  "example_distance p q = max 0 (max (min_x q - max_x p) (min_x p - max_x q))"

definition example_externals :: Externals where
  "example_externals =
     \<lparr>bg_distance = example_distance, GetTargetWaypoint = example_target_waypoint\<rparr>"

definition vehicle_at :: "real \<Rightarrow> real \<Rightarrow> bool \<Rightarrow> KinematicState" where
  "vehicle_at a v ph =
     \<lparr>location = vec a 0 0, rotation = \<lparr>forward_vector = vec 1 0 0\<rparr>,
      velocity = vec v 0 0, physics_enabled = ph\<rparr>"

definition heading_vehicle :: "Location \<Rightarrow> Vector3D \<Rightarrow> KinematicState" where
  "heading_vehicle l h =
     \<lparr>location = l, rotation = \<lparr>forward_vector = h\<rparr>,
      velocity = vec 0 0 0, physics_enabled = True\<rparr>"

definition car :: StaticAttributes where
  "car = \<lparr>actor_type = Vehicle, half_length = 2, half_width = 1, speed_limit = 36\<rparr>"

definition ego_route :: Buffer where
  "ego_route =
     [waypoint_at 0 False, waypoint_at 10 False, waypoint_at 20 False, waypoint_at 60 False]"

definition lead_route :: Buffer where
  "lead_route =
     [waypoint_at 20 False, waypoint_at 30 False, waypoint_at 40 False, waypoint_at 70 False]"

definition green_light :: TrafficLightState where
  "green_light = \<lparr>tl_state = Green, at_traffic_light = False\<rparr>"

text \<open>The scene: the ego, actor 1, at the origin at 10 m/s; its lead, actor 2, 20 m
  ahead at 5 m/s.\<close>

definition example_states :: KinematicStateMap where
  "example_states = [1 \<mapsto> vehicle_at 0 10 True, 2 \<mapsto> vehicle_at 20 5 True]"

definition example_attributes :: StaticAttributeMap where
  "example_attributes = [1 \<mapsto> car, 2 \<mapsto> car]"

definition example_lights :: TrafficLightStateMap where
  "example_lights = [1 \<mapsto> green_light, 2 \<mapsto> green_light]"

definition example_buffers :: BufferMap where
  "example_buffers = [1 \<mapsto> ego_route, 2 \<mapsto> lead_route]"

definition lead_only_buffers :: BufferMap where
  "lead_only_buffers = [2 \<mapsto> lead_route]"

definition example_parameters :: Parameters where
  "example_parameters =
     \<lparr>GetDistanceToLeadingVehicle = (\<lambda>_. 1),
      GetCollisionDetection = (\<lambda>_ _. True),
      GetPercentageIgnoreVehicles = (\<lambda>_. 0),
      GetPercentageIgnoreWalkers = (\<lambda>_. 0),
      GetVehicleTargetVelocity = (\<lambda>_ limit. limit),
      GetSynchronousMode = False\<rparr>"

definition ignoring_parameters :: Parameters where
  "ignoring_parameters = example_parameters\<lparr>GetPercentageIgnoreVehicles := (\<lambda>_. 100)\<rparr>"

definition example_track :: TrackTraffic where
  "example_track = \<lparr>GetOverlappingVehicles = (\<lambda>a. if a = 1 then [2] else [])\<rparr>"

definition empty_track :: TrackTraffic where
  "empty_track = \<lparr>GetOverlappingVehicles = (\<lambda>a. [])\<rparr>"

definition example_rand :: "nat \<Rightarrow> nat" where
  "example_rand n = 7 * n"

definition no_hazard_record :: CollisionHazardData where
  "no_hazard_record = \<lparr>hazard = False, hazard_actor_id = 0, available_distance_margin = Infinity\<rparr>"

definition lead_lock :: CollisionLock where
  "lead_lock = \<lparr>lead_vehicle_id = 2, distance_to_lead_vehicle = 16, initial_lock_distance = 16\<rparr>"

definition lead_comparison :: GeometryComparison where
  "lead_comparison =
     \<lparr>reference_vehicle_to_other_geodesic = 16, other_vehicle_to_reference_geodesic = 0,
      inter_geodesic_distance = 0, inter_bbox_distance = 16\<rparr>"

text \<open>Two vehicles for the angular priority: the reference at the origin heading along
  y, the other 10 m away along x and heading straight at the reference.\<close>

definition crossing_reference :: KinematicState where
  "crossing_reference = heading_vehicle (vec 0 0 0) (vec 0 1 0)"

definition crossing_other :: KinematicState where
  "crossing_other = heading_vehicle (vec 10 0 0) (vec (- 1) 0 0)"

text \<open>A third vehicle, actor 3, standing 50 m ahead of the ego, and what the query for
  the pair \<open>(3, 1)\<close> on empty caches computes and stores.\<close>

definition third_route :: Buffer where
  "third_route =
     [waypoint_at 50 False, waypoint_at 60 False, waypoint_at 70 False, waypoint_at 100 False]"

definition third_corridor :: LocationList where
  "third_corridor =
     [vec 70 (- 1) 0, vec 60 (- 1) 0,
      vec 52 (- 1) 0, vec 48 (- 1) 0, vec 48 1 0, vec 52 1 0,
      vec 60 1 0, vec 70 1 0]"

definition stored_comparison :: GeometryComparison where
  "stored_comparison =
     \<lparr>reference_vehicle_to_other_geodesic = 28, other_vehicle_to_reference_geodesic = 46,
      inter_geodesic_distance = 28, inter_bbox_distance = 46\<rparr>"

definition cache_after_3_1 :: GeometryComparisonMap where
  "cache_after_3_1 = [actor_id_key 3 1 \<mapsto> stored_comparison]"

definition answer_for_2_1 :: GeometryComparison where
  "answer_for_2_1 =
     \<lparr>reference_vehicle_to_other_geodesic = 46, other_vehicle_to_reference_geodesic = 28,
      inter_geodesic_distance = 28, inter_bbox_distance = 46\<rparr>"

text \<open>The corridors of the two vehicles of the scene, and the caches and the lock map
  the negotiation of the pair \<open>(1, 2)\<close> leaves behind.\<close>

definition ego_corridor :: LocationList where
  "ego_corridor =
     [vec 20 (- 1) 0, vec 10 (- 1) 0,
      vec 2 (- 1) 0, vec (- 2) (- 1) 0, vec (- 2) 1 0, vec 2 1 0,
      vec 10 1 0, vec 20 1 0]"

definition lead_corridor :: LocationList where
  "lead_corridor =
     [vec 40 (- 1) 0, vec 30 (- 1) 0,
      vec 22 (- 1) 0, vec 18 (- 1) 0, vec 18 1 0, vec 22 1 0,
      vec 30 1 0, vec 40 1 0]"

definition example_geodesics :: GeodesicBoundaryMap where
  "example_geodesics = [1 \<mapsto> ego_corridor, 2 \<mapsto> lead_corridor]"

definition example_cache :: GeometryComparisonMap where
  "example_cache = [actor_id_key 1 2 \<mapsto> lead_comparison]"

text \<open>The example scene a tick later, with the lead out of reach, 90 m ahead.\<close>

definition departed_states :: KinematicStateMap where
  "departed_states = [1 \<mapsto> vehicle_at 0 10 True, 2 \<mapsto> vehicle_at 90 5 True]"

text \<open>
  A crossing: actor 1, a car at the origin heading along y at 5 m/s, and actor 2, a
  truck at \<open>(8, 6)\<close> heading along \<open>-x\<close> at 5 m/s, whose route crosses the route of
  the car ahead of it. Every ring of this scene is a rectangle with its edges parallel
  to the axes, and \<open>box_distance\<close>, the stand-in for the polygon distance here, is the
  Euclidean distance of the two rectangles spanned by the extents of the rings.
\<close>

definition waypoint_facing :: "Location \<Rightarrow> Vector3D \<Rightarrow> SimpleWaypoint" where
  "waypoint_facing l h =
     \<lparr>wp_transform = \<lparr>location = l, rotation = \<lparr>forward_vector = h\<rparr>\<rparr>, wp_junction = False\<rparr>"

fun min_y :: "Polygon \<Rightarrow> real" where
  "min_y [] = 0"
| "min_y [p] = snd p"
| "min_y (p # q # ps) = min (snd p) (min_y (q # ps))"

fun max_y :: "Polygon \<Rightarrow> real" where
  "max_y [] = 0"
| "max_y [p] = snd p"
| "max_y (p # q # ps) = max (snd p) (max_y (q # ps))"

definition box_distance :: "Polygon \<Rightarrow> Polygon \<Rightarrow> real" where
  "box_distance p q =
     (let gap_x = max 0 (max (min_x q - max_x p) (min_x p - max_x q));
          gap_y = max 0 (max (min_y q - max_y p) (min_y p - max_y q))
      in sqrt (gap_x * gap_x + gap_y * gap_y))"

definition crossing_externals :: Externals where
  "crossing_externals =
     \<lparr>bg_distance = box_distance, GetTargetWaypoint = example_target_waypoint\<rparr>"

definition driving_vehicle :: "Location \<Rightarrow> Vector3D \<Rightarrow> real \<Rightarrow> KinematicState" where
  "driving_vehicle l h v =
     \<lparr>location = l, rotation = \<lparr>forward_vector = h\<rparr>,
      velocity = vscale h v, physics_enabled = True\<rparr>"

definition northbound_car :: KinematicState where
  "northbound_car = driving_vehicle (vec 0 0 0) (vec 0 1 0) 5"

definition westbound_truck :: KinematicState where
  "westbound_truck = driving_vehicle (vec 8 6 0) (vec (- 1) 0 0) 5"

definition truck :: StaticAttributes where
  "truck = \<lparr>actor_type = Vehicle, half_length = 6, half_width = 1, speed_limit = 36\<rparr>"

definition north_route :: Buffer where
  "north_route =
     [waypoint_facing (vec 0 0 0) (vec 0 1 0), waypoint_facing (vec 0 10 0) (vec 0 1 0),
      waypoint_facing (vec 0 20 0) (vec 0 1 0), waypoint_facing (vec 0 60 0) (vec 0 1 0)]"

definition west_route :: Buffer where
  "west_route =
     [waypoint_facing (vec 8 6 0) (vec (- 1) 0 0), waypoint_facing (vec (- 2) 6 0) (vec (- 1) 0 0),
      waypoint_facing (vec (- 12) 6 0) (vec (- 1) 0 0),
      waypoint_facing (vec (- 52) 6 0) (vec (- 1) 0 0)]"

definition north_corridor :: LocationList where
  "north_corridor =
     [vec 1 20 0, vec 1 10 0,
      vec 1 2 0, vec 1 (- 2) 0, vec (- 1) (- 2) 0, vec (- 1) 2 0,
      vec (- 1) 10 0, vec (- 1) 20 0]"

definition west_corridor :: LocationList where
  "west_corridor =
     [vec (- 12) 7 0, vec (- 2) 7 0,
      vec 2 7 0, vec 14 7 0, vec 14 5 0, vec 2 5 0,
      vec (- 2) 5 0, vec (- 12) 5 0]"

definition crossing_comparison :: GeometryComparison where
  "crossing_comparison =
     \<lparr>reference_vehicle_to_other_geodesic = 3, other_vehicle_to_reference_geodesic = 1,
      inter_geodesic_distance = 0, inter_bbox_distance = sqrt 10\<rparr>"

definition crossing_cache :: GeometryComparisonMap where
  "crossing_cache = [actor_id_key 1 2 \<mapsto> crossing_comparison]"

definition crossing_geodesics :: GeodesicBoundaryMap where
  "crossing_geodesics = [1 \<mapsto> north_corridor, 2 \<mapsto> west_corridor]"

definition crossing_lock :: CollisionLockMap where
  "crossing_lock =
     [1 \<mapsto> \<lparr>lead_vehicle_id = 2, distance_to_lead_vehicle = sqrt 10,
              initial_lock_distance = sqrt 10\<rparr>]"

definition geodesics_after_3_1 :: GeodesicBoundaryMap where
  "geodesics_after_3_1 = [3 \<mapsto> third_corridor, 1 \<mapsto> ego_corridor]"

definition no_locks :: CollisionLockMap where
  "no_locks = Map.empty"

definition locked_on_lead :: CollisionLockMap where
  "locked_on_lead = [1 \<mapsto> lead_lock]"

definition lead_hazard_record :: CollisionHazardData where
  "lead_hazard_record =
     \<lparr>hazard = True, hazard_actor_id = 2, available_distance_margin = Finite 13.5\<rparr>"

text \<open>
  For the planner: a stand-in for the controller (the state keeps the deviation and the
  velocity error and sums them up; the step opens the throttle while the vehicle is not
  above its target speed and brakes otherwise), a clock that advances by a tenth of a
  second with every reading, and the frames and tables of a tick for the ego alone.
\<close>

definition example_controller :: Controller where
  "example_controller =
     \<lparr>StateUpdate = (\<lambda>previous_state speed target_speed dev t.
          \<lparr>deviation = dev,
           deviation_integral = deviation_integral previous_state + dev,
           time_instance = t,
           velocity_state = speed - target_speed,
           velocity_integral = velocity_integral previous_state + (speed - target_speed)\<rparr>),
      RunStep = (\<lambda>present_state previous_state longitudinal lateral.
          \<lparr>throttle = (if velocity_state present_state \<le> 0 then 1 else 0),
           brake = (if velocity_state present_state \<le> 0 then 0 else 1),
           steer = deviation present_state\<rparr>),
      DeviationDotProduct = (\<lambda>l h t. 1),
      DeviationCrossProduct = (\<lambda>l h t. 0)\<rparr>"

definition example_now :: "nat \<Rightarrow> TimeInstance" where
  "example_now n = real n / 10"

definition ghost_states :: KinematicStateMap where
  "ghost_states = [1 \<mapsto> vehicle_at 0 10 False, 2 \<mapsto> vehicle_at 20 5 True]"

definition near_miss_record :: CollisionHazardData where
  "near_miss_record =
     \<lparr>hazard = False, hazard_actor_id = 0, available_distance_margin = Finite 0.1\<rparr>"

definition hold_at :: "real \<Rightarrow> Command" where
  "hold_at a =
     ApplyTransform 1 \<lparr>location = vec a 0 0, rotation = \<lparr>forward_vector = vec 1 0 0\<rparr>\<rparr>"

definition braking_control :: VehicleControl where
  "braking_control = \<lparr>control_throttle = 0, control_brake = 1, control_steer = 0\<rparr>"

definition full_throttle_control :: VehicleControl where
  "full_throttle_control = \<lparr>control_throttle = 1, control_brake = 0, control_steer = 0\<rparr>"

definition no_pid_state :: "ActorId \<rightharpoonup> StateEntry" where
  "no_pid_state = Map.empty"

definition flushed_pid_state :: "TimeInstance \<Rightarrow> ActorId \<rightharpoonup> StateEntry" where
  "flushed_pid_state t = [1 \<mapsto> initial_state t]"

definition no_teleports :: "ActorId \<rightharpoonup> TimeInstance" where
  "no_teleports = Map.empty"

definition first_teleport :: "ActorId \<rightharpoonup> TimeInstance" where
  "first_teleport = [1 \<mapsto> 0.3]"

section \<open>Evaluation of the example scene\<close>

lemmas vec_simps = vec_def vadd_def vsub_def vscale_def vdiv_def Dot_def Length_def
  DistanceSquared_def MakeUnitVector_def SQUARE_def GetForwardVector_def
  wp_GetLocation_def wp_GetForwardVector_def wp_DistanceSquared_def CheckJunction_def

lemma example_constants_simps:
  "BOUNDARY_EXTENSION_RATE example_constants = 4"
  "BOUNDARY_EXTENSION_MINIMUM example_constants = 2.5"
  "LOCKING_DISTANCE_PADDING example_constants = 4"
  "MAX_LOCKING_EXTENSION example_constants = 10"
  "COS_10_DEGREES example_constants = 0.9848"
  "WALKER_TIME_EXTENSION example_constants = 1.5"
  "SQUARE_ROOT_OF_TWO example_constants = 1.414"
  "MAX_COLLISION_RADIUS example_constants = 100"
  "VERTICAL_OVERLAP_THRESHOLD example_constants = 4"
  "JUNCTION_LOOK_AHEAD example_constants = 10"
  "HIGHWAY_SPEED example_constants = 14"
  "TARGET_WAYPOINT_TIME_HORIZON example_constants = 0.5"
  "TARGET_WAYPOINT_HORIZON_LENGTH example_constants = 2.5"
  "FOLLOW_DISTANCE_RATE example_constants = 0.1"
  "MIN_FOLLOW_LEAD_DISTANCE example_constants = 5"
  "RELATIVE_APPROACH_SPEED example_constants = 2.5"
  "CRITICAL_BRAKING_MARGIN example_constants = 0.25"
  "EPSILON_RELATIVE_SPEED example_constants = 0.001"
  "HYBRID_MODE_DT example_constants = 0.05"
  by (simp_all add: example_constants_def)

lemma example_externals_simps:
  "bg_distance example_externals = example_distance"
  "GetTargetWaypoint example_externals = example_target_waypoint"
  by (simp_all add: example_externals_def)

lemma sqrt_400: "sqrt 400 = 20"
  by (rule real_sqrt_unique) simp_all

lemma sqrt_100: "sqrt 100 = 10"
  by (rule real_sqrt_unique) simp_all

lemma key_1_2: "actor_id_key 1 2 = ''1|2''"
  by (simp add: actor_id_key_def to_string.simps)

lemma car_simps:
  "actor_type car = Vehicle" "half_length car = 2" "half_width car = 1" "speed_limit car = 36"
  by (simp_all add: car_def)

lemma vehicle_at_simps:
  "location (vehicle_at a v ph) = vec a 0 0"
  "rotation (vehicle_at a v ph) = \<lparr>forward_vector = vec 1 0 0\<rparr>"
  "velocity (vehicle_at a v ph) = vec v 0 0"
  "physics_enabled (vehicle_at a v ph) = ph"
  by (simp_all add: vehicle_at_def)

lemma ex_bbox_ego: "GetBoundary example_constants (vehicle_at 0 10 True) car
   = [vec 2 (-1) 0, vec (-2) (-1) 0, vec (-2) 1 0, vec 2 1 0]"
  by (simp add: GetBoundary_def vehicle_at_simps car_simps vec_simps Let_def)

lemma ex_bbox_lead: "GetBoundary example_constants (vehicle_at 20 5 True) car
   = [vec 22 (-1) 0, vec 18 (-1) 0, vec 18 1 0, vec 22 1 0]"
  by (simp add: GetBoundary_def vehicle_at_simps car_simps vec_simps Let_def)

lemma ex_ext_ego:
  "GetBoundingBoxExtention example_constants 1 (vehicle_at 0 10 True) Map.empty = 42.5"
  by (simp add: GetBoundingBoxExtention_def example_constants_simps vehicle_at_simps vec_simps)

lemma ex_ext_lead:
  "GetBoundingBoxExtention example_constants 2 (vehicle_at 20 5 True) Map.empty = 22.5"
  by (simp add: GetBoundingBoxExtention_def example_constants_simps vehicle_at_simps vec_simps)

lemma ex_target_ego: "example_target_waypoint ego_route 2 = (waypoint_at 10 False, 1)"
  by (simp add: example_target_waypoint_def ego_route_def waypoint_at_def vec_simps)

lemma ex_target_lead: "example_target_waypoint lead_route 2 = (waypoint_at 30 False, 1)"
  by (simp add: example_target_waypoint_def lead_route_def waypoint_at_def vec_simps)

lemma ex_walk_ego:
  "boundary_walk example_constants ego_route (waypoint_at 10 False) (SQUARE (85 / 2)) 1 (Suc 0) False None
     (ego_route ! Suc 0) [] [] = ([vec 10 1 0, vec 20 1 0], [vec 10 (- 1) 0, vec 20 (- 1) 0])"
  by (simp add: boundary_walk.simps ego_route_def waypoint_at_def walk_reached_def walk_emits_def
      rib_left_def rib_right_def example_constants_simps vec_simps Let_def)

lemma ex_walk_lead:
  "boundary_walk example_constants lead_route (waypoint_at 30 False) (SQUARE (45 / 2)) 1 (Suc 0) False None
     (lead_route ! Suc 0) [] [] = ([vec 30 1 0, vec 40 1 0], [vec 30 (- 1) 0, vec 40 (- 1) 0])"
  by (simp add: boundary_walk.simps lead_route_def waypoint_at_def walk_reached_def walk_emits_def
      rib_left_def rib_right_def example_constants_simps vec_simps Let_def)

lemma route_lengths: "length ego_route = 4" "length lead_route = 4"
  by (simp_all add: ego_route_def lead_route_def)

lemma ex_geodesic_ego:
  "GetGeodesicBoundary example_constants example_externals 1 Map.empty (vehicle_at 0 10 True) car
     ego_route 1 Map.empty = Inr (ego_corridor, [1 \<mapsto> ego_corridor])"
  by (simp add: GetGeodesicBoundary_def ex_bbox_ego ex_ext_ego car_simps Let_def
      example_externals_simps ex_target_ego ex_walk_ego route_lengths ego_corridor_def)

lemma ex_geodesic_lead:
  "GetGeodesicBoundary example_constants example_externals 2 [1 \<mapsto> ego_corridor]
     (vehicle_at 20 5 True) car lead_route 1 Map.empty = Inr (lead_corridor, example_geodesics)"
  by (simp add: GetGeodesicBoundary_def ex_bbox_lead ex_ext_lead car_simps Let_def
      example_externals_simps ex_target_lead ex_walk_lead route_lengths lead_corridor_def
      example_geodesics_def)

lemma ex_polygons:
  "GetPolygon [vec 2 (-1) 0, vec (-2) (-1) 0, vec (-2) 1 0, vec 2 1 0]
     = Inr [(2, - 1), (- 2, - 1), (- 2, 1), (2, 1), (2, - 1)]"
  "GetPolygon [vec 22 (-1) 0, vec 18 (-1) 0, vec 18 1 0, vec 22 1 0]
     = Inr [(22, - 1), (18, - 1), (18, 1), (22, 1), (22, - 1)]"
  "GetPolygon ego_corridor
     = Inr [(20, - 1), (10, - 1), (2, - 1), (- 2, - 1), (- 2, 1), (2, 1), (10, 1), (20, 1), (20, - 1)]"
  "GetPolygon lead_corridor
     = Inr [(40, - 1), (30, - 1), (22, - 1), (18, - 1), (18, 1), (22, 1), (30, 1), (40, 1), (40, - 1)]"
  by (simp_all add: GetPolygon_def ego_corridor_def lead_corridor_def vec_def)

lemma ex_geometry:
  "GetGeometryBetweenActors example_constants example_externals Map.empty Map.empty 1 2
     (vehicle_at 0 10 True) (vehicle_at 20 5 True) car car ego_route lead_route Map.empty 1 1
   = Inr (lead_comparison, example_cache, example_geodesics)"
  by (simp add: GetGeometryBetweenActors_def key_1_2 bind_result_def ex_bbox_ego ex_bbox_lead
      ex_geodesic_ego ex_geodesic_lead ex_polygons example_externals_simps
      example_distance_def lead_comparison_def example_cache_def Let_def)

lemma ex_gate:
  "spec_gate example_constants 1 2 Map.empty (vehicle_at 0 10 True) (vehicle_at 20 5 True)
     car car green_light ego_route 1"
  apply (simp add: spec_gate_def ex_ext_ego ex_ext_lead Let_def vehicle_at_simps car_simps
      example_constants_simps)
  apply (simp add: green_light_def ego_route_def waypoint_at_def normalized_def vec_simps sqrt_400
      float_epsilon_def power2_eq_square)
  done

lemma ex_rule: "spec_hazard_rule lead_comparison b"
  by (simp add: spec_hazard_rule_def lead_comparison_def)

section \<open>The negotiator\<close>

lemma NegotiateCollision_gate_closed:
  assumes "buf \<noteq> []" "idx < length buf"
    and "\<not> spec_gate K ref other locks rs os ra oa tls buf idx"
  shows "NegotiateCollision K X ref other cache gmap locks rs os ra oa tls buf ob idx rl ol
         = Inr ((False, Infinity), cache, gmap, flush_collision_lock locks ref)"
  using assms
  by (cases buf) (auto simp: NegotiateCollision_def spec_gate_def Let_def SQUARE_def
       power2_eq_square CheckJunction_def)

lemma NegotiateCollision_gate_open:
  assumes "buf \<noteq> []" "idx < length buf"
    and "spec_gate K ref other locks rs os ra oa tls buf idx"
  shows "NegotiateCollision K X ref other cache gmap locks rs os ra oa tls buf ob idx rl ol
         = bind_result
             (GetGeometryBetweenActors K X cache gmap ref other rs os ra oa buf ob locks rl ol)
             (\<lambda>(gc, cache1, gmap1).
                if spec_hazard_rule gc (ego_angular_priority rs os)
                then Inr ((True, Finite (spec_margin K gc rl)), cache1, gmap1,
                          update_collision_lock locks ref other gc)
                else Inr ((False, Infinity), cache1, gmap1, flush_collision_lock locks ref))"
  using assms
  by (cases buf) (auto simp: NegotiateCollision_def spec_gate_def Let_def SQUARE_def
       power2_eq_square CheckJunction_def bind_result_def spec_hazard_rule_def spec_margin_def
       split: sum.splits)

lemma NegotiateCollision_no_buffer:
  "NegotiateCollision K X ref other cache gmap locks rs os ra oa tls [] ob idx rl ol = Inl EmptyFront"
  by (simp add: NegotiateCollision_def Let_def)

lemma NegotiateCollision_bad_index:
  "\<not> idx < length buf \<Longrightarrow> buf \<noteq> [] \<Longrightarrow>
   NegotiateCollision K X ref other cache gmap locks rs os ra oa tls buf ob idx rl ol = Inl OutOfRange"
  by (cases buf) (simp_all add: NegotiateCollision_def Let_def)

lemma NegotiateCollision_Inr_buffer:
  assumes "NegotiateCollision K X ref other cache gmap locks rs os ra oa tls buf ob idx rl ol = Inr r"
  shows "buf \<noteq> [] \<and> idx < length buf"
  using assms NegotiateCollision_no_buffer NegotiateCollision_bad_index
  by (metis sum.distinct(1))

lemma update_collision_lock_lead:
  "\<exists>l. update_collision_lock locks ref other gc ref = Some l \<and> lead_vehicle_id l = other"
  by (auto simp: update_collision_lock_def split: option.splits)

lemma update_collision_lock_frame:
  "a \<noteq> ref \<Longrightarrow> update_collision_lock locks ref other gc a = locks a"
  by (auto simp: update_collision_lock_def split: option.splits)

lemma flush_collision_lock_self: "flush_collision_lock locks ref ref = None"
  by (simp add: flush_collision_lock_def)

lemma flush_collision_lock_frame: "a \<noteq> ref \<Longrightarrow> flush_collision_lock locks ref a = locks a"
  by (simp add: flush_collision_lock_def)

lemma NegotiateCollision_Inr_cases:
  assumes "NegotiateCollision K X ref other cache gmap locks rs os ra oa tls buf ob idx rl ol
           = Inr ((hz, m), cache1, gmap1, locks1)"
  shows "(hz \<and> spec_gate K ref other locks rs os ra oa tls buf idx
            \<and> (\<exists>gc. GetGeometryBetweenActors K X cache gmap ref other rs os ra oa buf ob locks rl ol
                       = Inr (gc, cache1, gmap1)
                     \<and> spec_hazard_rule gc (ego_angular_priority rs os)
                     \<and> m = Finite (spec_margin K gc rl)
                     \<and> locks1 = update_collision_lock locks ref other gc))
         \<or> (\<not> hz \<and> m = Infinity \<and> locks1 = flush_collision_lock locks ref)"
proof -
  from assms have buf: "buf \<noteq> []" "idx < length buf"
    using NegotiateCollision_Inr_buffer by blast+
  show ?thesis
  proof (cases "spec_gate K ref other locks rs os ra oa tls buf idx")
    case False
    with buf assms show ?thesis
      by (simp add: NegotiateCollision_gate_closed)
  next
    case True
    with buf assms show ?thesis
      by (auto simp: NegotiateCollision_gate_open bind_result_def split: sum.splits if_splits)
  qed
qed

section \<open>The loop over the candidates\<close>

lemma check_candidates_Cons_cases:
  assumes "check_candidates K X P rand state_map attribute_map tl_state_map buffer_map ego eks ea
             idx rl (other # rest) cache gmap locks n = Inr res"
  shows "check_candidates K X P rand state_map attribute_map tl_state_map buffer_map ego eks ea
             idx rl rest cache gmap locks n = Inr res
         \<or> (\<exists>os oa tls eb ob hz m c1 g1 l1.
               state_map other = Some os \<and> attribute_map other = Some oa
               \<and> tl_state_map ego = Some tls \<and> buffer_map ego = Some eb
               \<and> buffer_map other = Some ob
               \<and> NegotiateCollision K X ego other cache gmap locks eks os ea oa tls eb ob idx rl
                    (GetDistanceToLeadingVehicle P other) = Inr ((hz, m), c1, g1, l1)
               \<and> (if hz \<and> fst (ignore_policy P rand ego (actor_type oa) n)
                   then res = ((True, other, m), c1, g1, l1,
                               snd (ignore_policy P rand ego (actor_type oa) n))
                   else check_candidates K X P rand state_map attribute_map tl_state_map
                          buffer_map ego eks ea idx rl rest c1 g1 l1
                          (if hz then snd (ignore_policy P rand ego (actor_type oa) n) else n)
                        = Inr res))"
proof -
  let ?rec = "\<lambda>c g l k. check_candidates K X P rand state_map attribute_map tl_state_map
                 buffer_map ego eks ea idx rl rest c g l k"
  from assms obtain oa where oa: "attribute_map other = Some oa"
    by (cases "attribute_map other") (simp_all add: bind_result_def GetType_def)
  from assms oa obtain os where os: "state_map other = Some os"
    by (cases "state_map other") (simp_all add: bind_result_def GetType_def)
  show ?thesis
  proof (cases "GetCollisionDetection P ego other \<and> tl_state_map ego \<noteq> None
                \<and> buffer_map ego \<noteq> None \<and> buffer_map other \<noteq> None")
    case False
    with assms oa os have "?rec cache gmap locks n = Inr res"
      by (cases "GetCollisionDetection P ego other"; cases "tl_state_map ego";
          cases "buffer_map ego"; cases "buffer_map other")
         (simp_all add: bind_result_def GetType_def)
    then show ?thesis by simp
  next
    case True
    then obtain tls eb ob where g: "GetCollisionDetection P ego other"
      "tl_state_map ego = Some tls" "buffer_map ego = Some eb" "buffer_map other = Some ob"
      by auto
    let ?nc = "NegotiateCollision K X ego other cache gmap locks eks os ea oa tls eb ob idx rl
                 (GetDistanceToLeadingVehicle P other)"
    from assms oa os g obtain hz m c1 g1 l1 where nc: "?nc = Inr ((hz, m), c1, g1, l1)"
      by (cases ?nc) (auto simp: bind_result_def GetType_def)
    from assms oa os g nc
    have "if hz \<and> fst (ignore_policy P rand ego (actor_type oa) n)
          then res = ((True, other, m), c1, g1, l1, snd (ignore_policy P rand ego (actor_type oa) n))
          else ?rec c1 g1 l1 (if hz then snd (ignore_policy P rand ego (actor_type oa) n) else n)
               = Inr res"
      by (cases hz; cases "fst (ignore_policy P rand ego (actor_type oa) n)")
         (simp_all add: bind_result_def GetType_def Let_def)
    with oa os g nc show ?thesis by blast
  qed
qed

lemma check_candidates_verdict:
  assumes "check_candidates K X P rand state_map attribute_map tl_state_map buffer_map ego eks ea
             idx rl cands cache gmap locks n = Inr ((hz, obstacle, m), c', g', l', n')"
  shows "if hz
         then \<exists>c0 g0 l0 os oa tls eb ob.
                state_map obstacle = Some os \<and> attribute_map obstacle = Some oa
                \<and> tl_state_map ego = Some tls \<and> buffer_map ego = Some eb
                \<and> buffer_map obstacle = Some ob
                \<and> NegotiateCollision K X ego obstacle c0 g0 l0 eks os ea oa tls eb ob idx rl
                     (GetDistanceToLeadingVehicle P obstacle) = Inr ((True, m), c', g', l')
         else obstacle = 0 \<and> m = Infinity"
  using assms
proof (induction cands arbitrary: cache gmap locks n)
  case Nil
  then show ?case by simp
next
  case (Cons other rest)
  from check_candidates_Cons_cases [OF Cons.prems]
  show ?case
  proof (elim disjE exE conjE)
    assume "check_candidates K X P rand state_map attribute_map tl_state_map buffer_map ego eks ea
              idx rl rest cache gmap locks n = Inr ((hz, obstacle, m), c', g', l', n')"
    then show ?thesis by (rule Cons.IH)
  next
    fix os oa tls eb ob hz1 m1 c1 g1 l1
    assume maps: "state_map other = Some os" "attribute_map other = Some oa"
        "tl_state_map ego = Some tls" "buffer_map ego = Some eb" "buffer_map other = Some ob"
      and nc: "NegotiateCollision K X ego other cache gmap locks eks os ea oa tls eb ob idx rl
                 (GetDistanceToLeadingVehicle P other) = Inr ((hz1, m1), c1, g1, l1)"
      and rest: "if hz1 \<and> fst (ignore_policy P rand ego (actor_type oa) n)
                 then ((hz, obstacle, m), c', g', l', n')
                      = ((True, other, m1), c1, g1, l1,
                         snd (ignore_policy P rand ego (actor_type oa) n))
                 else check_candidates K X P rand state_map attribute_map tl_state_map
                        buffer_map ego eks ea idx rl rest c1 g1 l1
                        (if hz1 then snd (ignore_policy P rand ego (actor_type oa) n) else n)
                      = Inr ((hz, obstacle, m), c', g', l', n')"
    show ?thesis
    proof (cases "hz1 \<and> fst (ignore_policy P rand ego (actor_type oa) n)")
      case True
      with rest have eq: "hz" "obstacle = other" "m = m1" "c' = c1" "g' = g1" "l' = l1"
        by simp_all
      with True nc have "NegotiateCollision K X ego obstacle cache gmap locks eks os ea oa tls eb ob
                           idx rl (GetDistanceToLeadingVehicle P obstacle)
                         = Inr ((True, m), c', g', l')"
        by simp
      with maps eq show ?thesis by auto
    next
      case False
      with rest
      have "check_candidates K X P rand state_map attribute_map tl_state_map
              buffer_map ego eks ea idx rl rest c1 g1 l1
              (if hz1 then snd (ignore_policy P rand ego (actor_type oa) n) else n)
            = Inr ((hz, obstacle, m), c', g', l', n')"
        by simp
      then show ?thesis by (rule Cons.IH)
    qed
  qed
qed

lemma NegotiateCollision_lock_frame:
  assumes "NegotiateCollision K X ref other cache gmap locks rs os ra oa tls buf ob idx rl ol
           = Inr ((hz, m), cache1, gmap1, locks1)" and "a \<noteq> ref"
  shows "locks1 a = locks a"
  using NegotiateCollision_Inr_cases [OF assms(1)] assms(2)
  by (auto simp: update_collision_lock_frame flush_collision_lock_frame)

lemma NegotiateCollision_lock_self:
  assumes "NegotiateCollision K X ref other cache gmap locks rs os ra oa tls buf ob idx rl ol
           = Inr ((hz, m), cache1, gmap1, locks1)"
  shows "if hz then \<exists>l. locks1 ref = Some l \<and> lead_vehicle_id l = other else locks1 ref = None"
  using NegotiateCollision_Inr_cases [OF assms] update_collision_lock_lead [of locks ref other]
  by (auto simp: flush_collision_lock_self)

lemma check_candidates_lock_frame:
  assumes "check_candidates K X P rand state_map attribute_map tl_state_map buffer_map ego eks ea
             idx rl cands cache gmap locks n = Inr (v, c', g', l', n')" and "a \<noteq> ego"
  shows "l' a = locks a"
  using assms
proof (induction cands arbitrary: cache gmap locks n)
  case Nil
  then show ?case by simp
next
  case (Cons other rest)
  from check_candidates_Cons_cases [OF Cons.prems(1)]
  show ?case
  proof (elim disjE exE conjE)
    assume "check_candidates K X P rand state_map attribute_map tl_state_map buffer_map ego eks ea
              idx rl rest cache gmap locks n = Inr (v, c', g', l', n')"
    then show ?thesis using Cons.IH Cons.prems(2) by blast
  next
    fix os oa tls eb ob hz1 m1 c1 g1 l1
    assume nc: "NegotiateCollision K X ego other cache gmap locks eks os ea oa tls eb ob idx rl
                 (GetDistanceToLeadingVehicle P other) = Inr ((hz1, m1), c1, g1, l1)"
      and rest: "if hz1 \<and> fst (ignore_policy P rand ego (actor_type oa) n)
                 then (v, c', g', l', n')
                      = ((True, other, m1), c1, g1, l1,
                         snd (ignore_policy P rand ego (actor_type oa) n))
                 else check_candidates K X P rand state_map attribute_map tl_state_map
                        buffer_map ego eks ea idx rl rest c1 g1 l1
                        (if hz1 then snd (ignore_policy P rand ego (actor_type oa) n) else n)
                      = Inr (v, c', g', l', n')"
    have l1: "l1 a = locks a"
      using NegotiateCollision_lock_frame [OF nc] Cons.prems(2) by simp
    show ?thesis
    proof (cases "hz1 \<and> fst (ignore_policy P rand ego (actor_type oa) n)")
      case True
      with rest l1 show ?thesis by simp
    next
      case False
      with rest have "l' a = l1 a" using Cons.IH Cons.prems(2) by auto
      with l1 show ?thesis by simp
    qed
  qed
qed

lemma ignore_policy_commits:
  assumes "GetPercentageIgnoreVehicles P ego \<le> 0" "GetPercentageIgnoreWalkers P ego \<le> 0"
    and "t \<noteq> Any"
  shows "fst (ignore_policy P rand ego t n)"
proof -
  have "(0::real) \<le> real (rand n mod 101)" by simp
  with assms show ?thesis
    by (cases t) (auto simp: ignore_policy_def intro: order_trans)
qed

lemma check_candidates_lock_iff:
  assumes "check_candidates K X P rand state_map attribute_map tl_state_map buffer_map ego eks ea
             idx rl cands cache gmap locks n = Inr ((hz, obstacle, m), c', g', l', n')"
    and "locks ego = None"
    and "GetPercentageIgnoreVehicles P ego \<le> 0" "GetPercentageIgnoreWalkers P ego \<le> 0"
    and "\<forall>a att. attribute_map a = Some att \<longrightarrow> actor_type att \<noteq> Any"
  shows "l' ego \<noteq> None \<longleftrightarrow> hz"
  using assms(1,2)
proof (induction cands arbitrary: cache gmap locks n)
  case Nil
  then show ?case by simp
next
  case (Cons other rest)
  from check_candidates_Cons_cases [OF Cons.prems(1)]
  show ?case
  proof (elim disjE exE conjE)
    assume "check_candidates K X P rand state_map attribute_map tl_state_map buffer_map ego eks ea
              idx rl rest cache gmap locks n = Inr ((hz, obstacle, m), c', g', l', n')"
    then show ?thesis using Cons.IH Cons.prems(2) by blast
  next
    fix os oa tls eb ob hz1 m1 c1 g1 l1
    assume oa: "attribute_map other = Some oa"
      and nc: "NegotiateCollision K X ego other cache gmap locks eks os ea oa tls eb ob idx rl
                 (GetDistanceToLeadingVehicle P other) = Inr ((hz1, m1), c1, g1, l1)"
      and rest: "if hz1 \<and> fst (ignore_policy P rand ego (actor_type oa) n)
                 then ((hz, obstacle, m), c', g', l', n')
                      = ((True, other, m1), c1, g1, l1,
                         snd (ignore_policy P rand ego (actor_type oa) n))
                 else check_candidates K X P rand state_map attribute_map tl_state_map
                        buffer_map ego eks ea idx rl rest c1 g1 l1
                        (if hz1 then snd (ignore_policy P rand ego (actor_type oa) n) else n)
                      = Inr ((hz, obstacle, m), c', g', l', n')"
    from oa assms(5) have "actor_type oa \<noteq> Any" by blast
    then have commit: "fst (ignore_policy P rand ego (actor_type oa) n)"
      using assms(3,4) by (rule ignore_policy_commits [rotated 2])
    show ?thesis
    proof (cases hz1)
      case True
      with commit rest have "hz" "l' = l1" by simp_all
      moreover from NegotiateCollision_lock_self [OF nc] True have "l1 ego \<noteq> None" by auto
      ultimately show ?thesis by simp
    next
      case False
      with NegotiateCollision_lock_self [OF nc] have "l1 ego = None" by simp
      moreover from False rest
      have "check_candidates K X P rand state_map attribute_map tl_state_map buffer_map ego eks ea
              idx rl rest c1 g1 l1 n = Inr ((hz, obstacle, m), c', g', l', n')"
        by simp
      ultimately show ?thesis using Cons.IH by blast
    qed
  qed
qed

lemma CollisionAvoidance_Inr_cases:
  assumes "CollisionAvoidance K X P track_traffic rand index ids state_map attribute_map
             tl_state_map buffer_map locks out n = Inr (out', locks', n')"
  shows "index < length ids \<and> index < length out
         \<and> (\<exists>hz obstacle m.
               out' = out[index := \<lparr>hazard = hz, hazard_actor_id = obstacle,
                                     available_distance_margin = m\<rparr>]
               \<and> (((state_map (ids ! index) = None \<or> attribute_map (ids ! index) = None)
                     \<and> \<not> hz \<and> obstacle = 0 \<and> m = Infinity \<and> locks' = locks \<and> n' = n)
                  \<or> (\<exists>eks ea eb cands c' g'.
                        state_map (ids ! index) = Some eks \<and> attribute_map (ids ! index) = Some ea
                        \<and> buffer_map (ids ! index) = Some eb
                        \<and> check_candidates K X P rand state_map attribute_map tl_state_map
                             buffer_map (ids ! index) eks ea
                             (snd (GetTargetWaypoint X eb (JUNCTION_LOOK_AHEAD K)))
                             (GetDistanceToLeadingVehicle P (ids ! index)) cands
                             Map.empty Map.empty locks n
                           = Inr ((hz, obstacle, m), c', g', locks', n'))))"
proof -
  from assms have idx: "index < length ids"
    by (cases "index < length ids") (simp_all add: CollisionAvoidance_def)
  show ?thesis
  proof (cases "state_map (ids ! index)")
    case None
    with assms idx show ?thesis
      by (auto simp: CollisionAvoidance_def Let_def bind_result_def split: if_splits)
  next
    case (Some eks)
    note eks = this
    show ?thesis
    proof (cases "attribute_map (ids ! index)")
      case None
      with assms idx eks show ?thesis
        by (auto simp: CollisionAvoidance_def Let_def bind_result_def split: if_splits)
    next
      case (Some ea)
      note ea = this
      from assms idx eks ea obtain eb where eb: "buffer_map (ids ! index) = Some eb"
        by (cases "buffer_map (ids ! index)")
           (simp_all add: CollisionAvoidance_def Let_def bind_result_def)
      from assms idx eks ea eb obtain cands where
        cands: "collect_candidates K state_map (ids ! index) (location eks)
                  (GetOverlappingVehicles track_traffic (ids ! index)) [] = Inr cands"
        by (cases "collect_candidates K state_map (ids ! index) (location eks)
                  (GetOverlappingVehicles track_traffic (ids ! index)) []")
           (simp_all add: CollisionAvoidance_def Let_def bind_result_def)
      let ?chk = "check_candidates K X P rand state_map attribute_map tl_state_map
                    buffer_map (ids ! index) eks ea
                    (snd (GetTargetWaypoint X eb (JUNCTION_LOOK_AHEAD K)))
                    (GetDistanceToLeadingVehicle P (ids ! index))
                    (sort_key (candidate_distance state_map (location eks)) cands)
                    Map.empty Map.empty locks n"
      from assms idx eks ea eb cands obtain hz obstacle m c' g' l1 n1 where
        chk: "?chk = Inr ((hz, obstacle, m), c', g', l1, n1)"
        by (cases ?chk) (auto simp: CollisionAvoidance_def Let_def bind_result_def)
      from assms idx eks ea eb cands chk
      have "index < length out
            \<and> out' = out[index := \<lparr>hazard = hz, hazard_actor_id = obstacle,
                                     available_distance_margin = m\<rparr>]
            \<and> locks' = l1 \<and> n' = n1"
        by (auto simp: CollisionAvoidance_def Let_def bind_result_def split: if_splits)
      with idx eks ea eb chk show ?thesis by blast
    qed
  qed
qed

text \<open>Which candidates the loop negotiates with, and what it leaves in the lock map.\<close>

lemma check_candidates_Cons_split:
  assumes "check_candidates K X P rand state_map attribute_map tl_state_map buffer_map ego eks ea
             idx rl (other # rest) cache gmap locks n = Inr res"
  shows "(\<not> negotiation_guard P tl_state_map buffer_map ego other
          \<and> check_candidates K X P rand state_map attribute_map tl_state_map buffer_map ego eks ea
             idx rl rest cache gmap locks n = Inr res)
         \<or> (negotiation_guard P tl_state_map buffer_map ego other
            \<and> (\<exists>os oa tls eb ob hz m c1 g1 l1.
               state_map other = Some os \<and> attribute_map other = Some oa
               \<and> tl_state_map ego = Some tls \<and> buffer_map ego = Some eb
               \<and> buffer_map other = Some ob
               \<and> NegotiateCollision K X ego other cache gmap locks eks os ea oa tls eb ob idx rl
                    (GetDistanceToLeadingVehicle P other) = Inr ((hz, m), c1, g1, l1)
               \<and> (if hz \<and> fst (ignore_policy P rand ego (actor_type oa) n)
                   then res = ((True, other, m), c1, g1, l1,
                               snd (ignore_policy P rand ego (actor_type oa) n))
                   else check_candidates K X P rand state_map attribute_map tl_state_map
                          buffer_map ego eks ea idx rl rest c1 g1 l1
                          (if hz then snd (ignore_policy P rand ego (actor_type oa) n) else n)
                        = Inr res)))"
proof -
  let ?rec = "\<lambda>c g l k. check_candidates K X P rand state_map attribute_map tl_state_map
                 buffer_map ego eks ea idx rl rest c g l k"
  from assms obtain oa where oa: "attribute_map other = Some oa"
    by (cases "attribute_map other") (simp_all add: bind_result_def GetType_def)
  from assms oa obtain os where os: "state_map other = Some os"
    by (cases "state_map other") (simp_all add: bind_result_def GetType_def)
  show ?thesis
  proof (cases "negotiation_guard P tl_state_map buffer_map ego other")
    case False
    with assms oa os have "?rec cache gmap locks n = Inr res"
      by (cases "GetCollisionDetection P ego other"; cases "tl_state_map ego";
          cases "buffer_map ego"; cases "buffer_map other")
         (simp_all add: bind_result_def GetType_def negotiation_guard_def)
    with False show ?thesis by simp
  next
    case True
    then obtain tls eb ob where g: "GetCollisionDetection P ego other"
      "tl_state_map ego = Some tls" "buffer_map ego = Some eb" "buffer_map other = Some ob"
      by (auto simp: negotiation_guard_def)
    let ?nc = "NegotiateCollision K X ego other cache gmap locks eks os ea oa tls eb ob idx rl
                 (GetDistanceToLeadingVehicle P other)"
    from assms oa os g obtain hz m c1 g1 l1 where nc: "?nc = Inr ((hz, m), c1, g1, l1)"
      by (cases ?nc) (auto simp: bind_result_def GetType_def)
    from assms oa os g nc
    have "if hz \<and> fst (ignore_policy P rand ego (actor_type oa) n)
          then res = ((True, other, m), c1, g1, l1, snd (ignore_policy P rand ego (actor_type oa) n))
          else ?rec c1 g1 l1 (if hz then snd (ignore_policy P rand ego (actor_type oa) n) else n)
               = Inr res"
      by (cases hz; cases "fst (ignore_policy P rand ego (actor_type oa) n)")
         (simp_all add: bind_result_def GetType_def Let_def)
    with True oa os g nc show ?thesis by blast
  qed
qed

lemma ignore_policy_suppresses:
  assumes "\<not> fst (ignore_policy P rand ego (actor_type oa) n)" "attribute_map other = Some oa"
  shows "policy_may_ignore P attribute_map ego other"
proof -
  have "(0::real) \<le> real (rand n mod 101)" by simp
  with assms show ?thesis
    by (auto simp: ignore_policy_def policy_may_ignore_def split: if_splits)
qed

lemma check_candidates_locks:
  assumes "check_candidates K X P rand state_map attribute_map tl_state_map buffer_map ego eks ea
             idx rl cands cache gmap locks n = Inr ((hz, obstacle, m), c', g', l', n')"
  shows "if hz
         then obstacle \<in> set cands \<and> negotiation_guard P tl_state_map buffer_map ego obstacle
              \<and> (\<exists>l. l' ego = Some l \<and> lead_vehicle_id l = obstacle)
         else ((\<forall>cand \<in> set cands. \<not> negotiation_guard P tl_state_map buffer_map ego cand) \<and> l' = locks)
              \<or> ((\<exists>cand \<in> set cands. negotiation_guard P tl_state_map buffer_map ego cand)
                  \<and> l' ego = None)
              \<or> (\<exists>cand \<in> set cands. negotiation_guard P tl_state_map buffer_map ego cand
                    \<and> policy_may_ignore P attribute_map ego cand
                    \<and> (\<exists>l. l' ego = Some l \<and> lead_vehicle_id l = cand))"
  using assms
proof (induction cands arbitrary: cache gmap locks n)
  case Nil
  then show ?case by simp
next
  case (Cons other rest)
  let ?G = "negotiation_guard P tl_state_map buffer_map ego"
  from check_candidates_Cons_split [OF Cons.prems]
  consider
    (skip) "\<not> ?G other"
      "check_candidates K X P rand state_map attribute_map tl_state_map buffer_map ego eks ea
         idx rl rest cache gmap locks n = Inr ((hz, obstacle, m), c', g', l', n')"
  | (run) os oa tls eb ob hz1 m1 c1 g1 l1 where "?G other"
      "attribute_map other = Some oa"
      "NegotiateCollision K X ego other cache gmap locks eks os ea oa tls eb ob idx rl
         (GetDistanceToLeadingVehicle P other) = Inr ((hz1, m1), c1, g1, l1)"
      "if hz1 \<and> fst (ignore_policy P rand ego (actor_type oa) n)
       then ((hz, obstacle, m), c', g', l', n')
            = ((True, other, m1), c1, g1, l1, snd (ignore_policy P rand ego (actor_type oa) n))
       else check_candidates K X P rand state_map attribute_map tl_state_map
              buffer_map ego eks ea idx rl rest c1 g1 l1
              (if hz1 then snd (ignore_policy P rand ego (actor_type oa) n) else n)
            = Inr ((hz, obstacle, m), c', g', l', n')"
    by blast
  then show ?case
  proof cases
    case skip
    from Cons.IH [OF skip(2)] skip(1) show ?thesis
      by (cases hz) auto
  next
    case (run os oa tls eb ob hz1 m1 c1 g1 l1)
    note guard = run(1) and oa = run(2) and nc = run(3) and rest = run(4)
    show ?thesis
    proof (cases "hz1 \<and> fst (ignore_policy P rand ego (actor_type oa) n)")
      case True
      with rest have eq: "hz" "obstacle = other" "l' = l1" by simp_all
      from NegotiateCollision_lock_self [OF nc] True
      have "\<exists>l. l1 ego = Some l \<and> lead_vehicle_id l = other" by simp
      with eq guard show ?thesis by simp
    next
      case False
      with rest
      have rec: "check_candidates K X P rand state_map attribute_map tl_state_map
              buffer_map ego eks ea idx rl rest c1 g1 l1
              (if hz1 then snd (ignore_policy P rand ego (actor_type oa) n) else n)
            = Inr ((hz, obstacle, m), c', g', l', n')"
        by simp
      note ih = Cons.IH [OF rec]
      show ?thesis
      proof (cases hz)
        case True
        with ih show ?thesis by simp
      next
        case nohz: False
        with ih consider
            (idle) "\<forall>cand \<in> set rest. \<not> ?G cand" "l' = l1"
          | (cleared) "\<exists>cand \<in> set rest. ?G cand" "l' ego = None"
          | (ignored) "\<exists>cand \<in> set rest. ?G cand \<and> policy_may_ignore P attribute_map ego cand
                          \<and> (\<exists>l. l' ego = Some l \<and> lead_vehicle_id l = cand)"
          by auto
        then show ?thesis
        proof cases
          case idle
          show ?thesis
          proof (cases hz1)
            case True
            with False have "\<not> fst (ignore_policy P rand ego (actor_type oa) n)" by simp
            then have "policy_may_ignore P attribute_map ego other"
              using oa by (rule ignore_policy_suppresses)
            moreover from NegotiateCollision_lock_self [OF nc] True idle(2)
            have "\<exists>l. l' ego = Some l \<and> lead_vehicle_id l = other" by simp
            ultimately show ?thesis using nohz guard by auto
          next
            case False
            with NegotiateCollision_lock_self [OF nc] idle(2) have "l' ego = None" by simp
            with nohz guard show ?thesis by auto
          qed
        next
          case cleared
          with nohz show ?thesis by auto
        next
          case ignored
          with nohz show ?thesis by auto
        qed
      qed
    qed
  qed
qed

lemma collect_candidates_set:
  assumes "collect_candidates K state_map ego loc xs acc = Inr cands"
  shows "set cands = set acc \<union> {cand \<in> set xs. collision_candidate K state_map ego loc cand}"
  using assms
proof (induction xs arbitrary: acc)
  case Nil
  then show ?case by simp
next
  case (Cons x xs)
  from Cons.prems obtain s where s: "state_map x = Some s"
    by (cases "state_map x") (simp_all add: GetLocation_def bind_result_def)
  show ?case
  proof (cases "collision_candidate K state_map ego loc x")
    case True
    with Cons.prems s
    have "collect_candidates K state_map ego loc xs (acc @ [x]) = Inr cands"
      by (simp add: GetLocation_def bind_result_def collision_candidate_def)
    from Cons.IH [OF this] True show ?thesis by auto
  next
    case False
    with Cons.prems s
    have "collect_candidates K state_map ego loc xs acc = Inr cands"
      by (auto simp: GetLocation_def bind_result_def collision_candidate_def split: if_splits)
    from Cons.IH [OF this] False show ?thesis by auto
  qed
qed

lemma collect_candidates_distinct:
  assumes "collect_candidates K state_map ego loc xs acc = Inr cands" "distinct (acc @ xs)"
  shows "distinct cands"
  using assms
proof (induction xs arbitrary: acc)
  case Nil
  then show ?case by simp
next
  case (Cons x xs)
  from Cons.prems(1) obtain s where s: "state_map x = Some s"
    by (cases "state_map x") (simp_all add: GetLocation_def bind_result_def)
  from Cons.prems(1) s
  have "collect_candidates K state_map ego loc xs (acc @ [x]) = Inr cands
        \<or> collect_candidates K state_map ego loc xs acc = Inr cands"
    by (auto simp: GetLocation_def bind_result_def split: if_splits)
  then show ?case
  proof
    assume "collect_candidates K state_map ego loc xs (acc @ [x]) = Inr cands"
    moreover from Cons.prems(2) have "distinct ((acc @ [x]) @ xs)" by simp
    ultimately show ?thesis by (rule Cons.IH)
  next
    assume "collect_candidates K state_map ego loc xs acc = Inr cands"
    moreover from Cons.prems(2) have "distinct (acc @ xs)" by simp
    ultimately show ?thesis by (rule Cons.IH)
  qed
qed

lemma CollisionAvoidance_Inr_run:
  assumes "CollisionAvoidance K X P track_traffic rand index ids state_map attribute_map
             tl_state_map buffer_map locks out n = Inr (out', locks', n')"
    and "state_map (ids ! index) = Some eks" "attribute_map (ids ! index) = Some ea"
  obtains eb collected hz obstacle m c' g' where
    "buffer_map (ids ! index) = Some eb"
    "collect_candidates K state_map (ids ! index) (location eks)
       (GetOverlappingVehicles track_traffic (ids ! index)) [] = Inr collected"
    "check_candidates K X P rand state_map attribute_map tl_state_map buffer_map (ids ! index)
       eks ea (snd (GetTargetWaypoint X eb (JUNCTION_LOOK_AHEAD K)))
       (GetDistanceToLeadingVehicle P (ids ! index))
       (sort_key (candidate_distance state_map (location eks)) collected)
       Map.empty Map.empty locks n
     = Inr ((hz, obstacle, m), c', g', locks', n')"
    "index < length out"
    "out' = out[index := \<lparr>hazard = hz, hazard_actor_id = obstacle,
                            available_distance_margin = m\<rparr>]"
proof -
  note eks = assms(2) and ea = assms(3)
  from assms(1) have idx: "index < length ids"
    by (cases "index < length ids") (simp_all add: CollisionAvoidance_def)
  from assms(1) idx eks ea obtain eb where eb: "buffer_map (ids ! index) = Some eb"
    by (cases "buffer_map (ids ! index)")
       (simp_all add: CollisionAvoidance_def Let_def bind_result_def)
  from assms(1) idx eks ea eb obtain cands where
    cands: "collect_candidates K state_map (ids ! index) (location eks)
              (GetOverlappingVehicles track_traffic (ids ! index)) [] = Inr cands"
    by (cases "collect_candidates K state_map (ids ! index) (location eks)
              (GetOverlappingVehicles track_traffic (ids ! index)) []")
       (simp_all add: CollisionAvoidance_def Let_def bind_result_def)
  let ?chk = "check_candidates K X P rand state_map attribute_map tl_state_map
                buffer_map (ids ! index) eks ea
                (snd (GetTargetWaypoint X eb (JUNCTION_LOOK_AHEAD K)))
                (GetDistanceToLeadingVehicle P (ids ! index))
                (sort_key (candidate_distance state_map (location eks)) cands)
                Map.empty Map.empty locks n"
  from assms(1) idx eks ea eb cands obtain hz obstacle m c' g' l1 n1 where
    chk: "?chk = Inr ((hz, obstacle, m), c', g', l1, n1)"
    by (cases ?chk) (auto simp: CollisionAvoidance_def Let_def bind_result_def)
  from assms(1) idx eks ea eb cands chk
  have "index < length out
        \<and> out' = out[index := \<lparr>hazard = hz, hazard_actor_id = obstacle,
                                 available_distance_margin = m\<rparr>]
        \<and> locks' = l1 \<and> n' = n1"
    by (auto simp: CollisionAvoidance_def Let_def bind_result_def split: if_splits)
  with eb cands chk that show thesis by blast
qed

lemma CollisionAvoidance_Inr_skipped:
  assumes "CollisionAvoidance K X P track_traffic rand index ids state_map attribute_map
             tl_state_map buffer_map locks out n = Inr (out', locks', n')"
    and "state_map (ids ! index) = None \<or> attribute_map (ids ! index) = None"
  shows "\<not> hazard (out' ! index) \<and> locks' = locks"
  using CollisionAvoidance_Inr_cases [OF assms(1)] assms(2) by auto

lemma negotiates_iff:
  assumes "state_map ego = Some eks" "attribute_map ego = Some ea"
    and "collect_candidates K state_map ego (location eks)
           (GetOverlappingVehicles track_traffic ego) [] = Inr collected"
  shows "negotiates K P track_traffic state_map attribute_map tl_state_map buffer_map ego other
         \<longleftrightarrow> other \<in> set (sort_key (candidate_distance state_map (location eks)) collected)
             \<and> negotiation_guard P tl_state_map buffer_map ego other"
  using collect_candidates_set [OF assms(3)] assms(1,2)
  by (auto simp: negotiates_def)

lemma policy_commits_never_ignores:
  assumes "GetPercentageIgnoreVehicles P ego \<le> 0" "GetPercentageIgnoreWalkers P ego \<le> 0"
    and "\<forall>a att. attribute_map a = Some att \<longrightarrow> actor_type att \<noteq> Any"
  shows "\<not> policy_may_ignore P attribute_map ego other"
proof (cases "attribute_map other")
  case None
  then show ?thesis by (simp add: policy_may_ignore_def)
next
  case (Some oa)
  with assms(3) have "actor_type oa \<noteq> Any" by blast
  with Some assms(1,2) show ?thesis
    by (cases "actor_type oa") (simp_all add: policy_may_ignore_def)
qed

section \<open>The caches within a tick\<close>

text \<open>The decimal digits of two different numbers differ, so the keys of one ego with two
  different actors differ.\<close>

lemma digit_char_inj:
  assumes "i < 10" "j < 10" "''0123456789'' ! i = ''0123456789'' ! j"
  shows "i = j"
proof -
  have "distinct ''0123456789''" by simp
  moreover have "i < length ''0123456789''" "j < length ''0123456789''"
    using assms(1,2) by simp_all
  ultimately show ?thesis using assms(3) by (simp only: nth_eq_iff_index_eq)
qed

lemma to_string_digits: "set (to_string n) \<subseteq> set ''0123456789''"
proof (induction n rule: to_string.induct)
  case (1 n)
  show ?case
  proof (cases "n < 10")
    case True
    then have "''0123456789'' ! n \<in> set ''0123456789''"
      by (intro nth_mem) simp
    with True show ?thesis by (subst to_string.simps) simp
  next
    case False
    have "''0123456789'' ! (n mod 10) \<in> set ''0123456789''"
      by (intro nth_mem) simp
    with False 1 show ?thesis by (subst to_string.simps) simp
  qed
qed

lemma to_string_no_bar: "CHR ''|'' \<notin> set (to_string n)"
  using to_string_digits [of n] by auto

lemma to_string_nonempty: "to_string n \<noteq> []"
  by (subst to_string.simps) simp

lemma to_string_inj: "to_string n = to_string m \<Longrightarrow> n = m"
proof (induction n arbitrary: m rule: to_string.induct)
  case (1 n)
  show ?case
  proof (cases "n < 10")
    case n: True
    show ?thesis
    proof (cases "m < 10")
      case True
      with n 1(2) have "''0123456789'' ! n = ''0123456789'' ! m"
        by (simp add: to_string.simps [of n] to_string.simps [of m])
      with n True show ?thesis by (rule digit_char_inj)
    next
      case False
      with n 1(2) have "[''0123456789'' ! n] = to_string (m div 10) @ [''0123456789'' ! (m mod 10)]"
        by (simp add: to_string.simps [of n] to_string.simps [of m])
      then have "to_string (m div 10) = []" by simp
      with to_string_nonempty show ?thesis by blast
    qed
  next
    case n: False
    show ?thesis
    proof (cases "m < 10")
      case True
      with n 1(2) have "to_string (n div 10) @ [''0123456789'' ! (n mod 10)] = [''0123456789'' ! m]"
        by (simp add: to_string.simps [of n] to_string.simps [of m])
      then have "to_string (n div 10) = []" by simp
      with to_string_nonempty show ?thesis by blast
    next
      case False
      with n 1(2) have eq: "to_string (n div 10) = to_string (m div 10)"
        "''0123456789'' ! (n mod 10) = ''0123456789'' ! (m mod 10)"
        by (simp_all add: to_string.simps [of n] to_string.simps [of m])
      from 1(1) [OF n eq(1)] have d: "n div 10 = m div 10" .
      have "n mod 10 = m mod 10"
        using _ _ eq(2) by (rule digit_char_inj) simp_all
      with d show ?thesis by (metis div_mult_mod_eq)
    qed
  qed
qed

lemma actor_id_key_inj:
  assumes "actor_id_key ego a = actor_id_key ego b"
  shows "a = b"
proof -
  have bar: "\<And>p q r s. to_string p @ CHR ''|'' # to_string q = to_string r @ CHR ''|'' # to_string s
                 \<Longrightarrow> p = r \<and> q = s"
  proof -
    fix p q r s
    assume "to_string p @ CHR ''|'' # to_string q = to_string r @ CHR ''|'' # to_string s"
    then have "to_string p = to_string r \<and> to_string q = to_string s"
      using append_Cons_eq_iff [OF to_string_no_bar to_string_no_bar] by blast
    then show "p = r \<and> q = s" using to_string_inj by blast
  qed
  from assms have "unat a = unat b"
    by (auto simp: actor_id_key_def dest: to_string_inj bar split: if_splits)
  then show ?thesis by (simp add: word_unat_eq_iff)
qed

lemma GetBoundingBoxExtention_lock_of:
  "l' a = l a \<Longrightarrow> GetBoundingBoxExtention K a ks l' = GetBoundingBoxExtention K a ks l"
  by (simp add: GetBoundingBoxExtention_def)

lemma GetGeodesicBoundary_frame:
  assumes "GetGeodesicBoundary K X a gmap ks att buf ld l = Inr (b, gmap')" "x \<noteq> a"
  shows "gmap' x = gmap x"
  using assms
  by (auto simp: GetGeodesicBoundary_def Let_def split: option.splits if_splits)

lemma GetGeodesicBoundary_fresh:
  assumes "GetGeodesicBoundary K X a gmap ks att buf ld l = Inr (b, gmap')"
    and "gmap a = None" "l' a = l a"
  shows "GetGeodesicBoundary K X a Map.empty ks att buf ld l' = Inr (b, [a \<mapsto> b])"
  using assms GetBoundingBoxExtention_lock_of [where l' = l' and l = l and a = a, OF assms(3)]
  by (auto simp: GetGeodesicBoundary_def Let_def split: if_splits)

lemma GetGeometryBetweenActors_miss:
  assumes "GetGeometryBetweenActors K X cache gmap ref other rs os ra oa rb ob l rl ol
           = Inr (gc, c1, g1)"
    and "cache (actor_id_key ref other) = None"
  obtains ref_poly rg g' og other_geo_poly where
    "GetPolygon (GetBoundary K rs ra) = Inr ref_poly"
    "GetGeodesicBoundary K X ref gmap rs ra rb rl l = Inr (rg, g')"
    "GetGeodesicBoundary K X other g' os oa ob ol l = Inr (og, g1)"
    "GetPolygon og = Inr other_geo_poly"
    "reference_vehicle_to_other_geodesic gc = bg_distance X ref_poly other_geo_poly"
    "\<And>k. k \<noteq> actor_id_key ref other \<Longrightarrow> c1 k = cache k"
  using assms
  by (auto simp: GetGeometryBetweenActors_def bind_result_def Let_def
      split: sum.splits prod.splits)

lemma GetGeometryBetweenActors_frame:
  assumes "GetGeometryBetweenActors K X cache gmap ref other rs os ra oa rb ob l rl ol
           = Inr (gc, c1, g1)"
  shows "(\<forall>k. k \<noteq> actor_id_key ref other \<longrightarrow> c1 k = cache k)
         \<and> (\<forall>x. x \<noteq> ref \<and> x \<noteq> other \<longrightarrow> g1 x = gmap x)"
proof (cases "cache (actor_id_key ref other)")
  case (Some a)
  with assms show ?thesis by (simp add: GetGeometryBetweenActors_def)
next
  case None
  obtain rg g' og where
    r: "GetGeodesicBoundary K X ref gmap rs ra rb rl l = Inr (rg, g')"
    and o: "GetGeodesicBoundary K X other g' os oa ob ol l = Inr (og, g1)"
    and c: "\<And>k. k \<noteq> actor_id_key ref other \<Longrightarrow> c1 k = cache k"
    by (rule GetGeometryBetweenActors_miss [OF assms None]) blast
  from GetGeodesicBoundary_frame [OF r] GetGeodesicBoundary_frame [OF o] c
  show ?thesis by auto
qed

lemma NegotiateCollision_cache_frame:
  assumes "NegotiateCollision K X ref other cache gmap locks rs os ra oa tls buf ob idx rl ol
           = Inr ((hz, m), c1, g1, l1)"
  shows "(\<forall>k. k \<noteq> actor_id_key ref other \<longrightarrow> c1 k = cache k)
         \<and> (\<forall>x. x \<noteq> ref \<and> x \<noteq> other \<longrightarrow> g1 x = gmap x)"
proof -
  from assms have buf: "buf \<noteq> []" "idx < length buf"
    using NegotiateCollision_Inr_buffer by blast+
  show ?thesis
  proof (cases "spec_gate K ref other locks rs os ra oa tls buf idx")
    case False
    with buf assms show ?thesis
      by (simp add: NegotiateCollision_gate_closed)
  next
    case True
    with buf assms obtain gc where
      "GetGeometryBetweenActors K X cache gmap ref other rs os ra oa buf ob locks rl ol
       = Inr (gc, c1, g1)"
      by (auto simp: NegotiateCollision_gate_open bind_result_def split: sum.splits if_splits)
    then show ?thesis by (rule GetGeometryBetweenActors_frame)
  qed
qed

lemma check_candidates_margin:
  assumes "check_candidates K X P rand state_map attribute_map tl_state_map buffer_map ego eks ea
             idx rl cands cache gmap l0 n = Inr ((True, obstacle, m), c', g', l', n')"
    and "distinct cands" "ego \<notin> set cands"
    and "\<forall>cand \<in> set cands. cache (actor_id_key ego cand) = None"
    and "\<forall>cand \<in> set cands. gmap cand = None"
    and "\<forall>a. a \<noteq> ego \<longrightarrow> l0 a = locks a"
  shows "\<exists>gc c0 g0 l1 c1 g1 os oa eb ob ref_poly other_geodesic g other_poly.
           state_map obstacle = Some os \<and> attribute_map obstacle = Some oa
           \<and> buffer_map ego = Some eb \<and> buffer_map obstacle = Some ob
           \<and> GetGeometryBetweenActors K X c0 g0 ego obstacle eks os ea oa eb ob l1 rl
                (GetDistanceToLeadingVehicle P obstacle) = Inr (gc, c1, g1)
           \<and> m = Finite (spec_margin K gc rl)
           \<and> GetPolygon (GetBoundary K eks ea) = Inr ref_poly
           \<and> GetGeodesicBoundary K X obstacle Map.empty os oa ob
                (GetDistanceToLeadingVehicle P obstacle) locks = Inr (other_geodesic, g)
           \<and> GetPolygon other_geodesic = Inr other_poly
           \<and> reference_vehicle_to_other_geodesic gc = bg_distance X ref_poly other_poly"
  using assms
proof (induction cands arbitrary: cache gmap l0 n)
  case Nil
  then show ?case by simp
next
  case (Cons other rest)
  note inv = Cons.prems(2-6)
  from inv have rest_inv: "distinct rest" "ego \<notin> set rest"
    "\<forall>cand \<in> set rest. cache (actor_id_key ego cand) = None"
    "\<forall>cand \<in> set rest. gmap cand = None"
    by simp_all
  from inv have other: "other \<noteq> ego" "other \<notin> set rest"
    "cache (actor_id_key ego other) = None" "gmap other = None"
    by auto
  from check_candidates_Cons_cases [OF Cons.prems(1)]
  show ?case
  proof (elim disjE exE conjE)
    assume "check_candidates K X P rand state_map attribute_map tl_state_map buffer_map ego eks ea
              idx rl rest cache gmap l0 n = Inr ((True, obstacle, m), c', g', l', n')"
    from Cons.IH [OF this rest_inv inv(5)] show ?thesis .
  next
    fix os oa tls eb ob hz1 m1 c1 g1 l1
    assume maps: "state_map other = Some os" "attribute_map other = Some oa"
        "tl_state_map ego = Some tls" "buffer_map ego = Some eb" "buffer_map other = Some ob"
      and nc: "NegotiateCollision K X ego other cache gmap l0 eks os ea oa tls eb ob idx rl
                 (GetDistanceToLeadingVehicle P other) = Inr ((hz1, m1), c1, g1, l1)"
      and rest: "if hz1 \<and> fst (ignore_policy P rand ego (actor_type oa) n)
                 then ((True, obstacle, m), c', g', l', n')
                      = ((True, other, m1), c1, g1, l1,
                         snd (ignore_policy P rand ego (actor_type oa) n))
                 else check_candidates K X P rand state_map attribute_map tl_state_map
                        buffer_map ego eks ea idx rl rest c1 g1 l1
                        (if hz1 then snd (ignore_policy P rand ego (actor_type oa) n) else n)
                      = Inr ((True, obstacle, m), c', g', l', n')"
    show ?thesis
    proof (cases "hz1 \<and> fst (ignore_policy P rand ego (actor_type oa) n)")
      case True
      with rest have eq: "obstacle = other" "m = m1" by simp_all
      from NegotiateCollision_Inr_cases [OF nc] True obtain gc where
        geo: "GetGeometryBetweenActors K X cache gmap ego other eks os ea oa eb ob l0 rl
                (GetDistanceToLeadingVehicle P other) = Inr (gc, c1, g1)"
        and m1: "m1 = Finite (spec_margin K gc rl)"
        by auto
      from geo other(3) obtain ref_poly rg gm og other_poly where
        rp: "GetPolygon (GetBoundary K eks ea) = Inr ref_poly"
        and rgeo: "GetGeodesicBoundary K X ego gmap eks ea eb rl l0 = Inr (rg, gm)"
        and ogeo: "GetGeodesicBoundary K X other gm os oa ob
                     (GetDistanceToLeadingVehicle P other) l0 = Inr (og, g1)"
        and op: "GetPolygon og = Inr other_poly"
        and rto: "reference_vehicle_to_other_geodesic gc = bg_distance X ref_poly other_poly"
        by (rule GetGeometryBetweenActors_miss) blast
      from GetGeodesicBoundary_frame [OF rgeo other(1)] other(4) have "gm other = None" by simp
      moreover from inv(5) other(1) have "locks other = l0 other" by simp
      ultimately have "GetGeodesicBoundary K X other Map.empty os oa ob
                         (GetDistanceToLeadingVehicle P other) locks = Inr (og, [other \<mapsto> og])"
        using GetGeodesicBoundary_fresh [OF ogeo] by blast
      with maps geo m1 rp op rto eq show ?thesis by blast
    next
      case False
      with rest
      have rec: "check_candidates K X P rand state_map attribute_map tl_state_map
              buffer_map ego eks ea idx rl rest c1 g1 l1
              (if hz1 then snd (ignore_policy P rand ego (actor_type oa) n) else n)
            = Inr ((True, obstacle, m), c', g', l', n')"
        by simp
      from NegotiateCollision_cache_frame [OF nc]
      have c1: "\<And>k. k \<noteq> actor_id_key ego other \<Longrightarrow> c1 k = cache k"
        and g1: "\<And>x. x \<noteq> ego \<Longrightarrow> x \<noteq> other \<Longrightarrow> g1 x = gmap x"
        by blast+
      have "\<forall>cand \<in> set rest. c1 (actor_id_key ego cand) = None"
      proof
        fix cand assume mem: "cand \<in> set rest"
        with other(2) have "cand \<noteq> other" by blast
        then have "actor_id_key ego cand \<noteq> actor_id_key ego other"
          using actor_id_key_inj by blast
        with c1 rest_inv(3) mem show "c1 (actor_id_key ego cand) = None" by simp
      qed
      moreover have "\<forall>cand \<in> set rest. g1 cand = None"
      proof
        fix cand assume mem: "cand \<in> set rest"
        with other(2) rest_inv(2) have "cand \<noteq> other" "cand \<noteq> ego" by blast+
        with g1 rest_inv(4) mem show "g1 cand = None" by simp
      qed
      moreover have "\<forall>a. a \<noteq> ego \<longrightarrow> l1 a = locks a"
        using NegotiateCollision_lock_frame [OF nc] inv(5) by simp
      ultimately show ?thesis
        using Cons.IH [OF rec rest_inv(1,2)] by blast
    qed
  qed
qed

lemma ex_margin: "spec_margin example_constants lead_comparison 1 = 13.5"
  by (simp add: spec_margin_def lead_comparison_def example_constants_simps)

lemma ex_lock: "update_collision_lock Map.empty 1 2 lead_comparison = locked_on_lead"
  by (simp add: update_collision_lock_def lead_comparison_def locked_on_lead_def lead_lock_def)

lemma ex_far_gate:
  "\<not> spec_gate example_constants 1 2 Map.empty (vehicle_at 0 10 True) (vehicle_at 90 5 True)
       car car green_light ego_route 1"
  apply (simp add: spec_gate_def ex_ext_ego Let_def vehicle_at_simps car_simps
      example_constants_simps)
  apply (simp add: green_light_def ego_route_def waypoint_at_def vec_simps power2_eq_square)
  done

section \<open>Claims about the negotiator\<close>

text \<open>
  C5. For every ordered pair, \<open>NegotiateCollision\<close> goes on to the geometric
  evaluation exactly when the gate of the specification holds: not (at a junction
  entrance, at a traffic light and stopped by it), and either inside a junction with
  \<open>d\<^sup>2\<close> below the cross range, or outside, with the other in front and \<open>d\<^sup>2\<close>
  below the ego range. When the gate holds the result is the one the geometry between
  the two actors gives (an error of the geometry is the error of the call); when it
  fails the result is no hazard with the margin \<open>+\<infinity>\<close>, and the caches are
  untouched. The reference buffer is non-empty and holds the look-ahead index.
\<close>

theorem NegotiateCollision_gate:
  assumes "reference_vehicle_buffer \<noteq> []"
    and "look_ahead < length reference_vehicle_buffer"
  shows "NegotiateCollision K X ref other cache gmap locks ref_state other_state ref_attr other_attr
           tls reference_vehicle_buffer other_vehicle_buffer look_ahead ref_lead other_lead
         = (if spec_gate K ref other locks ref_state other_state ref_attr other_attr tls
                 reference_vehicle_buffer look_ahead
            then bind_result
                   (GetGeometryBetweenActors K X cache gmap ref other ref_state other_state
                      ref_attr other_attr reference_vehicle_buffer other_vehicle_buffer locks
                      ref_lead other_lead)
                   (\<lambda>(gc, cache1, gmap1).
                      if spec_hazard_rule gc (ego_angular_priority ref_state other_state)
                      then Inr ((True, Finite (spec_margin K gc ref_lead)), cache1, gmap1,
                                update_collision_lock locks ref other gc)
                      else Inr ((False, Infinity), cache1, gmap1, flush_collision_lock locks ref))
            else Inr ((False, Infinity), cache, gmap, flush_collision_lock locks ref))"
  using assms
  by (simp add: NegotiateCollision_gate_open NegotiateCollision_gate_closed)

text \<open>Witness of C5 on the example scene: the lead 20 m ahead passes the gate and is
  a hazard; a vehicle 90 m ahead fails it.\<close>

theorem NegotiateCollision_gate_witness:
  "ego_route \<noteq> [] \<and> 1 < length ego_route
   \<and> spec_gate example_constants 1 2 Map.empty (vehicle_at 0 10 True) (vehicle_at 20 5 True)
        car car green_light ego_route 1
   \<and> NegotiateCollision example_constants example_externals 1 2 Map.empty Map.empty Map.empty
        (vehicle_at 0 10 True) (vehicle_at 20 5 True) car car green_light ego_route lead_route 1 1 1
      = Inr ((True, Finite 13.5), example_cache, example_geodesics, locked_on_lead)
   \<and> \<not> spec_gate example_constants 1 2 Map.empty (vehicle_at 0 10 True) (vehicle_at 90 5 True)
          car car green_light ego_route 1
   \<and> NegotiateCollision example_constants example_externals 1 2 Map.empty Map.empty Map.empty
        (vehicle_at 0 10 True) (vehicle_at 90 5 True) car car green_light ego_route lead_route 1 1 1
      = Inr ((False, Infinity), Map.empty, Map.empty, Map.empty)"
proof -
  have buf: "ego_route \<noteq> []" "1 < length ego_route"
    by (simp_all add: route_lengths ego_route_def)
  show ?thesis
    using buf ex_gate ex_far_gate
      NegotiateCollision_gate [OF buf, of example_constants example_externals 1 2 Map.empty
        Map.empty Map.empty "vehicle_at 0 10 True" "vehicle_at 20 5 True" car car green_light
        lead_route 1 1]
      NegotiateCollision_gate [OF buf, of example_constants example_externals 1 2 Map.empty
        Map.empty Map.empty "vehicle_at 0 10 True" "vehicle_at 90 5 True" car car green_light
        lead_route 1 1]
    by (simp add: ex_geometry bind_result_def ex_rule ex_margin ex_lock flush_collision_lock_def)
qed

text \<open>
  Under the gate the hazard flag is the rule of the specification over the comparison
  of the pair, with the comparison the source computes under the name
  \<open>ego_angular_priority\<close> in the place of the angular priority.
\<close>

lemma NegotiateCollision_rule_with_source_priority:
  assumes "reference_vehicle_buffer \<noteq> []"
    and "look_ahead < length reference_vehicle_buffer"
    and "spec_gate K ref other locks ref_state other_state ref_attr other_attr tls
           reference_vehicle_buffer look_ahead"
    and "GetGeometryBetweenActors K X cache gmap ref other ref_state other_state
           ref_attr other_attr reference_vehicle_buffer other_vehicle_buffer locks
           ref_lead other_lead = Inr (gc, cache1, gmap1)"
  shows "\<exists>m locks1.
           NegotiateCollision K X ref other cache gmap locks ref_state other_state ref_attr
             other_attr tls reference_vehicle_buffer other_vehicle_buffer look_ahead
             ref_lead other_lead
           = Inr ((spec_hazard_rule gc (ego_angular_priority ref_state other_state), m),
                  cache1, gmap1, locks1)"
  using assms
  by (simp add: NegotiateCollision_gate_open bind_result_def)

text \<open>The crossing scene.\<close>

lemma crossing_externals_simps:
  "bg_distance crossing_externals = box_distance"
  "GetTargetWaypoint crossing_externals = example_target_waypoint"
  by (simp_all add: crossing_externals_def)

lemma truck_simps:
  "actor_type truck = Vehicle" "half_length truck = 6" "half_width truck = 1"
  by (simp_all add: truck_def)

lemma crossing_vehicle_simps:
  "location northbound_car = vec 0 0 0"
  "rotation northbound_car = \<lparr>forward_vector = vec 0 1 0\<rparr>"
  "velocity northbound_car = vec 0 5 0"
  "location westbound_truck = vec 8 6 0"
  "rotation westbound_truck = \<lparr>forward_vector = vec (- 1) 0 0\<rparr>"
  "velocity westbound_truck = vec (- 5) 0 0"
  by (simp_all add: northbound_car_def westbound_truck_def driving_vehicle_def vec_simps)

lemma sqrt_9: "sqrt 9 = 3"
  by (rule real_sqrt_unique) simp_all

lemma ex_bbox_north: "GetBoundary example_constants northbound_car car
   = [vec 1 2 0, vec 1 (- 2) 0, vec (- 1) (- 2) 0, vec (- 1) 2 0]"
  by (simp add: GetBoundary_def crossing_vehicle_simps car_simps vec_simps Let_def)

lemma ex_bbox_west: "GetBoundary example_constants westbound_truck truck
   = [vec 2 7 0, vec 14 7 0, vec 14 5 0, vec 2 5 0]"
  by (simp add: GetBoundary_def crossing_vehicle_simps truck_simps vec_simps Let_def)

lemma ex_ext_north:
  "GetBoundingBoxExtention example_constants 1 northbound_car Map.empty = 22.5"
  by (simp add: GetBoundingBoxExtention_def example_constants_simps crossing_vehicle_simps vec_simps)

lemma ex_ext_west:
  "GetBoundingBoxExtention example_constants 2 westbound_truck Map.empty = 22.5"
  by (simp add: GetBoundingBoxExtention_def example_constants_simps crossing_vehicle_simps vec_simps)

lemma ex_target_north:
  "example_target_waypoint north_route 2 = (waypoint_facing (vec 0 10 0) (vec 0 1 0), 1)"
  by (simp add: example_target_waypoint_def north_route_def waypoint_facing_def vec_simps)

lemma ex_target_west:
  "example_target_waypoint west_route 6 = (waypoint_facing (vec (- 2) 6 0) (vec (- 1) 0 0), 1)"
  by (simp add: example_target_waypoint_def west_route_def waypoint_facing_def vec_simps)

lemma ex_walk_north:
  "boundary_walk example_constants north_route (waypoint_facing (vec 0 10 0) (vec 0 1 0))
     (SQUARE (45 / 2)) 1 (Suc 0) False None (north_route ! Suc 0) [] []
   = ([vec (- 1) 10 0, vec (- 1) 20 0], [vec 1 10 0, vec 1 20 0])"
  by (simp add: boundary_walk.simps north_route_def waypoint_facing_def walk_reached_def
      walk_emits_def rib_left_def rib_right_def example_constants_simps vec_simps Let_def)

lemma ex_walk_west:
  "boundary_walk example_constants west_route (waypoint_facing (vec (- 2) 6 0) (vec (- 1) 0 0))
     (SQUARE (45 / 2)) 1 (Suc 0) False None (west_route ! Suc 0) [] []
   = ([vec (- 2) 5 0, vec (- 12) 5 0], [vec (- 2) 7 0, vec (- 12) 7 0])"
  by (simp add: boundary_walk.simps west_route_def waypoint_facing_def walk_reached_def
      walk_emits_def rib_left_def rib_right_def example_constants_simps vec_simps Let_def)

lemma crossing_route_lengths: "length north_route = 4" "length west_route = 4"
  by (simp_all add: north_route_def west_route_def)

lemma ex_geodesic_north:
  "GetGeodesicBoundary example_constants crossing_externals 1 Map.empty northbound_car car
     north_route 1 Map.empty = Inr (north_corridor, [1 \<mapsto> north_corridor])"
  by (simp add: GetGeodesicBoundary_def ex_bbox_north ex_ext_north car_simps Let_def
      crossing_externals_simps ex_target_north ex_walk_north crossing_route_lengths
      north_corridor_def)

lemma ex_geodesic_west:
  "GetGeodesicBoundary example_constants crossing_externals 2 [1 \<mapsto> north_corridor]
     westbound_truck truck west_route 1 Map.empty = Inr (west_corridor, crossing_geodesics)"
  by (simp add: GetGeodesicBoundary_def ex_bbox_west ex_ext_west truck_simps Let_def
      crossing_externals_simps ex_target_west ex_walk_west crossing_route_lengths
      west_corridor_def crossing_geodesics_def)

lemma ex_polygons_crossing:
  "GetPolygon [vec 1 2 0, vec 1 (- 2) 0, vec (- 1) (- 2) 0, vec (- 1) 2 0]
     = Inr [(1, 2), (1, - 2), (- 1, - 2), (- 1, 2), (1, 2)]"
  "GetPolygon [vec 2 7 0, vec 14 7 0, vec 14 5 0, vec 2 5 0]
     = Inr [(2, 7), (14, 7), (14, 5), (2, 5), (2, 7)]"
  "GetPolygon north_corridor
     = Inr [(1, 20), (1, 10), (1, 2), (1, - 2), (- 1, - 2), (- 1, 2), (- 1, 10), (- 1, 20), (1, 20)]"
  "GetPolygon west_corridor
     = Inr [(- 12, 7), (- 2, 7), (2, 7), (14, 7), (14, 5), (2, 5), (- 2, 5), (- 12, 5), (- 12, 7)]"
  by (simp_all add: GetPolygon_def north_corridor_def west_corridor_def vec_def)

lemma ex_box_distances:
  "box_distance [(1, 2), (1, - 2), (- 1, - 2), (- 1, 2), (1, 2)]
     [(- 12, 7), (- 2, 7), (2, 7), (14, 7), (14, 5), (2, 5), (- 2, 5), (- 12, 5), (- 12, 7)] = 3"
  "box_distance [(2, 7), (14, 7), (14, 5), (2, 5), (2, 7)]
     [(1, 20), (1, 10), (1, 2), (1, - 2), (- 1, - 2), (- 1, 2), (- 1, 10), (- 1, 20), (1, 20)] = 1"
  "box_distance
     [(1, 20), (1, 10), (1, 2), (1, - 2), (- 1, - 2), (- 1, 2), (- 1, 10), (- 1, 20), (1, 20)]
     [(- 12, 7), (- 2, 7), (2, 7), (14, 7), (14, 5), (2, 5), (- 2, 5), (- 12, 5), (- 12, 7)] = 0"
  "box_distance [(1, 2), (1, - 2), (- 1, - 2), (- 1, 2), (1, 2)]
     [(2, 7), (14, 7), (14, 5), (2, 5), (2, 7)] = sqrt 10"
  by (simp_all add: box_distance_def sqrt_9)

lemma ex_geometry_crossing:
  "GetGeometryBetweenActors example_constants crossing_externals Map.empty Map.empty 1 2
     northbound_car westbound_truck car truck north_route west_route Map.empty 1 1
   = Inr (crossing_comparison, crossing_cache, crossing_geodesics)"
  by (simp add: GetGeometryBetweenActors_def key_1_2 bind_result_def ex_bbox_north ex_bbox_west
      ex_geodesic_north ex_geodesic_west ex_polygons_crossing crossing_externals_simps
      ex_box_distances crossing_comparison_def crossing_cache_def Let_def)

lemma ex_gate_crossing:
  "spec_gate example_constants 1 2 Map.empty northbound_car westbound_truck car truck green_light
     north_route 1"
  apply (simp add: spec_gate_def ex_ext_north ex_ext_west Let_def crossing_vehicle_simps car_simps
      truck_simps example_constants_simps)
  apply (simp add: green_light_def north_route_def waypoint_facing_def normalized_def vec_simps
      sqrt_100 float_epsilon_def power2_eq_square)
  done

lemma ex_priorities_crossing:
  "ego_angular_priority northbound_car westbound_truck = False"
  "spec_angular_priority northbound_car westbound_truck = True"
  by (simp_all add: ego_angular_priority_def spec_angular_priority_def crossing_vehicle_simps
      normalized_def vec_simps sqrt_100 float_epsilon_def Let_def)

lemma sqrt_10_bound: "\<not> sqrt 10 < 1 / 10"
proof -
  have "(1::real) \<le> sqrt 10" by simp
  then show ?thesis by linarith
qed

lemma ex_rule_crossing:
  "spec_hazard_rule crossing_comparison False" "\<not> spec_hazard_rule crossing_comparison True"
  using sqrt_10_bound by (simp_all add: spec_hazard_rule_def crossing_comparison_def)

lemma ex_margin_crossing: "spec_margin example_constants crossing_comparison 1 = 0.5"
  by (simp add: spec_margin_def crossing_comparison_def example_constants_simps)

lemma ex_lock_crossing:
  "update_collision_lock Map.empty 1 2 crossing_comparison = crossing_lock"
  by (simp add: update_collision_lock_def crossing_comparison_def crossing_lock_def)

text \<open>
  C1 at its failing input, the crossing scene: the pair passes the gate, the corridors
  touch, the bodies do not, both paths are clear and the ego has no path priority
  (its body is 3 m from the corridor of the truck, the truck 1 m from the corridor of
  the ego). The angular priority of the specification holds (\<open>0.6 < 0.8\<close>), so the
  rule of the claim gives no hazard. The source takes the forward vector of the
  reference for the second dot product as well (the defect of C2), compares
  \<open>0.6 < - 0.6\<close>, and \<open>NegotiateCollision\<close> returns a hazard.
\<close>

theorem hazard_rule_takes_reference_heading:
  "spec_gate example_constants 1 2 Map.empty northbound_car westbound_truck car truck green_light
     north_route 1
   \<and> GetGeometryBetweenActors example_constants crossing_externals Map.empty Map.empty 1 2
        northbound_car westbound_truck car truck north_route west_route Map.empty 1 1
      = Inr (crossing_comparison, crossing_cache, crossing_geodesics)
   \<and> spec_angular_priority northbound_car westbound_truck = True
   \<and> spec_hazard_rule crossing_comparison (spec_angular_priority northbound_car westbound_truck)
      = False
   \<and> NegotiateCollision example_constants crossing_externals 1 2 Map.empty Map.empty Map.empty
        northbound_car westbound_truck car truck green_light north_route west_route 1 1 1
      = Inr ((True, Finite 0.5), crossing_cache, crossing_geodesics, crossing_lock)"
proof -
  have buf: "north_route \<noteq> []" "1 < length north_route"
    by (simp_all add: crossing_route_lengths north_route_def)
  have "NegotiateCollision example_constants crossing_externals 1 2 Map.empty Map.empty Map.empty
          northbound_car westbound_truck car truck green_light north_route west_route 1 1 1
        = Inr ((True, Finite 0.5), crossing_cache, crossing_geodesics, crossing_lock)"
    using buf ex_gate_crossing
    by (simp add: NegotiateCollision_gate_open ex_geometry_crossing bind_result_def
        ex_priorities_crossing ex_rule_crossing ex_margin_crossing ex_lock_crossing)
  with ex_gate_crossing ex_geometry_crossing ex_priorities_crossing ex_rule_crossing
  show ?thesis by simp
qed

text \<open>Witness of C1: at the failing input the angular priority alone decides the rule,
  which holds without it and fails with it, and the flag \<open>NegotiateCollision\<close> returns
  is the rule at the comparison the source computes.\<close>

theorem hazard_rule_takes_reference_heading_witness:
  "spec_hazard_rule crossing_comparison True = False
   \<and> spec_hazard_rule crossing_comparison False = True
   \<and> ego_angular_priority northbound_car westbound_truck = False
   \<and> map_sum id (fst \<circ> fst)
        (NegotiateCollision example_constants crossing_externals 1 2 Map.empty Map.empty
           Map.empty northbound_car westbound_truck car truck green_light north_route
           west_route 1 1 1)
      = Inr (spec_hazard_rule crossing_comparison
               (ego_angular_priority northbound_car westbound_truck))"
  using hazard_rule_takes_reference_heading
  by (simp add: ex_rule_crossing ex_priorities_crossing)

section \<open>The driver on the example scene\<close>

lemma example_map_simps:
  "example_states 1 = Some (vehicle_at 0 10 True)"
  "example_states 2 = Some (vehicle_at 20 5 True)"
  "example_attributes 1 = Some car" "example_attributes 2 = Some car"
  "example_lights 1 = Some green_light"
  "example_buffers 1 = Some ego_route" "example_buffers 2 = Some lead_route"
  "lead_only_buffers 1 = None"
  by (simp_all add: example_states_def example_attributes_def example_lights_def
      example_buffers_def lead_only_buffers_def)

lemma example_parameters_simps:
  "GetDistanceToLeadingVehicle example_parameters a = 1"
  "GetCollisionDetection example_parameters a b = True"
  "GetPercentageIgnoreVehicles example_parameters a = 0"
  "GetPercentageIgnoreWalkers example_parameters a = 0"
  "GetDistanceToLeadingVehicle ignoring_parameters a = 1"
  "GetCollisionDetection ignoring_parameters a b = True"
  "GetPercentageIgnoreVehicles ignoring_parameters a = 100"
  "GetPercentageIgnoreWalkers ignoring_parameters a = 0"
  by (simp_all add: example_parameters_def ignoring_parameters_def)

lemma ex_negotiation:
  "NegotiateCollision example_constants example_externals 1 2 Map.empty Map.empty Map.empty
     (vehicle_at 0 10 True) (vehicle_at 20 5 True) car car green_light ego_route lead_route (Suc 0) 1 1
   = Inr ((True, Finite 13.5), example_cache, example_geodesics, locked_on_lead)"
proof -
  have "ego_route \<noteq> []" "1 < length ego_route"
    by (simp_all add: route_lengths ego_route_def)
  then show ?thesis
    using ex_gate
    by (simp add: NegotiateCollision_gate_open ex_geometry bind_result_def ex_rule ex_margin ex_lock)
qed

lemma ex_far_negotiation:
  "NegotiateCollision example_constants example_externals 1 2 Map.empty Map.empty Map.empty
     (vehicle_at 0 10 True) (vehicle_at 90 5 True) car car green_light ego_route lead_route (Suc 0) 1 1
   = Inr ((False, Infinity), Map.empty, Map.empty, Map.empty)"
proof -
  have "ego_route \<noteq> []" "1 < length ego_route"
    by (simp_all add: route_lengths ego_route_def)
  then show ?thesis
    using ex_far_gate
    by (simp add: NegotiateCollision_gate_closed flush_collision_lock_def)
qed

lemma ex_look_ahead:
  "snd (GetTargetWaypoint example_externals ego_route (JUNCTION_LOOK_AHEAD example_constants)) = Suc 0"
  by (simp add: example_externals_simps example_constants_simps example_target_waypoint_def
      ego_route_def waypoint_at_def vec_simps)

lemma ex_collect:
  "collect_candidates example_constants example_states 1 (vec 0 0 0) [2] [] = Inr [2]"
  by (simp add: GetLocation_def example_map_simps bind_result_def vehicle_at_simps
      example_constants_simps vec_simps)

lemma ex_check_commit:
  "check_candidates example_constants example_externals example_parameters example_rand
     example_states example_attributes example_lights example_buffers 1 (vehicle_at 0 10 True) car
     (Suc 0) 1 [2] Map.empty Map.empty Map.empty 0
   = Inr ((True, 2, Finite 13.5), example_cache, example_geodesics, locked_on_lead, 1)"
  by (simp add: GetType_def example_map_simps bind_result_def example_parameters_simps
      ex_negotiation ignore_policy_def car_simps)

lemma ex_check_ignored:
  "check_candidates example_constants example_externals ignoring_parameters example_rand
     example_states example_attributes example_lights example_buffers 1 (vehicle_at 0 10 True) car
     (Suc 0) 1 [2] Map.empty Map.empty Map.empty 0
   = Inr ((False, 0, Infinity), example_cache, example_geodesics, locked_on_lead, 1)"
  by (simp add: GetType_def example_map_simps bind_result_def example_parameters_simps
      ex_negotiation ignore_policy_def car_simps example_rand_def)

lemma example_track_simps:
  "GetOverlappingVehicles example_track 1 = [2]"
  "GetOverlappingVehicles empty_track a = []"
  by (simp_all add: example_track_def empty_track_def)

lemma ex_avoidance_commit:
  "CollisionAvoidance example_constants example_externals example_parameters example_track
     example_rand 0 [1] example_states example_attributes example_lights example_buffers
     no_locks [no_hazard_record] 0
   = Inr ([lead_hazard_record], locked_on_lead, 1)"
  by (simp add: CollisionAvoidance_def Let_def example_map_simps vehicle_at_simps ex_look_ahead
      example_track_simps ex_collect bind_result_def example_parameters_simps ex_check_commit
      no_locks_def lead_hazard_record_def
      del: collect_candidates.simps check_candidates.simps)

lemma ex_avoidance_ignored:
  "CollisionAvoidance example_constants example_externals ignoring_parameters example_track
     example_rand 0 [1] example_states example_attributes example_lights example_buffers
     no_locks [no_hazard_record] 0
   = Inr ([no_hazard_record], locked_on_lead, 1)"
  by (simp add: CollisionAvoidance_def Let_def example_map_simps vehicle_at_simps ex_look_ahead
      example_track_simps ex_collect bind_result_def example_parameters_simps ex_check_ignored
      no_locks_def no_hazard_record_def
      del: collect_candidates.simps check_candidates.simps)

lemma ex_avoidance_idle:
  "CollisionAvoidance example_constants example_externals example_parameters empty_track
     example_rand 0 [1] example_states example_attributes example_lights example_buffers
     locked_on_lead [no_hazard_record] 0
   = Inr ([no_hazard_record], locked_on_lead, 0)"
  by (simp add: CollisionAvoidance_def Let_def example_map_simps vehicle_at_simps ex_look_ahead
      example_track_simps bind_result_def example_parameters_simps no_hazard_record_def)

text \<open>The scene a tick later: the ego holds the lock on its lead, the lead is out of
  reach, and the negotiation flushes the lock.\<close>

lemma departed_map_simps:
  "departed_states 1 = Some (vehicle_at 0 10 True)"
  "departed_states 2 = Some (vehicle_at 90 5 True)"
  by (simp_all add: departed_states_def)

lemma ex_ext_ego_locked:
  "GetBoundingBoxExtention example_constants 1 (vehicle_at 0 10 True) locked_on_lead = 20"
  by (simp add: GetBoundingBoxExtention_def example_constants_simps vehicle_at_simps vec_simps
      locked_on_lead_def lead_lock_def)

lemma ex_departed_gate:
  "\<not> spec_gate example_constants 1 2 locked_on_lead (vehicle_at 0 10 True) (vehicle_at 90 5 True)
       car car green_light ego_route 1"
  apply (simp add: spec_gate_def ex_ext_ego_locked Let_def vehicle_at_simps car_simps
      example_constants_simps)
  apply (simp add: green_light_def ego_route_def waypoint_at_def vec_simps power2_eq_square)
  done

lemma ex_departed_negotiation:
  "NegotiateCollision example_constants example_externals 1 2 Map.empty Map.empty locked_on_lead
     (vehicle_at 0 10 True) (vehicle_at 90 5 True) car car green_light ego_route lead_route (Suc 0) 1 1
   = Inr ((False, Infinity), Map.empty, Map.empty, no_locks)"
proof -
  have "ego_route \<noteq> []" "1 < length ego_route"
    by (simp_all add: route_lengths ego_route_def)
  then show ?thesis
    using ex_departed_gate
    by (simp add: NegotiateCollision_gate_closed flush_collision_lock_def locked_on_lead_def
        no_locks_def)
qed

lemma ex_departed_collect:
  "collect_candidates example_constants departed_states 1 (vec 0 0 0) [2] [] = Inr [2]"
  by (simp add: GetLocation_def departed_map_simps bind_result_def vehicle_at_simps
      example_constants_simps vec_simps)

lemma ex_check_departed:
  "check_candidates example_constants example_externals example_parameters example_rand
     departed_states example_attributes example_lights example_buffers 1 (vehicle_at 0 10 True) car
     (Suc 0) 1 [2] Map.empty Map.empty locked_on_lead 0
   = Inr ((False, 0, Infinity), Map.empty, Map.empty, no_locks, 0)"
  by (simp add: GetType_def example_map_simps departed_map_simps bind_result_def
      example_parameters_simps ex_departed_negotiation)

lemma ex_avoidance_departed:
  "CollisionAvoidance example_constants example_externals example_parameters example_track
     example_rand 0 [1] departed_states example_attributes example_lights example_buffers
     locked_on_lead [no_hazard_record] 0
   = Inr ([no_hazard_record], no_locks, 0)"
  by (simp add: CollisionAvoidance_def Let_def example_map_simps departed_map_simps
      vehicle_at_simps ex_look_ahead
      example_track_simps ex_departed_collect bind_result_def example_parameters_simps
      ex_check_departed no_hazard_record_def
      del: collect_candidates.simps check_candidates.simps)

lemma ex_negotiates:
  "negotiates example_constants example_parameters example_track example_states
     example_attributes example_lights example_buffers 1 2"
  "negotiates example_constants ignoring_parameters example_track example_states
     example_attributes example_lights example_buffers 1 2"
  "negotiates example_constants example_parameters example_track departed_states
     example_attributes example_lights example_buffers 1 2"
  by (simp_all add: negotiates_def collision_candidate_def negotiation_guard_def
      example_map_simps departed_map_simps example_track_simps example_parameters_simps
      vehicle_at_simps example_constants_simps vec_simps)

lemma ex_negotiates_none:
  "\<not> negotiates example_constants example_parameters empty_track example_states
       example_attributes example_lights example_buffers 1 other"
  by (simp add: negotiates_def example_map_simps example_track_simps)

lemma ex_may_ignore:
  "policy_may_ignore ignoring_parameters example_attributes 1 2"
  by (simp add: policy_may_ignore_def example_map_simps car_simps example_parameters_simps)

lemma ex_geodesic_lead_fresh:
  "GetGeodesicBoundary example_constants example_externals 2 Map.empty
     (vehicle_at 20 5 True) car lead_route 1 no_locks = Inr (lead_corridor, [2 \<mapsto> lead_corridor])"
  by (simp add: GetGeodesicBoundary_def ex_bbox_lead ex_ext_lead car_simps Let_def
      example_externals_simps ex_target_lead ex_walk_lead route_lengths lead_corridor_def
      no_locks_def)

section \<open>Claims about the margin and the locks\<close>

lemma spec_margin_nonneg: "0 \<le> spec_margin K gc lead"
  by (simp add: spec_margin_def)

lemma NegotiateCollision_margin:
  assumes "NegotiateCollision K X ref other cache gmap locks rs os ra oa tls buf ob idx rl ol
           = Inr ((hz, m), cache1, gmap1, locks1)"
  shows "if hz
         then \<exists>gc. GetGeometryBetweenActors K X cache gmap ref other rs os ra oa buf ob locks rl ol
                     = Inr (gc, cache1, gmap1)
                   \<and> m = Finite (spec_margin K gc rl) \<and> 0 \<le> spec_margin K gc rl
         else m = Infinity"
  using NegotiateCollision_Inr_cases [OF assms] by (auto simp: spec_margin_nonneg)

lemma CollisionAvoidance_margin:
  assumes "CollisionAvoidance K X P track_traffic rand index ids state_map attribute_map
             tl_state_map buffer_map locks out n = Inr (out', locks', n')"
  shows "if hazard (out' ! index)
         then \<exists>gc c0 g0 l0 c1 g1 es os ea oa eb ob.
                state_map (ids ! index) = Some es
                \<and> state_map (hazard_actor_id (out' ! index)) = Some os
                \<and> attribute_map (ids ! index) = Some ea
                \<and> attribute_map (hazard_actor_id (out' ! index)) = Some oa
                \<and> buffer_map (ids ! index) = Some eb
                \<and> buffer_map (hazard_actor_id (out' ! index)) = Some ob
                \<and> GetGeometryBetweenActors K X c0 g0 (ids ! index) (hazard_actor_id (out' ! index))
                     es os ea oa eb ob l0 (GetDistanceToLeadingVehicle P (ids ! index))
                     (GetDistanceToLeadingVehicle P (hazard_actor_id (out' ! index)))
                   = Inr (gc, c1, g1)
                \<and> available_distance_margin (out' ! index)
                   = Finite (spec_margin K gc (GetDistanceToLeadingVehicle P (ids ! index)))
                \<and> 0 \<le> spec_margin K gc (GetDistanceToLeadingVehicle P (ids ! index))
         else available_distance_margin (out' ! index) = Infinity"
proof -
  from CollisionAvoidance_Inr_cases [OF assms]
  obtain hz obstacle m where idx: "index < length out"
    and out': "out' = out[index := \<lparr>hazard = hz, hazard_actor_id = obstacle,
                                      available_distance_margin = m\<rparr>]"
    and cases: "((state_map (ids ! index) = None \<or> attribute_map (ids ! index) = None)
                   \<and> \<not> hz \<and> obstacle = 0 \<and> m = Infinity \<and> locks' = locks \<and> n' = n)
                \<or> (\<exists>eks ea eb cands c' g'.
                      state_map (ids ! index) = Some eks \<and> attribute_map (ids ! index) = Some ea
                      \<and> buffer_map (ids ! index) = Some eb
                      \<and> check_candidates K X P rand state_map attribute_map tl_state_map
                           buffer_map (ids ! index) eks ea
                           (snd (GetTargetWaypoint X eb (JUNCTION_LOOK_AHEAD K)))
                           (GetDistanceToLeadingVehicle P (ids ! index)) cands
                           Map.empty Map.empty locks n
                         = Inr ((hz, obstacle, m), c', g', locks', n'))"
    by blast
  from idx out' have rec: "hazard (out' ! index) = hz" "hazard_actor_id (out' ! index) = obstacle"
    "available_distance_margin (out' ! index) = m"
    by simp_all
  from cases consider
      (skipped) "\<not> hz" "m = Infinity"
    | (checked) eks ea eb cands c' g' where
        "state_map (ids ! index) = Some eks" "attribute_map (ids ! index) = Some ea"
        "buffer_map (ids ! index) = Some eb"
        "check_candidates K X P rand state_map attribute_map tl_state_map
           buffer_map (ids ! index) eks ea
           (snd (GetTargetWaypoint X eb (JUNCTION_LOOK_AHEAD K)))
           (GetDistanceToLeadingVehicle P (ids ! index)) cands
           Map.empty Map.empty locks n
         = Inr ((hz, obstacle, m), c', g', locks', n')"
    by blast
  then show ?thesis
  proof cases
    case skipped
    with rec show ?thesis by simp
  next
    case (checked eks ea eb cands c' g')
    note ego = checked(1-3) and chk = checked(4)
    show ?thesis
    proof (cases hz)
      case False
      with check_candidates_verdict [OF chk] rec show ?thesis by simp
    next
      case True
      with check_candidates_verdict [OF chk]
      obtain c0 g0 l0 os oa tls eb' ob where
        other: "state_map obstacle = Some os" "attribute_map obstacle = Some oa"
          "buffer_map (ids ! index) = Some eb'" "buffer_map obstacle = Some ob"
        and nc: "NegotiateCollision K X (ids ! index) obstacle c0 g0 l0 eks os ea oa tls eb' ob
                   (snd (GetTargetWaypoint X eb (JUNCTION_LOOK_AHEAD K)))
                   (GetDistanceToLeadingVehicle P (ids ! index))
                   (GetDistanceToLeadingVehicle P obstacle) = Inr ((True, m), c', g', locks')"
        by auto
      from NegotiateCollision_margin [OF nc]
      obtain gc where
        "GetGeometryBetweenActors K X c0 g0 (ids ! index) obstacle eks os ea oa eb' ob l0
           (GetDistanceToLeadingVehicle P (ids ! index)) (GetDistanceToLeadingVehicle P obstacle)
         = Inr (gc, c', g')"
        "m = Finite (spec_margin K gc (GetDistanceToLeadingVehicle P (ids ! index)))"
        "0 \<le> spec_margin K gc (GetDistanceToLeadingVehicle P (ids ! index))"
        by auto
      with True rec ego other show ?thesis by simp blast
    qed
  qed
qed

lemma CollisionAvoidance_margin_fresh:
  assumes "CollisionAvoidance K X P track_traffic rand index ids state_map attribute_map
             tl_state_map buffer_map locks out n = Inr (out', locks', n')"
    and "distinct (GetOverlappingVehicles track_traffic (ids ! index))"
  shows "if hazard (out' ! index)
         then \<exists>gc c0 g0 l0 c1 g1 es os ea oa eb ob ref_poly other_geodesic g other_poly.
                state_map (ids ! index) = Some es
                \<and> state_map (hazard_actor_id (out' ! index)) = Some os
                \<and> attribute_map (ids ! index) = Some ea
                \<and> attribute_map (hazard_actor_id (out' ! index)) = Some oa
                \<and> buffer_map (ids ! index) = Some eb
                \<and> buffer_map (hazard_actor_id (out' ! index)) = Some ob
                \<and> GetGeometryBetweenActors K X c0 g0 (ids ! index) (hazard_actor_id (out' ! index))
                     es os ea oa eb ob l0 (GetDistanceToLeadingVehicle P (ids ! index))
                     (GetDistanceToLeadingVehicle P (hazard_actor_id (out' ! index)))
                   = Inr (gc, c1, g1)
                \<and> available_distance_margin (out' ! index)
                   = Finite (spec_margin K gc (GetDistanceToLeadingVehicle P (ids ! index)))
                \<and> 0 \<le> spec_margin K gc (GetDistanceToLeadingVehicle P (ids ! index))
                \<and> GetPolygon (GetBoundary K es ea) = Inr ref_poly
                \<and> GetGeodesicBoundary K X (hazard_actor_id (out' ! index)) Map.empty os oa ob
                     (GetDistanceToLeadingVehicle P (hazard_actor_id (out' ! index))) locks
                   = Inr (other_geodesic, g)
                \<and> GetPolygon other_geodesic = Inr other_poly
                \<and> reference_vehicle_to_other_geodesic gc = bg_distance X ref_poly other_poly
         else available_distance_margin (out' ! index) = Infinity"
proof (cases "state_map (ids ! index) = None \<or> attribute_map (ids ! index) = None")
  case True
  with CollisionAvoidance_Inr_cases [OF assms(1)] show ?thesis by auto
next
  case False
  then obtain eks ea where ego: "state_map (ids ! index) = Some eks"
    "attribute_map (ids ! index) = Some ea"
    by auto
  from assms(1) ego obtain eb collected hz obstacle m c' g' where
    eb: "buffer_map (ids ! index) = Some eb"
    and coll: "collect_candidates K state_map (ids ! index) (location eks)
             (GetOverlappingVehicles track_traffic (ids ! index)) [] = Inr collected"
    and chk: "check_candidates K X P rand state_map attribute_map tl_state_map buffer_map
                (ids ! index) eks ea (snd (GetTargetWaypoint X eb (JUNCTION_LOOK_AHEAD K)))
                (GetDistanceToLeadingVehicle P (ids ! index))
                (sort_key (candidate_distance state_map (location eks)) collected)
                Map.empty Map.empty locks n
              = Inr ((hz, obstacle, m), c', g', locks', n')"
    and idx: "index < length out"
    and out': "out' = out[index := \<lparr>hazard = hz, hazard_actor_id = obstacle,
                                      available_distance_margin = m\<rparr>]"
    by (rule CollisionAvoidance_Inr_run)
  from idx out' have rec: "hazard (out' ! index) = hz" "hazard_actor_id (out' ! index) = obstacle"
    "available_distance_margin (out' ! index) = m"
    by simp_all
  show ?thesis
  proof (cases hz)
    case False
    with check_candidates_verdict [OF chk] rec show ?thesis by simp
  next
    case True
    let ?cands = "sort_key (candidate_distance state_map (location eks)) collected"
    from collect_candidates_distinct [OF coll] assms(2) have d: "distinct ?cands" by simp
    from collect_candidates_set [OF coll] have e: "ids ! index \<notin> set ?cands"
      by (auto simp: collision_candidate_def split: option.splits)
    from chk True
    have chk': "check_candidates K X P rand state_map attribute_map tl_state_map buffer_map
                (ids ! index) eks ea (snd (GetTargetWaypoint X eb (JUNCTION_LOOK_AHEAD K)))
                (GetDistanceToLeadingVehicle P (ids ! index)) ?cands
                Map.empty Map.empty locks n
              = Inr ((True, obstacle, m), c', g', locks', n')"
      by simp
    have "\<exists>gc c0 g0 l1 c1 g1 os oa eb' ob ref_poly other_geodesic g other_poly.
           state_map obstacle = Some os \<and> attribute_map obstacle = Some oa
           \<and> buffer_map (ids ! index) = Some eb' \<and> buffer_map obstacle = Some ob
           \<and> GetGeometryBetweenActors K X c0 g0 (ids ! index) obstacle eks os ea oa eb' ob l1
                (GetDistanceToLeadingVehicle P (ids ! index))
                (GetDistanceToLeadingVehicle P obstacle) = Inr (gc, c1, g1)
           \<and> m = Finite (spec_margin K gc (GetDistanceToLeadingVehicle P (ids ! index)))
           \<and> GetPolygon (GetBoundary K eks ea) = Inr ref_poly
           \<and> GetGeodesicBoundary K X obstacle Map.empty os oa ob
                (GetDistanceToLeadingVehicle P obstacle) locks = Inr (other_geodesic, g)
           \<and> GetPolygon other_geodesic = Inr other_poly
           \<and> reference_vehicle_to_other_geodesic gc = bg_distance X ref_poly other_poly"
      by (rule check_candidates_margin [OF chk' d e]) simp_all
    then show ?thesis
      unfolding rec using True ego eb spec_margin_nonneg by (simp only: if_True) blast
  qed
qed

text \<open>
  C6. When \<open>NegotiateCollision\<close> returns a hazard, the margin it returns is
  \<open>max (ref_to_other_geodesic - max lead_distance BOUNDARY_EXTENSION_MINIMUM) 0\<close> of the
  comparison of the pair, finite and not negative; when it returns no hazard the margin
  is \<open>+\<infinity>\<close>. The record the driver writes for an ego has the same shape: with a hazard
  its margin is that value for a comparison of the ego with the recorded hazard actor,
  without one it is \<open>+\<infinity>\<close>. The caches of the driver are empty when its loop starts
  and the overlapping actors are the elements of a set, so the comparison of the
  recorded pair is computed, not read from the cache: its \<open>ref_to_other_geodesic\<close> is the
  distance from the bounding box of the ego to the corridor of the hazard actor, built
  from the state, the attributes and the route of that actor and the lock map the tick
  started with, and the margin written is the formula on this distance.
\<close>

theorem hazard_margin:
  "(NegotiateCollision K X ref other cache gmap locks ref_state other_state ref_attr other_attr
      tls ref_buffer other_buffer look_ahead ref_lead other_lead
    = Inr ((hz, m), cache1, gmap1, locks1)
    \<longrightarrow> (if hz
         then \<exists>gc. GetGeometryBetweenActors K X cache gmap ref other ref_state other_state
                      ref_attr other_attr ref_buffer other_buffer locks ref_lead other_lead
                     = Inr (gc, cache1, gmap1)
                   \<and> m = Finite (spec_margin K gc ref_lead) \<and> 0 \<le> spec_margin K gc ref_lead
         else m = Infinity))
   \<and> (CollisionAvoidance K X P track_traffic rand index ids state_map attribute_map
        tl_state_map buffer_map locks_before out n = Inr (out', locks_after, n')
      \<longrightarrow> (if hazard (out' ! index)
           then \<exists>gc c0 g0 l0 c1 g1 es os ea oa eb ob.
                  state_map (ids ! index) = Some es
                  \<and> state_map (hazard_actor_id (out' ! index)) = Some os
                  \<and> attribute_map (ids ! index) = Some ea
                  \<and> attribute_map (hazard_actor_id (out' ! index)) = Some oa
                  \<and> buffer_map (ids ! index) = Some eb
                  \<and> buffer_map (hazard_actor_id (out' ! index)) = Some ob
                  \<and> GetGeometryBetweenActors K X c0 g0 (ids ! index)
                       (hazard_actor_id (out' ! index)) es os ea oa eb ob l0
                       (GetDistanceToLeadingVehicle P (ids ! index))
                       (GetDistanceToLeadingVehicle P (hazard_actor_id (out' ! index)))
                     = Inr (gc, c1, g1)
                  \<and> available_distance_margin (out' ! index)
                     = Finite (spec_margin K gc (GetDistanceToLeadingVehicle P (ids ! index)))
                  \<and> 0 \<le> spec_margin K gc (GetDistanceToLeadingVehicle P (ids ! index))
           else available_distance_margin (out' ! index) = Infinity))
   \<and> (CollisionAvoidance K X P track_traffic rand index ids state_map attribute_map
        tl_state_map buffer_map locks_before out n = Inr (out', locks_after, n')
      \<and> distinct (GetOverlappingVehicles track_traffic (ids ! index))
      \<and> hazard (out' ! index)
      \<longrightarrow> (\<exists>gc c0 g0 l0 c1 g1 es os ea oa eb ob ref_poly other_geodesic g other_poly.
             state_map (ids ! index) = Some es
             \<and> state_map (hazard_actor_id (out' ! index)) = Some os
             \<and> attribute_map (ids ! index) = Some ea
             \<and> attribute_map (hazard_actor_id (out' ! index)) = Some oa
             \<and> buffer_map (ids ! index) = Some eb
             \<and> buffer_map (hazard_actor_id (out' ! index)) = Some ob
             \<and> GetGeometryBetweenActors K X c0 g0 (ids ! index)
                  (hazard_actor_id (out' ! index)) es os ea oa eb ob l0
                  (GetDistanceToLeadingVehicle P (ids ! index))
                  (GetDistanceToLeadingVehicle P (hazard_actor_id (out' ! index)))
                = Inr (gc, c1, g1)
             \<and> available_distance_margin (out' ! index)
                = Finite (spec_margin K gc (GetDistanceToLeadingVehicle P (ids ! index)))
             \<and> reference_vehicle_to_other_geodesic gc = bg_distance X ref_poly other_poly
             \<and> GetPolygon (GetBoundary K es ea) = Inr ref_poly
             \<and> GetGeodesicBoundary K X (hazard_actor_id (out' ! index)) Map.empty os oa ob
                  (GetDistanceToLeadingVehicle P (hazard_actor_id (out' ! index))) locks_before
                = Inr (other_geodesic, g)
             \<and> GetPolygon other_geodesic = Inr other_poly
             \<and> available_distance_margin (out' ! index)
                = Finite (max (bg_distance X ref_poly other_poly
                               - max (GetDistanceToLeadingVehicle P (ids ! index))
                                     (BOUNDARY_EXTENSION_MINIMUM K)) 0)))"
proof (intro conjI impI)
  assume "NegotiateCollision K X ref other cache gmap locks ref_state other_state ref_attr
            other_attr tls ref_buffer other_buffer look_ahead ref_lead other_lead
          = Inr ((hz, m), cache1, gmap1, locks1)"
  then show "if hz
         then \<exists>gc. GetGeometryBetweenActors K X cache gmap ref other ref_state other_state
                      ref_attr other_attr ref_buffer other_buffer locks ref_lead other_lead
                     = Inr (gc, cache1, gmap1)
                   \<and> m = Finite (spec_margin K gc ref_lead) \<and> 0 \<le> spec_margin K gc ref_lead
         else m = Infinity"
    by (rule NegotiateCollision_margin)
next
  assume "CollisionAvoidance K X P track_traffic rand index ids state_map attribute_map
            tl_state_map buffer_map locks_before out n = Inr (out', locks_after, n')"
  then show "if hazard (out' ! index)
           then \<exists>gc c0 g0 l0 c1 g1 es os ea oa eb ob.
                  state_map (ids ! index) = Some es
                  \<and> state_map (hazard_actor_id (out' ! index)) = Some os
                  \<and> attribute_map (ids ! index) = Some ea
                  \<and> attribute_map (hazard_actor_id (out' ! index)) = Some oa
                  \<and> buffer_map (ids ! index) = Some eb
                  \<and> buffer_map (hazard_actor_id (out' ! index)) = Some ob
                  \<and> GetGeometryBetweenActors K X c0 g0 (ids ! index)
                       (hazard_actor_id (out' ! index)) es os ea oa eb ob l0
                       (GetDistanceToLeadingVehicle P (ids ! index))
                       (GetDistanceToLeadingVehicle P (hazard_actor_id (out' ! index)))
                     = Inr (gc, c1, g1)
                  \<and> available_distance_margin (out' ! index)
                     = Finite (spec_margin K gc (GetDistanceToLeadingVehicle P (ids ! index)))
                  \<and> 0 \<le> spec_margin K gc (GetDistanceToLeadingVehicle P (ids ! index))
           else available_distance_margin (out' ! index) = Infinity"
    by (rule CollisionAvoidance_margin)
next
  assume a: "CollisionAvoidance K X P track_traffic rand index ids state_map attribute_map
            tl_state_map buffer_map locks_before out n = Inr (out', locks_after, n')
          \<and> distinct (GetOverlappingVehicles track_traffic (ids ! index))
          \<and> hazard (out' ! index)"
  then have run: "CollisionAvoidance K X P track_traffic rand index ids state_map attribute_map
            tl_state_map buffer_map locks_before out n = Inr (out', locks_after, n')"
    and dist: "distinct (GetOverlappingVehicles track_traffic (ids ! index))"
    and hz: "hazard (out' ! index)"
    by simp_all
  from CollisionAvoidance_margin_fresh [OF run dist] hz
  obtain gc c0 g0 l0 c1 g1 es os ea oa eb ob ref_poly other_geodesic g other_poly where
    maps: "state_map (ids ! index) = Some es"
      "state_map (hazard_actor_id (out' ! index)) = Some os"
      "attribute_map (ids ! index) = Some ea"
      "attribute_map (hazard_actor_id (out' ! index)) = Some oa"
      "buffer_map (ids ! index) = Some eb"
      "buffer_map (hazard_actor_id (out' ! index)) = Some ob"
    and geo: "GetGeometryBetweenActors K X c0 g0 (ids ! index)
                  (hazard_actor_id (out' ! index)) es os ea oa eb ob l0
                  (GetDistanceToLeadingVehicle P (ids ! index))
                  (GetDistanceToLeadingVehicle P (hazard_actor_id (out' ! index)))
                = Inr (gc, c1, g1)"
    and m: "available_distance_margin (out' ! index)
            = Finite (spec_margin K gc (GetDistanceToLeadingVehicle P (ids ! index)))"
    and polys: "GetPolygon (GetBoundary K es ea) = Inr ref_poly"
      "GetGeodesicBoundary K X (hazard_actor_id (out' ! index)) Map.empty os oa ob
         (GetDistanceToLeadingVehicle P (hazard_actor_id (out' ! index))) locks_before
       = Inr (other_geodesic, g)"
      "GetPolygon other_geodesic = Inr other_poly"
    and rto: "reference_vehicle_to_other_geodesic gc = bg_distance X ref_poly other_poly"
    by (simp only: if_True) blast
  from m rto have "available_distance_margin (out' ! index)
                = Finite (max (bg_distance X ref_poly other_poly
                               - max (GetDistanceToLeadingVehicle P (ids ! index))
                                     (BOUNDARY_EXTENSION_MINIMUM K)) 0)"
    by (simp add: spec_margin_def)
  with maps geo m rto polys
  show "\<exists>gc c0 g0 l0 c1 g1 es os ea oa eb ob ref_poly other_geodesic g other_poly.
             state_map (ids ! index) = Some es
             \<and> state_map (hazard_actor_id (out' ! index)) = Some os
             \<and> attribute_map (ids ! index) = Some ea
             \<and> attribute_map (hazard_actor_id (out' ! index)) = Some oa
             \<and> buffer_map (ids ! index) = Some eb
             \<and> buffer_map (hazard_actor_id (out' ! index)) = Some ob
             \<and> GetGeometryBetweenActors K X c0 g0 (ids ! index)
                  (hazard_actor_id (out' ! index)) es os ea oa eb ob l0
                  (GetDistanceToLeadingVehicle P (ids ! index))
                  (GetDistanceToLeadingVehicle P (hazard_actor_id (out' ! index)))
                = Inr (gc, c1, g1)
             \<and> available_distance_margin (out' ! index)
                = Finite (spec_margin K gc (GetDistanceToLeadingVehicle P (ids ! index)))
             \<and> reference_vehicle_to_other_geodesic gc = bg_distance X ref_poly other_poly
             \<and> GetPolygon (GetBoundary K es ea) = Inr ref_poly
             \<and> GetGeodesicBoundary K X (hazard_actor_id (out' ! index)) Map.empty os oa ob
                  (GetDistanceToLeadingVehicle P (hazard_actor_id (out' ! index))) locks_before
                = Inr (other_geodesic, g)
             \<and> GetPolygon other_geodesic = Inr other_poly
             \<and> available_distance_margin (out' ! index)
                = Finite (max (bg_distance X ref_poly other_poly
                               - max (GetDistanceToLeadingVehicle P (ids ! index))
                                     (BOUNDARY_EXTENSION_MINIMUM K)) 0)"
    by blast
qed

text \<open>Witness of C6 on the example scene: the committed hazard of the lead, whose margin
  the theorem fixes to 13.5 from the bounding box of the ego and the corridor of the
  lead, 16 m apart, and the run in which the ignore policy drops the hazard.\<close>

theorem hazard_margin_witness:
  "NegotiateCollision example_constants example_externals 1 2 Map.empty Map.empty Map.empty
     (vehicle_at 0 10 True) (vehicle_at 20 5 True) car car green_light ego_route lead_route 1 1 1
   = Inr ((True, Finite 13.5), example_cache, example_geodesics, locked_on_lead)
   \<and> (\<exists>gc. GetGeometryBetweenActors example_constants example_externals Map.empty Map.empty 1 2
              (vehicle_at 0 10 True) (vehicle_at 20 5 True) car car ego_route lead_route Map.empty
              1 1 = Inr (gc, example_cache, example_geodesics)
            \<and> Finite 13.5 = Finite (spec_margin example_constants gc 1)
            \<and> 0 \<le> spec_margin example_constants gc 1)
   \<and> CollisionAvoidance example_constants example_externals example_parameters example_track
        example_rand 0 [1] example_states example_attributes example_lights example_buffers
        no_locks [no_hazard_record] 0
      = Inr ([lead_hazard_record], locked_on_lead, 1)
   \<and> distinct (GetOverlappingVehicles example_track ([1] ! 0))
   \<and> hazard ([lead_hazard_record] ! 0)
   \<and> (\<exists>gc. available_distance_margin ([lead_hazard_record] ! 0)
              = Finite (spec_margin example_constants gc 1)
            \<and> 0 \<le> spec_margin example_constants gc 1)
   \<and> GetPolygon (GetBoundary example_constants (vehicle_at 0 10 True) car)
      = Inr [(2, - 1), (- 2, - 1), (- 2, 1), (2, 1), (2, - 1)]
   \<and> GetGeodesicBoundary example_constants example_externals 2 Map.empty
        (vehicle_at 20 5 True) car lead_route 1 no_locks
      = Inr (lead_corridor, [2 \<mapsto> lead_corridor])
   \<and> GetPolygon lead_corridor
      = Inr [(40, - 1), (30, - 1), (22, - 1), (18, - 1), (18, 1), (22, 1), (30, 1), (40, 1), (40, - 1)]
   \<and> available_distance_margin ([lead_hazard_record] ! 0)
      = Finite (max (bg_distance example_externals
                       [(2, - 1), (- 2, - 1), (- 2, 1), (2, 1), (2, - 1)]
                       [(40, - 1), (30, - 1), (22, - 1), (18, - 1), (18, 1), (22, 1), (30, 1),
                        (40, 1), (40, - 1)]
                     - max 1 (BOUNDARY_EXTENSION_MINIMUM example_constants)) 0)
   \<and> CollisionAvoidance example_constants example_externals ignoring_parameters example_track
        example_rand 0 [1] example_states example_attributes example_lights example_buffers
        no_locks [no_hazard_record] 0
      = Inr ([no_hazard_record], locked_on_lead, 1)
   \<and> \<not> hazard ([no_hazard_record] ! 0)
   \<and> available_distance_margin ([no_hazard_record] ! 0) = Infinity"
proof -
  have nc: "NegotiateCollision example_constants example_externals 1 2 Map.empty Map.empty
              Map.empty (vehicle_at 0 10 True) (vehicle_at 20 5 True) car car green_light
              ego_route lead_route 1 1 1
            = Inr ((True, Finite 13.5), example_cache, example_geodesics, locked_on_lead)"
    using ex_negotiation by simp
  have hz: "hazard ([lead_hazard_record] ! 0)" "\<not> hazard ([no_hazard_record] ! 0)"
    by (simp_all add: lead_hazard_record_def no_hazard_record_def)
  have dist: "distinct (GetOverlappingVehicles example_track ([1] ! 0))"
    by (simp add: example_track_simps)
  have obstacle: "hazard_actor_id ([lead_hazard_record] ! 0) = 2" "[1] ! 0 = (1 :: ActorId)"
    by (simp_all add: lead_hazard_record_def)
  have polys: "GetPolygon (GetBoundary example_constants (vehicle_at 0 10 True) car)
      = Inr [(2, - 1), (- 2, - 1), (- 2, 1), (2, 1), (2, - 1)]"
    "GetPolygon lead_corridor
      = Inr [(40, - 1), (30, - 1), (22, - 1), (18, - 1), (18, 1), (22, 1), (30, 1), (40, 1), (40, - 1)]"
    by (simp_all add: ex_bbox_ego ex_polygons)
  from hazard_margin [THEN conjunct1, rule_format, OF nc]
  have a: "\<exists>gc. GetGeometryBetweenActors example_constants example_externals Map.empty
                  Map.empty 1 2 (vehicle_at 0 10 True) (vehicle_at 20 5 True) car car ego_route
                  lead_route Map.empty 1 1 = Inr (gc, example_cache, example_geodesics)
                \<and> Finite 13.5 = Finite (spec_margin example_constants gc 1)
                \<and> 0 \<le> spec_margin example_constants gc 1"
    by simp
  from hazard_margin [THEN conjunct2, THEN conjunct1, rule_format, OF ex_avoidance_commit] hz(1)
  have b: "\<exists>gc. available_distance_margin ([lead_hazard_record] ! 0)
                  = Finite (spec_margin example_constants gc 1)
                \<and> 0 \<le> spec_margin example_constants gc 1"
    by (auto simp: example_parameters_simps)
  from hazard_margin [THEN conjunct2, THEN conjunct2, rule_format,
        OF conjI [OF ex_avoidance_commit conjI [OF dist hz(1)]]]
  have pinned: "available_distance_margin ([lead_hazard_record] ! 0)
      = Finite (max (bg_distance example_externals
                       [(2, - 1), (- 2, - 1), (- 2, 1), (2, 1), (2, - 1)]
                       [(40, - 1), (30, - 1), (22, - 1), (18, - 1), (18, 1), (22, 1), (30, 1),
                        (40, 1), (40, - 1)]
                     - max 1 (BOUNDARY_EXTENSION_MINIMUM example_constants)) 0)"
    unfolding obstacle
    by (auto simp: example_map_simps example_parameters_simps polys ex_geodesic_lead_fresh)
  from hazard_margin [THEN conjunct2, THEN conjunct1, rule_format, OF ex_avoidance_ignored] hz(2)
  have c: "available_distance_margin ([no_hazard_record] ! 0) = Infinity"
    by simp
  from nc a b c hz dist pinned polys ex_geodesic_lead_fresh ex_avoidance_commit
    ex_avoidance_ignored
  show ?thesis by blast
qed

text \<open>
  C3, as amended. After the driver has finished for an ego: if the record written has
  \<open>hazard = true\<close>, the lock map holds an entry for the ego, its lead is the recorded
  hazard actor, and that actor is one the loop negotiates with; the entries of all
  other actors are as before the tick. When the ignore policy commits every hazard it is
  shown (both ignore percentages at most 0, no actor of a type other than vehicle and
  pedestrian), and the ego had no entry before the tick or the loop negotiates with at
  least one candidate, the ego has an entry exactly when the record has
  \<open>hazard = true\<close>: a lock held from an earlier tick is gone once \<open>hazard = false\<close> is
  written. When the loop negotiates with no candidate the record has \<open>hazard = false\<close>
  and the lock map is as before the tick. When \<open>hazard = false\<close> is written after at
  least one negotiation, the ego has no entry, or its entry names an actor the loop
  negotiates with whose hazards the ignore policy may drop.
\<close>

theorem collision_lock_after_tick:
  assumes "CollisionAvoidance K X P track_traffic rand index ids state_map attribute_map
             tl_state_map buffer_map locks out n = Inr (out', locks', n')"
  shows "(hazard (out' ! index)
            \<longrightarrow> (\<exists>l. locks' (ids ! index) = Some l
                     \<and> lead_vehicle_id l = hazard_actor_id (out' ! index))
                \<and> negotiates K P track_traffic state_map attribute_map tl_state_map buffer_map
                     (ids ! index) (hazard_actor_id (out' ! index)))
         \<and> (\<forall>a. a \<noteq> ids ! index \<longrightarrow> locks' a = locks a)
         \<and> (locks (ids ! index) = None
              \<and> GetPercentageIgnoreVehicles P (ids ! index) \<le> 0
              \<and> GetPercentageIgnoreWalkers P (ids ! index) \<le> 0
              \<and> (\<forall>a att. attribute_map a = Some att \<longrightarrow> actor_type att \<noteq> Any)
            \<longrightarrow> (locks' (ids ! index) \<noteq> None \<longleftrightarrow> hazard (out' ! index)))
         \<and> ((\<exists>other. negotiates K P track_traffic state_map attribute_map tl_state_map
                        buffer_map (ids ! index) other)
              \<and> GetPercentageIgnoreVehicles P (ids ! index) \<le> 0
              \<and> GetPercentageIgnoreWalkers P (ids ! index) \<le> 0
              \<and> (\<forall>a att. attribute_map a = Some att \<longrightarrow> actor_type att \<noteq> Any)
            \<longrightarrow> (locks' (ids ! index) \<noteq> None \<longleftrightarrow> hazard (out' ! index)))
         \<and> ((\<forall>other. \<not> negotiates K P track_traffic state_map attribute_map tl_state_map
                          buffer_map (ids ! index) other)
            \<longrightarrow> \<not> hazard (out' ! index) \<and> locks' = locks)
         \<and> (\<not> hazard (out' ! index)
              \<and> (\<exists>other. negotiates K P track_traffic state_map attribute_map tl_state_map
                            buffer_map (ids ! index) other)
            \<longrightarrow> locks' (ids ! index) = None
                \<or> (\<exists>l. locks' (ids ! index) = Some l
                       \<and> negotiates K P track_traffic state_map attribute_map tl_state_map
                            buffer_map (ids ! index) (lead_vehicle_id l)
                       \<and> policy_may_ignore P attribute_map (ids ! index) (lead_vehicle_id l)))"
proof (cases "state_map (ids ! index) = None \<or> attribute_map (ids ! index) = None")
  case True
  then have none: "\<And>other. \<not> negotiates K P track_traffic state_map attribute_map tl_state_map
                      buffer_map (ids ! index) other"
    by (auto simp: negotiates_def split: option.splits)
  from CollisionAvoidance_Inr_skipped [OF assms True] none show ?thesis by simp
next
  case False
  then obtain eks ea where ego: "state_map (ids ! index) = Some eks"
    "attribute_map (ids ! index) = Some ea"
    by auto
  let ?N = "negotiates K P track_traffic state_map attribute_map tl_state_map buffer_map
              (ids ! index)"
  let ?G = "negotiation_guard P tl_state_map buffer_map (ids ! index)"
  from assms ego obtain eb collected hz obstacle m c' g' where
    coll: "collect_candidates K state_map (ids ! index) (location eks)
             (GetOverlappingVehicles track_traffic (ids ! index)) [] = Inr collected"
    and chk: "check_candidates K X P rand state_map attribute_map tl_state_map buffer_map
                (ids ! index) eks ea (snd (GetTargetWaypoint X eb (JUNCTION_LOOK_AHEAD K)))
                (GetDistanceToLeadingVehicle P (ids ! index))
                (sort_key (candidate_distance state_map (location eks)) collected)
                Map.empty Map.empty locks n
              = Inr ((hz, obstacle, m), c', g', locks', n')"
    and idx: "index < length out"
    and out': "out' = out[index := \<lparr>hazard = hz, hazard_actor_id = obstacle,
                                      available_distance_margin = m\<rparr>]"
    by (rule CollisionAvoidance_Inr_run)
  let ?cands = "sort_key (candidate_distance state_map (location eks)) collected"
  have N: "\<And>other. ?N other \<longleftrightarrow> other \<in> set ?cands \<and> ?G other"
    using negotiates_iff [where state_map = state_map and attribute_map = attribute_map
        and ego = "ids ! index", OF ego coll] by blast
  from idx out' have rec: "hazard (out' ! index) = hz" "hazard_actor_id (out' ! index) = obstacle"
    by simp_all
  note lk = check_candidates_locks [OF chk]
  have frame: "\<forall>a. a \<noteq> ids ! index \<longrightarrow> locks' a = locks a"
    using check_candidates_lock_frame [OF chk] by blast
  have committed: "hz \<longrightarrow> (\<exists>l. locks' (ids ! index) = Some l \<and> lead_vehicle_id l = obstacle)
                            \<and> ?N obstacle"
    using lk N by auto
  have idle: "(\<forall>other. \<not> ?N other) \<longrightarrow> \<not> hz \<and> locks' = locks"
    using lk N by (cases hz) auto
  have ignored: "\<not> hz \<and> (\<exists>other. ?N other)
                 \<longrightarrow> locks' (ids ! index) = None
                     \<or> (\<exists>l. locks' (ids ! index) = Some l \<and> ?N (lead_vehicle_id l)
                            \<and> policy_may_ignore P attribute_map (ids ! index) (lead_vehicle_id l))"
    using lk N by (cases hz) auto
  have cleanup: "(\<exists>other. ?N other)
              \<and> GetPercentageIgnoreVehicles P (ids ! index) \<le> 0
              \<and> GetPercentageIgnoreWalkers P (ids ! index) \<le> 0
              \<and> (\<forall>a att. attribute_map a = Some att \<longrightarrow> actor_type att \<noteq> Any)
            \<longrightarrow> (locks' (ids ! index) \<noteq> None \<longleftrightarrow> hz)"
    using committed ignored policy_commits_never_ignores [of P "ids ! index" attribute_map]
    by (cases hz) auto
  have fresh: "locks (ids ! index) = None
                 \<and> GetPercentageIgnoreVehicles P (ids ! index) \<le> 0
                 \<and> GetPercentageIgnoreWalkers P (ids ! index) \<le> 0
                 \<and> (\<forall>a att. attribute_map a = Some att \<longrightarrow> actor_type att \<noteq> Any)
               \<longrightarrow> (locks' (ids ! index) \<noteq> None \<longleftrightarrow> hz)"
    using check_candidates_lock_iff [OF chk] by blast
  from committed frame fresh cleanup idle ignored show ?thesis
    unfolding rec by blast
qed

lemma example_attributes_types:
  "\<forall>a att. example_attributes a = Some att \<longrightarrow> actor_type att \<noteq> Any"
  by (auto simp: example_attributes_def car_def split: if_splits)

text \<open>Witness of C3 as amended, on three runs: the committed hazard of the example
  scene, which sets the lock; the scene a tick later, where the ego holds the lock, its
  lead is out of reach and the lock is flushed; and the run in which every vehicle
  hazard is ignored, where the lock stays on an actor the policy may ignore.\<close>

theorem collision_lock_after_tick_witness:
  "CollisionAvoidance example_constants example_externals example_parameters example_track
     example_rand 0 [1] example_states example_attributes example_lights example_buffers
     no_locks [no_hazard_record] 0
   = Inr ([lead_hazard_record], locked_on_lead, 1)
   \<and> hazard ([lead_hazard_record] ! 0)
   \<and> (\<exists>l. locked_on_lead ([1] ! 0) = Some l
          \<and> lead_vehicle_id l = hazard_actor_id ([lead_hazard_record] ! 0))
   \<and> negotiates example_constants example_parameters example_track example_states
        example_attributes example_lights example_buffers ([1] ! 0)
        (hazard_actor_id ([lead_hazard_record] ! 0))
   \<and> locked_on_lead 2 = no_locks 2
   \<and> no_locks ([1] ! 0) = None
   \<and> GetPercentageIgnoreVehicles example_parameters ([1] ! 0) \<le> 0
   \<and> GetPercentageIgnoreWalkers example_parameters ([1] ! 0) \<le> 0
   \<and> actor_type car \<noteq> Any
   \<and> (locked_on_lead ([1] ! 0) \<noteq> None \<longleftrightarrow> hazard ([lead_hazard_record] ! 0))
   \<and> CollisionAvoidance example_constants example_externals example_parameters example_track
        example_rand 0 [1] departed_states example_attributes example_lights example_buffers
        locked_on_lead [no_hazard_record] 0
      = Inr ([no_hazard_record], no_locks, 0)
   \<and> negotiates example_constants example_parameters example_track departed_states
        example_attributes example_lights example_buffers ([1] ! 0) 2
   \<and> locked_on_lead ([1] ! 0) = Some lead_lock
   \<and> hazard ([no_hazard_record] ! 0) = False
   \<and> (no_locks ([1] ! 0) \<noteq> None \<longleftrightarrow> hazard ([no_hazard_record] ! 0))
   \<and> CollisionAvoidance example_constants example_externals ignoring_parameters example_track
        example_rand 0 [1] example_states example_attributes example_lights example_buffers
        no_locks [no_hazard_record] 0
      = Inr ([no_hazard_record], locked_on_lead, 1)
   \<and> negotiates example_constants ignoring_parameters example_track example_states
        example_attributes example_lights example_buffers ([1] ! 0) (lead_vehicle_id lead_lock)
   \<and> policy_may_ignore ignoring_parameters example_attributes ([1] ! 0)
        (lead_vehicle_id lead_lock)
   \<and> CollisionAvoidance example_constants example_externals example_parameters empty_track
        example_rand 0 [1] example_states example_attributes example_lights example_buffers
        locked_on_lead [no_hazard_record] 0
      = Inr ([no_hazard_record], locked_on_lead, 0)"
proof -
  have pre: "no_locks ([1] ! 0) = None"
    "GetPercentageIgnoreVehicles example_parameters ([1] ! 0) \<le> 0"
    "GetPercentageIgnoreWalkers example_parameters ([1] ! 0) \<le> 0"
    by (simp_all add: no_locks_def example_parameters_simps)
  have hz: "hazard ([lead_hazard_record] ! 0)" "hazard ([no_hazard_record] ! 0) = False"
    by (simp_all add: lead_hazard_record_def no_hazard_record_def)
  have held: "locked_on_lead ([1] ! 0) = Some lead_lock"
    by (simp add: locked_on_lead_def)
  have neg: "negotiates example_constants example_parameters example_track departed_states
        example_attributes example_lights example_buffers ([1] ! 0) 2"
    using ex_negotiates(3) by simp
  from collision_lock_after_tick [OF ex_avoidance_commit] pre hz example_attributes_types
  have committed: "(\<exists>l. locked_on_lead ([1] ! 0) = Some l
            \<and> lead_vehicle_id l = hazard_actor_id ([lead_hazard_record] ! 0))
        \<and> negotiates example_constants example_parameters example_track example_states
            example_attributes example_lights example_buffers ([1] ! 0)
            (hazard_actor_id ([lead_hazard_record] ! 0))
        \<and> locked_on_lead 2 = no_locks 2
        \<and> (locked_on_lead ([1] ! 0) \<noteq> None \<longleftrightarrow> hazard ([lead_hazard_record] ! 0))"
    by auto
  from collision_lock_after_tick [OF ex_avoidance_departed] pre(2,3) neg example_attributes_types
  have cleared: "no_locks ([1] ! 0) \<noteq> None \<longleftrightarrow> hazard ([no_hazard_record] ! 0)"
    by blast
  from collision_lock_after_tick [OF ex_avoidance_ignored] hz(2) held ex_negotiates(2)
  have ignored: "negotiates example_constants ignoring_parameters example_track example_states
        example_attributes example_lights example_buffers ([1] ! 0) (lead_vehicle_id lead_lock)
      \<and> policy_may_ignore ignoring_parameters example_attributes ([1] ! 0)
        (lead_vehicle_id lead_lock)"
    by auto
  have "actor_type car \<noteq> Any" by (simp add: car_simps)
  with committed cleared ignored pre hz held neg ex_avoidance_commit ex_avoidance_departed
    ex_avoidance_ignored ex_avoidance_idle
  show ?thesis by blast
qed

text \<open>
  C3 as stated fails: in the example scene with every vehicle hazard ignored, the
  negotiation sets the lock of the ego and the driver writes \<open>hazard = false\<close>; and
  with no candidate at all a lock held from an earlier tick stays while
  \<open>hazard = false\<close> is written.
\<close>

theorem lock_survives_without_hazard:
  "CollisionAvoidance example_constants example_externals ignoring_parameters example_track
     example_rand 0 [1] example_states example_attributes example_lights example_buffers
     no_locks [no_hazard_record] 0
   = Inr ([no_hazard_record], locked_on_lead, 1)
   \<and> CollisionAvoidance example_constants example_externals example_parameters empty_track
       example_rand 0 [1] example_states example_attributes example_lights example_buffers
       locked_on_lead [no_hazard_record] 0
     = Inr ([no_hazard_record], locked_on_lead, 0)
   \<and> hazard ([no_hazard_record] ! 0) = False
   \<and> locked_on_lead ([1] ! 0) = Some lead_lock"
proof -
  have "hazard ([no_hazard_record] ! 0) = False"
    by (simp add: no_hazard_record_def)
  moreover have "locked_on_lead ([1] ! 0) = Some lead_lock"
    by (simp add: locked_on_lead_def)
  ultimately show ?thesis
    using ex_avoidance_ignored ex_avoidance_idle by blast
qed

section \<open>Claims about missing map entries\<close>

lemma CollisionAvoidance_missing_state:
  assumes "index < length ids" "index < length out"
    and "state_map (ids ! index) = None \<or> attribute_map (ids ! index) = None"
  shows "CollisionAvoidance K X P track_traffic rand index ids state_map attribute_map
           tl_state_map buffer_map locks out n
         = Inr (out[index := no_hazard_record], locks, n)"
  using assms
  by (auto simp: CollisionAvoidance_def Let_def bind_result_def no_hazard_record_def
      split: option.splits)

lemma CollisionAvoidance_missing_buffer:
  assumes "index < length ids"
    and "state_map (ids ! index) = Some s" "attribute_map (ids ! index) = Some a"
    and "buffer_map (ids ! index) = None"
  shows "CollisionAvoidance K X P track_traffic rand index ids state_map attribute_map
           tl_state_map buffer_map locks out n = Inl OutOfRange"
  using assms
  by (simp add: CollisionAvoidance_def Let_def bind_result_def)

text \<open>
  C8 at its failing input: the ego, actor 1, has a state, attributes and a traffic-light
  state but no buffer. The driver reads \<open>buffer_map->at(ego_actor_id)\<close> before its guard
  on the buffers is reached, and ends in \<open>std::out_of_range\<close>; no record is written.
\<close>

theorem missing_ego_buffer_raises:
  "CollisionAvoidance example_constants example_externals example_parameters example_track
     example_rand 0 [1] example_states example_attributes example_lights lead_only_buffers
     no_locks [no_hazard_record] 0
   = Inl OutOfRange"
  by (simp add: CollisionAvoidance_missing_buffer example_map_simps)

section \<open>Claims about the angular priority and the geometry cache\<close>

text \<open>The comparison of the negotiator does not depend on the rotation of the other
  vehicle at all.\<close>

lemma ego_angular_priority_other_rotation:
  "ego_angular_priority ref_state (other_state\<lparr>rotation := r\<rparr>)
   = ego_angular_priority ref_state other_state"
  by (simp add: ego_angular_priority_def)

text \<open>
  C2 at its failing input: the reference at the origin heading along y, the other 10 m
  away along x and heading at the reference. The second dot product of the source
  takes the forward vector of the reference again (its \<open>other_heading\<close> is read from
  \<open>reference_vehicle_state\<close>), so the comparison is \<open>0 < 0\<close>; with the forward vector
  of the other vehicle, as the claim has it, it is \<open>0 < 1\<close>.
\<close>

theorem angular_priority_takes_reference_heading:
  "ego_angular_priority crossing_reference crossing_other = False
   \<and> spec_angular_priority crossing_reference crossing_other = True"
  by (simp add: ego_angular_priority_def spec_angular_priority_def crossing_reference_def
      crossing_other_def heading_vehicle_def normalized_def vec_simps sqrt_100 float_epsilon_def
      Let_def)

lemma actor_id_key_ignores_larger_reference:
  "\<not> reference_vehicle_id < other_actor_id
   \<Longrightarrow> actor_id_key reference_vehicle_id other_actor_id = actor_id_key other_actor_id other_actor_id"
  by (simp add: actor_id_key_def)

lemma example_keys:
  "actor_id_key 3 1 = ''1|1''" "actor_id_key 2 1 = ''1|1''" "actor_id_key 1 2 = ''1|2''"
  by (simp_all add: actor_id_key_def to_string.simps)

lemma GetGeometryBetweenActors_hit:
  assumes "cache (actor_id_key ref other) = Some g"
  shows "GetGeometryBetweenActors K X cache gmap ref other rs os ra oa rb ob locks rl ol
         = Inr (g\<lparr>reference_vehicle_to_other_geodesic := other_vehicle_to_reference_geodesic g,
                  other_vehicle_to_reference_geodesic := reference_vehicle_to_other_geodesic g\<rparr>,
                cache, gmap)"
  using assms by (simp add: GetGeometryBetweenActors_def)

lemma ex_bbox_third: "GetBoundary example_constants (vehicle_at 50 0 True) car
   = [vec 52 (-1) 0, vec 48 (-1) 0, vec 48 1 0, vec 52 1 0]"
  by (simp add: GetBoundary_def vehicle_at_simps car_simps vec_simps Let_def)

lemma ex_ext_third:
  "GetBoundingBoxExtention example_constants 3 (vehicle_at 50 0 True) Map.empty = 2.5"
  by (simp add: GetBoundingBoxExtention_def example_constants_simps vehicle_at_simps vec_simps)

lemma ex_target_third: "example_target_waypoint third_route 2 = (waypoint_at 60 False, 1)"
  by (simp add: example_target_waypoint_def third_route_def waypoint_at_def vec_simps)

lemma ex_walk_third:
  "boundary_walk example_constants third_route (waypoint_at 60 False) (SQUARE (5 / 2)) 1 (Suc 0)
     False None (third_route ! Suc 0) [] []
   = ([vec 60 1 0, vec 70 1 0], [vec 60 (- 1) 0, vec 70 (- 1) 0])"
  by (simp add: boundary_walk.simps third_route_def waypoint_at_def walk_reached_def walk_emits_def
      rib_left_def rib_right_def example_constants_simps vec_simps Let_def)

lemma third_route_length: "length third_route = 4"
  by (simp add: third_route_def)

lemma ex_geodesic_third:
  "GetGeodesicBoundary example_constants example_externals 3 Map.empty (vehicle_at 50 0 True) car
     third_route 1 Map.empty = Inr (third_corridor, [3 \<mapsto> third_corridor])"
  by (simp add: GetGeodesicBoundary_def ex_bbox_third ex_ext_third car_simps Let_def
      example_externals_simps ex_target_third ex_walk_third third_route_length third_corridor_def)

lemma ex_geodesic_ego_after_third:
  "GetGeodesicBoundary example_constants example_externals 1 [3 \<mapsto> third_corridor]
     (vehicle_at 0 10 True) car ego_route 1 Map.empty = Inr (ego_corridor, geodesics_after_3_1)"
  by (simp add: GetGeodesicBoundary_def ex_bbox_ego ex_ext_ego car_simps Let_def
      example_externals_simps ex_target_ego ex_walk_ego route_lengths ego_corridor_def
      geodesics_after_3_1_def)

lemma ex_polygons_third:
  "GetPolygon [vec 52 (-1) 0, vec 48 (-1) 0, vec 48 1 0, vec 52 1 0]
     = Inr [(52, - 1), (48, - 1), (48, 1), (52, 1), (52, - 1)]"
  "GetPolygon third_corridor
     = Inr [(70, - 1), (60, - 1), (52, - 1), (48, - 1), (48, 1), (52, 1), (60, 1), (70, 1), (70, - 1)]"
  by (simp_all add: GetPolygon_def third_corridor_def vec_def)

lemma ex_geometry_3_1:
  "GetGeometryBetweenActors example_constants example_externals Map.empty Map.empty 3 1
     (vehicle_at 50 0 True) (vehicle_at 0 10 True) car car third_route ego_route Map.empty 1 1
   = Inr (stored_comparison, cache_after_3_1, geodesics_after_3_1)"
  by (simp add: GetGeometryBetweenActors_def example_keys bind_result_def ex_bbox_ego ex_bbox_third
      ex_geodesic_third ex_geodesic_ego_after_third ex_polygons ex_polygons_third
      example_externals_simps example_distance_def stored_comparison_def cache_after_3_1_def
      Let_def)

lemma ex_geometry_2_1:
  "GetGeometryBetweenActors example_constants example_externals cache_after_3_1
     geodesics_after_3_1 2 1 (vehicle_at 20 5 True) (vehicle_at 0 10 True) car car
     lead_route ego_route Map.empty 1 1
   = Inr (answer_for_2_1, cache_after_3_1, geodesics_after_3_1)"
proof -
  have "cache_after_3_1 (actor_id_key 2 1) = Some stored_comparison"
    by (simp add: cache_after_3_1_def example_keys)
  then show ?thesis
    by (simp add: GetGeometryBetweenActors_hit stored_comparison_def answer_for_2_1_def)
qed

lemma ex_geodesic_lead_after_third:
  "\<exists>g. GetGeodesicBoundary example_constants example_externals 2 geodesics_after_3_1
         (vehicle_at 20 5 True) car lead_route 1 Map.empty = Inr (lead_corridor, g)"
  by (simp add: GetGeodesicBoundary_def ex_bbox_lead ex_ext_lead car_simps Let_def
      example_externals_simps ex_target_lead ex_walk_lead route_lengths lead_corridor_def
      geodesics_after_3_1_def)

lemma ex_geodesic_ego_cached:
  "GetGeodesicBoundary example_constants example_externals 1 geodesics_after_3_1
     (vehicle_at 0 10 True) car ego_route 1 Map.empty = Inr (ego_corridor, geodesics_after_3_1)"
  by (simp add: GetGeodesicBoundary_def geodesics_after_3_1_def)

lemma ex_geometry_1_2:
  "map_sum id fst
     (GetGeometryBetweenActors example_constants example_externals cache_after_3_1
        geodesics_after_3_1 1 2 (vehicle_at 0 10 True) (vehicle_at 20 5 True) car car
        ego_route lead_route Map.empty 1 1)
   = Inr lead_comparison"
proof -
  obtain g where g: "GetGeodesicBoundary example_constants example_externals 2 geodesics_after_3_1
         (vehicle_at 20 5 True) car lead_route 1 Map.empty = Inr (lead_corridor, g)"
    using ex_geodesic_lead_after_third by blast
  have "cache_after_3_1 (actor_id_key 1 2) = None"
    by (simp add: cache_after_3_1_def example_keys)
  then show ?thesis
    by (simp add: GetGeometryBetweenActors_def bind_result_def ex_bbox_ego ex_bbox_lead
        ex_geodesic_ego_cached g ex_polygons example_externals_simps example_distance_def
        lead_comparison_def Let_def)
qed

text \<open>
  C4 at its failing input: three vehicles on one cache. The query for \<open>(3, 1)\<close> stores
  its comparison under the key \<open>1|1\<close>; the query for \<open>(2, 1)\<close> builds the same key,
  since the key of a pair whose reference is the larger id names the other id twice,
  and is answered with the swapped comparison of the pair \<open>(3, 1)\<close>; the query for
  \<open>(1, 2)\<close> computes the comparison of the pair. The two answers for the pair of 1
  and 2 are not mirror images of each other.
\<close>

theorem geometry_cache_key_collision:
  "GetGeometryBetweenActors example_constants example_externals Map.empty Map.empty 3 1
     (vehicle_at 50 0 True) (vehicle_at 0 10 True) car car third_route ego_route Map.empty 1 1
   = Inr (stored_comparison, cache_after_3_1, geodesics_after_3_1)
   \<and> GetGeometryBetweenActors example_constants example_externals cache_after_3_1
       geodesics_after_3_1 2 1 (vehicle_at 20 5 True) (vehicle_at 0 10 True) car car
       lead_route ego_route Map.empty 1 1
     = Inr (answer_for_2_1, cache_after_3_1, geodesics_after_3_1)
   \<and> map_sum id fst
       (GetGeometryBetweenActors example_constants example_externals cache_after_3_1
          geodesics_after_3_1 1 2 (vehicle_at 0 10 True) (vehicle_at 20 5 True) car car
          ego_route lead_route Map.empty 1 1)
     = Inr lead_comparison
   \<and> reference_vehicle_to_other_geodesic answer_for_2_1
       \<noteq> other_vehicle_to_reference_geodesic lead_comparison
   \<and> inter_bbox_distance answer_for_2_1 \<noteq> inter_bbox_distance lead_comparison"
proof -
  have "reference_vehicle_to_other_geodesic answer_for_2_1
          \<noteq> other_vehicle_to_reference_geodesic lead_comparison"
    "inter_bbox_distance answer_for_2_1 \<noteq> inter_bbox_distance lead_comparison"
    by (simp_all add: answer_for_2_1_def lead_comparison_def)
  with ex_geometry_3_1 ex_geometry_2_1 ex_geometry_1_2 show ?thesis by blast
qed

section \<open>Claims about the boundary walk\<close>

text \<open>The walk only ever appends ribs to the two lists.\<close>

lemma boundary_walk_extends:
  "\<exists>ls rs. boundary_walk K buf bs e w j r be cp l rt = (l @ ls, rt @ rs)"
proof (induction K buf bs e w j r be cp l rt rule: boundary_walk.induct)
  case (1 K buf bs e w j r be cp l rt)
  show ?case
  proof (cases "\<not> r \<and> j < length buf")
    case False
    then have "boundary_walk K buf bs e w j r be cp l rt = (l @ [], rt @ [])"
      by (subst boundary_walk.simps) auto
    then show ?thesis by blast
  next
    case True
    note go = this
    show ?thesis
    proof (cases "walk_emits K be cp (walk_reached buf bs e j cp)")
      case True
      from "1.IH"(1) [OF go True] obtain ls rs where
        "boundary_walk K buf bs e w (Suc j) (walk_reached buf bs e j cp) (Some cp) (buf ! j)
           (l @ [rib_left cp w]) (rt @ [rib_right cp w])
         = ((l @ [rib_left cp w]) @ ls, (rt @ [rib_right cp w]) @ rs)"
        by blast
      with go True
      have "boundary_walk K buf bs e w j r be cp l rt
            = (l @ (rib_left cp w # ls), rt @ (rib_right cp w # rs))"
        by (subst boundary_walk.simps) simp
      then show ?thesis by blast
    next
      case False
      from "1.IH"(2) [OF go False] obtain ls rs where
        "boundary_walk K buf bs e w (Suc j) (walk_reached buf bs e j cp) be (buf ! j) l rt
         = (l @ ls, rt @ rs)"
        by blast
      with go False
      have "boundary_walk K buf bs e w j r be cp l rt = (l @ ls, rt @ rs)"
        by (subst boundary_walk.simps) simp
      then show ?thesis by blast
    qed
  qed
qed

lemma boundary_walk_first_rib:
  assumes "j < length buf"
  shows "\<exists>ls rs. boundary_walk K buf bs e w j False None cp [] []
                  = (rib_left cp w # ls, rib_right cp w # rs)"
proof -
  from boundary_walk_extends
    [of K buf bs e w "Suc j" "walk_reached buf bs e j cp" "Some cp" "buf ! j"
        "[rib_left cp w]" "[rib_right cp w]"]
  obtain ls rs where
    "boundary_walk K buf bs e w (Suc j) (walk_reached buf bs e j cp) (Some cp) (buf ! j)
       [rib_left cp w] [rib_right cp w]
     = ([rib_left cp w] @ ls, [rib_right cp w] @ rs)"
    by blast
  with assms have "boundary_walk K buf bs e w j False None cp [] []
                   = (rib_left cp w # ls, rib_right cp w # rs)"
    by (subst boundary_walk.simps) (simp add: walk_emits_def)
  then show ?thesis by blast
qed

lemma GetPolygon_nonempty:
  "boundary \<noteq> [] \<Longrightarrow> \<exists>ring. GetPolygon boundary = Inr ring \<and> ring \<noteq> []"
  by (cases boundary) (simp_all add: GetPolygon_def)

lemma GetBoundary_nonempty: "GetBoundary K kinematic_state attributes \<noteq> []"
  by (simp add: GetBoundary_def Let_def)

text \<open>
  C9. For a vehicle whose waypoint buffer is non-empty and holds the index
  \<open>GetTargetWaypoint\<close> returns for its half length, and whose corridor is not cached
  yet, the walk emits its first rib, one left and one right point, at the waypoint of
  index \<open>boundary_start_index\<close>; \<open>GetGeodesicBoundary\<close> returns the boundary made of
  the reversed right ribs, the bounding box and the left ribs, which is not empty, and
  \<open>GetPolygon\<close> on it reads a first element and returns a ring.
\<close>

theorem boundary_walk_emits_first_rib:
  assumes "actor_type attributes = Vehicle"
    and "waypoint_buffer \<noteq> []"
    and "snd (GetTargetWaypoint X waypoint_buffer (half_length attributes)) < length waypoint_buffer"
    and "geodesic_boundary_map actor_id = None"
  shows "\<exists>left right boundary.
           boundary_walk K waypoint_buffer
             (fst (GetTargetWaypoint X waypoint_buffer (half_length attributes)))
             (SQUARE (max specific_lead_distance
                        (GetBoundingBoxExtention K actor_id kinematic_state collision_lock_map)))
             (half_width attributes)
             (snd (GetTargetWaypoint X waypoint_buffer (half_length attributes))) False None
             (waypoint_buffer ! snd (GetTargetWaypoint X waypoint_buffer (half_length attributes)))
             [] []
           = (rib_left (waypoint_buffer
                          ! snd (GetTargetWaypoint X waypoint_buffer (half_length attributes)))
                (half_width attributes) # left,
              rib_right (waypoint_buffer
                           ! snd (GetTargetWaypoint X waypoint_buffer (half_length attributes)))
                (half_width attributes) # right)
           \<and> GetGeodesicBoundary K X actor_id geodesic_boundary_map kinematic_state attributes
               waypoint_buffer specific_lead_distance collision_lock_map
             = Inr (boundary, geodesic_boundary_map(actor_id \<mapsto> boundary))
           \<and> boundary \<noteq> []
           \<and> (\<exists>ring. GetPolygon boundary = Inr ring \<and> ring \<noteq> [])"
proof -
  let ?info = "GetTargetWaypoint X waypoint_buffer (half_length attributes)"
  let ?cp = "waypoint_buffer ! snd ?info"
  let ?e = "SQUARE (max specific_lead_distance
                      (GetBoundingBoxExtention K actor_id kinematic_state collision_lock_map))"
  from boundary_walk_first_rib [OF assms(3)]
  obtain left right where walk:
    "boundary_walk K waypoint_buffer (fst ?info) ?e (half_width attributes) (snd ?info)
       False None ?cp [] []
     = (rib_left ?cp (half_width attributes) # left, rib_right ?cp (half_width attributes) # right)"
    by blast
  let ?boundary = "rev (rib_right ?cp (half_width attributes) # right)
                   @ GetBoundary K kinematic_state attributes
                   @ (rib_left ?cp (half_width attributes) # left)"
  from assms walk
  have geo: "GetGeodesicBoundary K X actor_id geodesic_boundary_map kinematic_state attributes
               waypoint_buffer specific_lead_distance collision_lock_map
             = Inr (?boundary, geodesic_boundary_map(actor_id \<mapsto> ?boundary))"
    by (simp add: GetGeodesicBoundary_def Let_def)
  have ne: "?boundary \<noteq> []" by simp
  from GetPolygon_nonempty [OF ne] walk geo ne show ?thesis by blast
qed

lemma ex_ribs:
  "rib_left (ego_route ! Suc 0) 1 = vec 10 1 0" "rib_right (ego_route ! Suc 0) 1 = vec 10 (- 1) 0"
  by (simp_all add: rib_left_def rib_right_def ego_route_def waypoint_at_def vec_simps Let_def)

text \<open>Witness of C9: the corridor of the ego of the example scene.\<close>

theorem boundary_walk_emits_first_rib_witness:
  "actor_type car = Vehicle \<and> ego_route \<noteq> []
   \<and> snd (GetTargetWaypoint example_externals ego_route (half_length car)) < length ego_route
   \<and> Map.empty (1 :: ActorId) = (None :: LocationList option)
   \<and> boundary_walk example_constants ego_route (waypoint_at 10 False) (SQUARE 42.5) 1 1 False None
       (ego_route ! 1) [] []
     = (rib_left (ego_route ! 1) 1 # [vec 20 1 0], rib_right (ego_route ! 1) 1 # [vec 20 (- 1) 0])
   \<and> GetGeodesicBoundary example_constants example_externals 1 Map.empty (vehicle_at 0 10 True)
       car ego_route 1 Map.empty = Inr (ego_corridor, [1 \<mapsto> ego_corridor])
   \<and> ego_corridor \<noteq> []
   \<and> (\<exists>ring. GetPolygon ego_corridor = Inr ring \<and> ring \<noteq> [])"
proof -
  have pre: "actor_type car = Vehicle" "ego_route \<noteq> []"
    "snd (GetTargetWaypoint example_externals ego_route (half_length car)) < length ego_route"
    "Map.empty (1 :: ActorId) = (None :: LocationList option)"
  proof -
    show "actor_type car = Vehicle" by (simp add: car_simps)
    show "ego_route \<noteq> []" by (simp add: ego_route_def)
    show "snd (GetTargetWaypoint example_externals ego_route (half_length car)) < length ego_route"
      by (simp add: car_simps example_externals_simps ex_target_ego route_lengths)
    show "Map.empty (1 :: ActorId) = (None :: LocationList option)" by simp
  qed
  from boundary_walk_emits_first_rib
         [where attributes = car and waypoint_buffer = ego_route and X = example_externals
            and geodesic_boundary_map = Map.empty and actor_id = 1 and K = example_constants
            and specific_lead_distance = 1 and kinematic_state = "vehicle_at 0 10 True"
            and collision_lock_map = Map.empty, OF pre]
  have "ego_corridor \<noteq> [] \<and> (\<exists>ring. GetPolygon ego_corridor = Inr ring \<and> ring \<noteq> [])"
    by (auto simp: ex_geodesic_ego)
  moreover have "boundary_walk example_constants ego_route (waypoint_at 10 False) (SQUARE 42.5) 1 1
       False None (ego_route ! 1) [] []
     = (rib_left (ego_route ! 1) 1 # [vec 20 1 0], rib_right (ego_route ! 1) 1 # [vec 20 (- 1) 0])"
    using ex_walk_ego by (simp add: ex_ribs)
  ultimately show ?thesis using pre ex_geodesic_ego by blast
qed

text \<open>Every boundary \<open>GetGeodesicBoundary\<close> returns is non-empty, the cached ones
  included, as long as the map it is given caches no empty boundary.\<close>

lemma GetGeodesicBoundary_nonempty:
  assumes cached: "\<forall>a b. geodesic_boundary_map a = Some b \<longrightarrow> b \<noteq> []"
    and res: "GetGeodesicBoundary K X actor_id geodesic_boundary_map kinematic_state attributes
           waypoint_buffer specific_lead_distance collision_lock_map = Inr (boundary, gmap1)"
  shows "boundary \<noteq> [] \<and> (\<forall>a b. gmap1 a = Some b \<longrightarrow> b \<noteq> [])"
proof (cases "geodesic_boundary_map actor_id")
  case (Some b)
  with res have "boundary = b" "gmap1 = geodesic_boundary_map"
    by (simp_all add: GetGeodesicBoundary_def)
  with Some cached show ?thesis by blast
next
  case None
  have bbox: "GetBoundary K kinematic_state attributes \<noteq> []"
    by (rule GetBoundary_nonempty)
  from None res have "boundary \<noteq> [] \<and> gmap1 = geodesic_boundary_map(actor_id \<mapsto> boundary)"
    using bbox by (auto simp: GetGeodesicBoundary_def Let_def split: if_splits)
  with cached show ?thesis by auto
qed

section \<open>The planner\<close>

lemma collision_handling_critical:
  assumes "collision_handling K state_map ch ego_velocity ego_heading max_v = Inr (v, ces)"
    and "hazard ch"
    and "margin_lt (available_distance_margin ch) (CRITICAL_BRAKING_MARGIN K)"
  shows ces
  using assms
  by (auto simp: collision_handling_def Let_def split: option.splits if_splits)

lemma MotionPlan_Inr_cases:
  assumes "MotionPlan K X C P now index ids state_map attribute_map buffer_map ul hl ula hla
             cf tf pid tp out clk = Inr (pid', tp', out', clk')"
    and ks: "state_map (ids ! index) = Some ks"
  obtains wb att v ces where
    "index < length out"
    "buffer_map (ids ! index) = Some wb"
    "attribute_map (ids ! index) = Some att"
    "collision_handling K state_map (cf ! index) (velocity ks) (GetForwardVector (rotation ks))
       (GetVehicleTargetVelocity P (ids ! index) (speed_limit att) / 3.6) = Inr (v, ces)"
    "if physics_enabled ks
     then tp' = tp
          \<and> (\<exists>st c.
                pid' (ids ! index) = Some st
                \<and> out' = out[index := ApplyVehicleControl (ids ! index) c]
                \<and> (tf ! index \<or> ces
                     \<longrightarrow> deviation_integral st = 0 \<and> velocity_integral st = 0
                         \<and> control_throttle c = 0 \<and> control_brake c = 1))
     else (\<exists>t. pid' (ids ! index) = Some (initial_state t))
          \<and> tp' = (if tp (ids ! index) = None
                   then tp(ids ! index \<mapsto>
                          now (Suc (Suc (if pid (ids ! index) = None then Suc clk else clk))))
                   else tp)
          \<and> out' = out[index := ApplyTransform (ids ! index)
               (if \<not> (tf ! index \<or> ces)
                   \<and> (GetSynchronousMode P
                       \<or> now (if pid (ids ! index) = None then Suc clk else clk)
                           - (case tp (ids ! index) of
                                None \<Rightarrow> now (Suc (Suc (if pid (ids ! index) = None
                                                         then Suc clk else clk)))
                              | Some t \<Rightarrow> t)
                         > HYBRID_MODE_DT K)
                then teleport_target K X wb (location ks)
                       (min (GetVehicleTargetVelocity P (ids ! index) (speed_limit att) / 3.6) v)
                else \<lparr>location = location ks, rotation = rotation ks\<rparr>)]"
proof -
  note run = assms(1)
  from run have idx: "index < length ids"
    by (cases "index < length ids") (simp_all add: MotionPlan_def)
  from run idx ks obtain wb where wb: "buffer_map (ids ! index) = Some wb"
    by (cases "buffer_map (ids ! index)") (simp_all add: MotionPlan_def Let_def)
  from run idx ks wb have frames: "index < length cf" "index < length tf"
    by (cases "index < length cf"; cases "index < length tf";
        simp add: MotionPlan_def Let_def)+
  from run idx ks wb frames obtain att where att: "attribute_map (ids ! index) = Some att"
    by (cases "attribute_map (ids ! index)") (simp_all add: MotionPlan_def Let_def)
  let ?ch = "collision_handling K state_map (cf ! index) (velocity ks)
               (GetForwardVector (rotation ks))
               (GetVehicleTargetVelocity P (ids ! index) (speed_limit att) / 3.6)"
  from run idx ks wb frames att obtain v ces where ch: "?ch = Inr (v, ces)"
    by (cases ?ch) (auto simp: MotionPlan_def Let_def bind_result_def)
  from run idx ks wb frames att ch have out: "index < length out"
    by (cases "index < length out")
       (simp_all add: MotionPlan_def Let_def bind_result_def split: if_splits)
  have "if physics_enabled ks
        then tp' = tp
            \<and> (\<exists>st c.
                  pid' (ids ! index) = Some st
                  \<and> out' = out[index := ApplyVehicleControl (ids ! index) c]
                  \<and> (tf ! index \<or> ces
                       \<longrightarrow> deviation_integral st = 0 \<and> velocity_integral st = 0
                           \<and> control_throttle c = 0 \<and> control_brake c = 1))
        else (\<exists>t. pid' (ids ! index) = Some (initial_state t))
            \<and> tp' = (if tp (ids ! index) = None
                     then tp(ids ! index \<mapsto>
                            now (Suc (Suc (if pid (ids ! index) = None then Suc clk else clk))))
                     else tp)
            \<and> out' = out[index := ApplyTransform (ids ! index)
                 (if \<not> (tf ! index \<or> ces)
                     \<and> (GetSynchronousMode P
                         \<or> now (if pid (ids ! index) = None then Suc clk else clk)
                             - (case tp (ids ! index) of
                                  None \<Rightarrow> now (Suc (Suc (if pid (ids ! index) = None
                                                           then Suc clk else clk)))
                                | Some t \<Rightarrow> t)
                           > HYBRID_MODE_DT K)
                  then teleport_target K X wb (location ks)
                         (min (GetVehicleTargetVelocity P (ids ! index) (speed_limit att) / 3.6) v)
                  else \<lparr>location = location ks, rotation = rotation ks\<rparr>)]"
  proof (cases "physics_enabled ks")
    case True
    with run idx ks wb frames att ch out
    have "tp' = tp
          \<and> (\<exists>st c.
                pid' (ids ! index) = Some st
                \<and> out' = out[index := ApplyVehicleControl (ids ! index) c]
                \<and> (tf ! index \<or> ces
                     \<longrightarrow> deviation_integral st = 0 \<and> velocity_integral st = 0
                         \<and> control_throttle c = 0 \<and> control_brake c = 1))"
      apply (cases "tf ! index \<or> ces")
       apply (clarsimp simp: MotionPlan_def Let_def bind_result_def split del: if_split)
       apply (rule exI, rule conjI, rule refl, simp)
      apply (clarsimp simp: MotionPlan_def Let_def bind_result_def split del: if_split)
      apply (rule exI, rule refl)
      done
    with True show ?thesis by simp
  next
    case False
    with run idx ks wb frames att ch out
    have "(\<exists>t. pid' (ids ! index) = Some (initial_state t))
          \<and> tp' = (if tp (ids ! index) = None
                   then tp(ids ! index \<mapsto>
                          now (Suc (Suc (if pid (ids ! index) = None then Suc clk else clk))))
                   else tp)
          \<and> out' = out[index := ApplyTransform (ids ! index)
               (if \<not> (tf ! index \<or> ces)
                   \<and> (GetSynchronousMode P
                       \<or> now (if pid (ids ! index) = None then Suc clk else clk)
                           - (case tp (ids ! index) of
                                None \<Rightarrow> now (Suc (Suc (if pid (ids ! index) = None
                                                         then Suc clk else clk)))
                              | Some t \<Rightarrow> t)
                         > HYBRID_MODE_DT K)
                then teleport_target K X wb (location ks)
                       (min (GetVehicleTargetVelocity P (ids ! index) (speed_limit att) / 3.6) v)
                else \<lparr>location = location ks, rotation = rotation ks\<rparr>)]"
      apply (clarsimp simp: MotionPlan_def Let_def bind_result_def split del: if_split)
      apply (intro conjI)
       apply (rule exI, rule refl)
      apply (cases "tp (ids ! index)"; simp cong: if_cong split del: if_split)
      done
    with False show ?thesis by simp
  qed
  with out wb att ch show ?thesis by (rule that)
qed

section \<open>The planner on the example scene\<close>

lemmas plan_example_defs =
  MotionPlan_def Let_def bind_result_def collision_handling_def teleport_target_def
  example_constants_def example_externals_def example_controller_def example_parameters_def
  example_now_def example_states_def ghost_states_def example_attributes_def example_buffers_def
  vehicle_at_def car_def ego_route_def waypoint_at_def example_target_waypoint_def
  no_hazard_record_def near_miss_record_def no_pid_state_def no_teleports_def
  flushed_pid_state_def first_teleport_def hold_at_def braking_control_def
  full_throttle_control_def initial_state_def wp_Distance_def vec_simps sqrt_100

lemma ex_plan_brake:
  "MotionPlan example_constants example_externals example_controller example_parameters
     example_now 0 [1] example_states example_attributes example_buffers [] [] [] []
     [no_hazard_record] [True] no_pid_state no_teleports [hold_at 5] 0
   = Inr (flushed_pid_state 0.1, no_teleports, [ApplyVehicleControl 1 braking_control], 2)"
  by (simp add: plan_example_defs)

lemma ex_plan_drive:
  "MotionPlan example_constants example_externals example_controller example_parameters
     example_now 0 [1] example_states example_attributes example_buffers [] [] [] []
     [near_miss_record] [False] no_pid_state no_teleports [hold_at 5] 0
   = Inr (flushed_pid_state 0.1, no_teleports, [ApplyVehicleControl 1 full_throttle_control], 2)"
  by (simp add: plan_example_defs)

lemma ex_plan_ghost_stop:
  "MotionPlan example_constants example_externals example_controller example_parameters
     example_now 0 [1] ghost_states example_attributes example_buffers [] [] [] []
     [no_hazard_record] [True] no_pid_state no_teleports [hold_at 5] 0
   = Inr (flushed_pid_state 0.2, first_teleport, [hold_at 0], 4)"
  by (simp add: plan_example_defs)

lemma ex_plan_ghost_first:
  "MotionPlan example_constants example_externals example_controller example_parameters
     example_now 0 [1] ghost_states example_attributes example_buffers [] [] [] []
     [no_hazard_record] [False] no_pid_state no_teleports [hold_at 5] 0
   = Inr (flushed_pid_state 0.2, first_teleport, [hold_at 0], 4)"
  by (simp add: plan_example_defs)

lemma ex_plan_ghost_second:
  "MotionPlan example_constants example_externals example_controller example_parameters
     example_now 0 [1] ghost_states example_attributes example_buffers [] [] [] []
     [no_hazard_record] [False] (flushed_pid_state 0.2) first_teleport [hold_at 0] 4
   = Inr (flushed_pid_state 0.5, first_teleport, [hold_at 10], 6)"
  by (simp add: plan_example_defs)

section \<open>Claims about the planner\<close>

text \<open>
  C7, as amended. For an ego processed by \<open>MotionPlan\<close> whose collision record is one
  the collision stage writes (the margin is \<open>+\<infinity>\<close> unless \<open>hazard\<close> is true): if
  \<open>tl_hazard\<close> is true or the margin is below \<open>CRITICAL_BRAKING_MARGIN\<close>, the state
  entry persisted for the ego has both integrals 0, and: for an ego with physics the
  control issued has \<open>brake = 1\<close> and \<open>throttle = 0\<close>; for an ego without physics no
  control is issued, the command is the transform that keeps the ego at its location
  and rotation.
\<close>

theorem emergency_braking:
  assumes run: "MotionPlan K X C P now index ids state_map attribute_map buffer_map ul hl ula hla
                  cf tf pid tp out clk = Inr (pid', tp', out', clk')"
    and ego: "state_map (ids ! index) = Some ks"
    and written: "hazard (cf ! index) \<or> available_distance_margin (cf ! index) = Infinity"
    and stop: "tf ! index
               \<or> margin_lt (available_distance_margin (cf ! index)) (CRITICAL_BRAKING_MARGIN K)"
  shows "(\<exists>st. pid' (ids ! index) = Some st
               \<and> deviation_integral st = 0 \<and> velocity_integral st = 0)
         \<and> (if physics_enabled ks
             then \<exists>c. out' ! index = ApplyVehicleControl (ids ! index) c
                      \<and> control_brake c = 1 \<and> control_throttle c = 0
             else out' ! index
                  = ApplyTransform (ids ! index) \<lparr>location = location ks, rotation = rotation ks\<rparr>)"
proof -
  obtain wb att v ces where
    out: "index < length out"
    and wb: "buffer_map (ids ! index) = Some wb"
    and att: "attribute_map (ids ! index) = Some att"
    and ch: "collision_handling K state_map (cf ! index) (velocity ks) (GetForwardVector (rotation ks))
       (GetVehicleTargetVelocity P (ids ! index) (speed_limit att) / 3.6) = Inr (v, ces)"
    and branch: "if physics_enabled ks
     then tp' = tp
          \<and> (\<exists>st c.
                pid' (ids ! index) = Some st
                \<and> out' = out[index := ApplyVehicleControl (ids ! index) c]
                \<and> (tf ! index \<or> ces
                     \<longrightarrow> deviation_integral st = 0 \<and> velocity_integral st = 0
                         \<and> control_throttle c = 0 \<and> control_brake c = 1))
     else (\<exists>t. pid' (ids ! index) = Some (initial_state t))
          \<and> tp' = (if tp (ids ! index) = None
                   then tp(ids ! index \<mapsto>
                          now (Suc (Suc (if pid (ids ! index) = None then Suc clk else clk))))
                   else tp)
          \<and> out' = out[index := ApplyTransform (ids ! index)
               (if \<not> (tf ! index \<or> ces)
                   \<and> (GetSynchronousMode P
                       \<or> now (if pid (ids ! index) = None then Suc clk else clk)
                           - (case tp (ids ! index) of
                                None \<Rightarrow> now (Suc (Suc (if pid (ids ! index) = None
                                                         then Suc clk else clk)))
                              | Some t \<Rightarrow> t)
                         > HYBRID_MODE_DT K)
                then teleport_target K X wb (location ks)
                       (min (GetVehicleTargetVelocity P (ids ! index) (speed_limit att) / 3.6) v)
                else \<lparr>location = location ks, rotation = rotation ks\<rparr>)]"
    by (rule MotionPlan_Inr_cases [OF run ego])
  have emergency: "tf ! index \<or> ces"
  proof (cases "tf ! index")
    case True
    then show ?thesis by simp
  next
    case False
    with stop have lt: "margin_lt (available_distance_margin (cf ! index)) (CRITICAL_BRAKING_MARGIN K)"
      by simp
    then have "available_distance_margin (cf ! index) \<noteq> Infinity" by auto
    with written have "hazard (cf ! index)" by simp
    from collision_handling_critical [OF ch this lt] show ?thesis by simp
  qed
  show ?thesis
  proof (cases "physics_enabled ks")
    case True
    with branch emergency out show ?thesis by auto
  next
    case False
    with branch emergency out show ?thesis by (auto simp: initial_state_def)
  qed
qed

text \<open>Witness of C7 as amended: a red light for the ego with physics and for the ego
  without.\<close>

theorem emergency_braking_witness:
  "MotionPlan example_constants example_externals example_controller example_parameters
     example_now 0 [1] example_states example_attributes example_buffers [] [] [] []
     [no_hazard_record] [True] no_pid_state no_teleports [hold_at 5] 0
   = Inr (flushed_pid_state 0.1, no_teleports, [ApplyVehicleControl 1 braking_control], 2)
   \<and> example_states ([1] ! 0) = Some (vehicle_at 0 10 True)
   \<and> available_distance_margin ([no_hazard_record] ! 0) = Infinity
   \<and> [True] ! 0
   \<and> physics_enabled (vehicle_at 0 10 True)
   \<and> (\<exists>st. flushed_pid_state 0.1 ([1] ! 0) = Some st
            \<and> deviation_integral st = 0 \<and> velocity_integral st = 0)
   \<and> (\<exists>c. [ApplyVehicleControl 1 braking_control] ! 0 = ApplyVehicleControl ([1] ! 0) c
           \<and> control_brake c = 1 \<and> control_throttle c = 0)
   \<and> MotionPlan example_constants example_externals example_controller example_parameters
       example_now 0 [1] ghost_states example_attributes example_buffers [] [] [] []
       [no_hazard_record] [True] no_pid_state no_teleports [hold_at 5] 0
     = Inr (flushed_pid_state 0.2, first_teleport, [hold_at 0], 4)
   \<and> ghost_states ([1] ! 0) = Some (vehicle_at 0 10 False)
   \<and> \<not> physics_enabled (vehicle_at 0 10 False)
   \<and> [hold_at 0] ! 0
     = ApplyTransform ([1] ! 0)
         \<lparr>location = location (vehicle_at 0 10 False), rotation = rotation (vehicle_at 0 10 False)\<rparr>"
proof -
  have ego: "example_states ([1] ! 0) = Some (vehicle_at 0 10 True)"
    "ghost_states ([1] ! 0) = Some (vehicle_at 0 10 False)"
    by (simp_all add: example_states_def ghost_states_def)
  have written: "available_distance_margin ([no_hazard_record] ! 0) = Infinity"
    by (simp add: no_hazard_record_def)
  have stop: "[True] ! 0" by simp
  have ph: "physics_enabled (vehicle_at 0 10 True)" "\<not> physics_enabled (vehicle_at 0 10 False)"
    by (simp_all add: vehicle_at_simps)
  from emergency_braking [OF ex_plan_brake ego(1)] written stop ph(1)
  have a: "(\<exists>st. flushed_pid_state 0.1 ([1] ! 0) = Some st
                \<and> deviation_integral st = 0 \<and> velocity_integral st = 0)
           \<and> (\<exists>c. [ApplyVehicleControl 1 braking_control] ! 0 = ApplyVehicleControl ([1] ! 0) c
                   \<and> control_brake c = 1 \<and> control_throttle c = 0)"
    by simp
  from emergency_braking [OF ex_plan_ghost_stop ego(2)] written stop ph(2)
  have b: "[hold_at 0] ! 0
           = ApplyTransform ([1] ! 0)
               \<lparr>location = location (vehicle_at 0 10 False),
                rotation = rotation (vehicle_at 0 10 False)\<rparr>"
    by simp
  from a b ego written stop ph ex_plan_brake ex_plan_ghost_stop show ?thesis by blast
qed

text \<open>
  C7 as stated fails: for the ego without physics and a red light the command issued
  is a transform, which carries no control; and for the ego with physics a record
  without hazard whose margin is below the critical one does not stop the vehicle (the
  planner reads the margin only under \<open>hazard\<close>).
\<close>

theorem no_braking_control_issued:
  "MotionPlan example_constants example_externals example_controller example_parameters
     example_now 0 [1] ghost_states example_attributes example_buffers [] [] [] []
     [no_hazard_record] [True] no_pid_state no_teleports [hold_at 5] 0
   = Inr (flushed_pid_state 0.2, first_teleport, [hold_at 0], 4)
   \<and> [True] ! 0 = True
   \<and> issued_control ([hold_at 0] ! 0) = None
   \<and> MotionPlan example_constants example_externals example_controller example_parameters
       example_now 0 [1] example_states example_attributes example_buffers [] [] [] []
       [near_miss_record] [False] no_pid_state no_teleports [hold_at 5] 0
     = Inr (flushed_pid_state 0.1, no_teleports, [ApplyVehicleControl 1 full_throttle_control], 2)
   \<and> margin_lt (available_distance_margin ([near_miss_record] ! 0))
        (CRITICAL_BRAKING_MARGIN example_constants)
   \<and> issued_control ([ApplyVehicleControl 1 full_throttle_control] ! 0) = Some full_throttle_control
   \<and> control_brake full_throttle_control = 0
   \<and> control_throttle full_throttle_control = 1"
proof -
  have "[True] ! 0 = True" "issued_control ([hold_at 0] ! 0) = None"
    "margin_lt (available_distance_margin ([near_miss_record] ! 0))
       (CRITICAL_BRAKING_MARGIN example_constants)"
    "issued_control ([ApplyVehicleControl 1 full_throttle_control] ! 0) = Some full_throttle_control"
    "control_brake full_throttle_control = 0" "control_throttle full_throttle_control = 1"
    by (simp_all add: hold_at_def near_miss_record_def example_constants_simps
        full_throttle_control_def)
  with ex_plan_ghost_stop ex_plan_drive show ?thesis by blast
qed

lemma MotionPlan_Inr_state:
  assumes "MotionPlan K X C P now index ids state_map attribute_map buffer_map ul hl ula hla
             cf tf pid tp out clk = Inr r"
  shows "\<exists>ks. state_map (ids ! index) = Some ks"
  using assms
  by (cases "index < length ids"; cases "state_map (ids ! index)")
     (simp_all add: MotionPlan_def Let_def)

lemma MotionPlan_keeps_instances:
  assumes run: "MotionPlan K X C P now index ids state_map attribute_map buffer_map ul hl ula hla
                  cf tf pid tp out clk = Inr (pid', tp', out', clk')"
    and kept: "tp a = Some t"
  shows "tp' a = Some t"
proof -
  from MotionPlan_Inr_state [OF run] obtain ks where ego: "state_map (ids ! index) = Some ks"
    by blast
  have "tp' = tp \<or> (tp (ids ! index) = None \<and> (\<exists>x. tp' = tp(ids ! index \<mapsto> x)))"
    by (rule MotionPlan_Inr_cases [OF run ego]) (auto split: if_splits)
  with kept show ?thesis by auto
qed

lemma MotionPlan_calls_keep_instances:
  assumes "MotionPlan_calls now s s'" and "fst (snd s) a = Some t"
  shows "fst (snd s') a = Some t"
  using assms
proof (induction rule: MotionPlan_calls.induct)
  case (no_call s)
  then show ?case by simp
next
  case (one_more_call s pid_state_map teleportation_instance output_array clock_calls K X C P
      index vehicle_id_list state_map attribute_map buffer_map ul hl ula hla collision_frame
      tl_frame s')
  from one_more_call.IH one_more_call.prems
  have mid: "teleportation_instance a = Some t" by simp
  obtain pid' tp' out' clk' where s': "s' = (pid', tp', out', clk')"
    by (cases s') auto
  from MotionPlan_keeps_instances [OF one_more_call.hyps(2) [unfolded s'] mid] s'
  show ?case by simp
qed

lemma MotionPlan_first_instance:
  assumes run: "MotionPlan K X C P now index ids state_map attribute_map buffer_map ul hl ula hla
                  cf tf pid1 tp1 out1 clk1 = Inr (pid2, tp2, out2, clk2)"
    and ego: "state_map (ids ! index) = Some ks" and ghost: "\<not> physics_enabled ks"
    and first: "tp1 (ids ! index) = None"
  shows "tp2 (ids ! index)
         = Some (now (Suc (Suc (if pid1 (ids ! index) = None then Suc clk1 else clk1))))"
  using ghost first by (rule_tac MotionPlan_Inr_cases [OF run ego]) simp

lemma MotionPlan_teleports:
  assumes run: "MotionPlan K X C P now index ids state_map attribute_map buffer_map ul hl ula hla
                  cf tf pid1 tp1 out1 clk1 = Inr (pid2, tp2, out2, clk2)"
    and ego: "state_map (ids ! index) = Some ks" and ghost: "\<not> physics_enabled ks"
    and later: "tp1 (ids ! index) = Some t0" "buffer_map (ids ! index) = Some wb"
      "attribute_map (ids ! index) = Some att" "\<not> GetSynchronousMode P" "\<not> tf ! index"
      "collision_handling K state_map (cf ! index) (velocity ks)
         (GetForwardVector (rotation ks))
         (GetVehicleTargetVelocity P (ids ! index) (speed_limit att) / 3.6) = Inr (v, False)"
      "HYBRID_MODE_DT K < now (if pid1 (ids ! index) = None then Suc clk1 else clk1) - t0"
  shows "tp2 (ids ! index) = Some t0
         \<and> out2 ! index
           = ApplyTransform (ids ! index)
               (teleport_target K X wb (location ks)
                  (min (GetVehicleTargetVelocity P (ids ! index) (speed_limit att) / 3.6) v))"
  using ghost later by (rule_tac MotionPlan_Inr_cases [OF run ego]) simp

text \<open>
  C10. An entry of the table \<open>teleportation_instance\<close> is never modified by a later
  \<open>MotionPlan\<close> call: over any run of calls an entry keeps its instant. The first call
  for an ego without physics inserts the clock reading taken at the insertion; in every
  later such call the elapsed time is the reading \<open>current_time\<close> of that call minus
  this first instant, and in asynchronous mode, without traffic-light hazard and
  without collision emergency stop, a call whose elapsed time exceeds
  \<open>HYBRID_MODE_DT\<close> issues the transform of the teleport branch, and the entry stays.
\<close>

theorem teleportation_instance_kept:
  "(MotionPlan_calls now (pid, tp, out, clk) (pid', tp', out', clk')
      \<longrightarrow> tp a = Some t \<longrightarrow> tp' a = Some t)
   \<and> (MotionPlan K X C P now index ids state_map attribute_map buffer_map ul hl ula hla cf tf
        pid1 tp1 out1 clk1 = Inr (pid2, tp2, out2, clk2)
      \<longrightarrow> state_map (ids ! index) = Some ks \<longrightarrow> \<not> physics_enabled ks
      \<longrightarrow> (tp1 (ids ! index) = None
            \<longrightarrow> tp2 (ids ! index)
                = Some (now (Suc (Suc (if pid1 (ids ! index) = None then Suc clk1 else clk1)))))
          \<and> (\<forall>t0 wb att v.
                tp1 (ids ! index) = Some t0 \<and> buffer_map (ids ! index) = Some wb
                \<and> attribute_map (ids ! index) = Some att
                \<and> \<not> GetSynchronousMode P \<and> \<not> tf ! index
                \<and> collision_handling K state_map (cf ! index) (velocity ks)
                     (GetForwardVector (rotation ks))
                     (GetVehicleTargetVelocity P (ids ! index) (speed_limit att) / 3.6)
                   = Inr (v, False)
                \<and> HYBRID_MODE_DT K
                     < now (if pid1 (ids ! index) = None then Suc clk1 else clk1) - t0
                \<longrightarrow> tp2 (ids ! index) = Some t0
                    \<and> out2 ! index
                      = ApplyTransform (ids ! index)
                          (teleport_target K X wb (location ks)
                             (min (GetVehicleTargetVelocity P (ids ! index) (speed_limit att) / 3.6)
                                v))))"
proof (intro conjI impI allI)
  assume "MotionPlan_calls now (pid, tp, out, clk) (pid', tp', out', clk')" "tp a = Some t"
  from MotionPlan_calls_keep_instances [OF this(1), of a t] this(2)
  show "tp' a = Some t" by simp
next
  assume "MotionPlan K X C P now index ids state_map attribute_map buffer_map ul hl ula hla
            cf tf pid1 tp1 out1 clk1 = Inr (pid2, tp2, out2, clk2)"
    "state_map (ids ! index) = Some ks" "\<not> physics_enabled ks" "tp1 (ids ! index) = None"
  then show "tp2 (ids ! index)
        = Some (now (Suc (Suc (if pid1 (ids ! index) = None then Suc clk1 else clk1))))"
    by (rule MotionPlan_first_instance)
next
  fix t0 wb att v
  assume run: "MotionPlan K X C P now index ids state_map attribute_map buffer_map ul hl ula hla
                 cf tf pid1 tp1 out1 clk1 = Inr (pid2, tp2, out2, clk2)"
    and ego: "state_map (ids ! index) = Some ks" and ghost: "\<not> physics_enabled ks"
    and later: "tp1 (ids ! index) = Some t0 \<and> buffer_map (ids ! index) = Some wb
                \<and> attribute_map (ids ! index) = Some att
                \<and> \<not> GetSynchronousMode P \<and> \<not> tf ! index
                \<and> collision_handling K state_map (cf ! index) (velocity ks)
                     (GetForwardVector (rotation ks))
                     (GetVehicleTargetVelocity P (ids ! index) (speed_limit att) / 3.6)
                   = Inr (v, False)
                \<and> HYBRID_MODE_DT K
                     < now (if pid1 (ids ! index) = None then Suc clk1 else clk1) - t0"
  from later MotionPlan_teleports [OF run ego ghost, of t0 wb att v]
  have both: "tp2 (ids ! index) = Some t0
        \<and> out2 ! index
          = ApplyTransform (ids ! index)
              (teleport_target K X wb (location ks)
                 (min (GetVehicleTargetVelocity P (ids ! index) (speed_limit att) / 3.6) v))"
    by blast
  from both show "tp2 (ids ! index) = Some t0" by (rule conjunct1)
  from both show "out2 ! index
          = ApplyTransform (ids ! index)
              (teleport_target K X wb (location ks)
                 (min (GetVehicleTargetVelocity P (ids ! index) (speed_limit att) / 3.6) v))"
    by (rule conjunct2)
qed

lemma ex_ghost_handling:
  "collision_handling example_constants ghost_states ([no_hazard_record] ! 0)
     (velocity (vehicle_at 0 10 False)) (GetForwardVector (rotation (vehicle_at 0 10 False)))
     (GetVehicleTargetVelocity example_parameters ([1] ! 0) (speed_limit car) / 3.6)
   = Inr (10, False)"
  by (simp add: collision_handling_def no_hazard_record_def example_parameters_def car_def)

lemma ex_ghost_run:
  "MotionPlan_calls example_now (flushed_pid_state 0.2, first_teleport, [hold_at 0], 4)
     (flushed_pid_state 0.5, first_teleport, [hold_at 10], 6)"
  by (rule one_more_call [OF no_call ex_plan_ghost_second])

text \<open>Witness of C10: two calls for the ego without physics; the first inserts the
  instant 0.3 and holds the vehicle, the second, 0.1 s after that instant, teleports,
  and the entry is still 0.3.\<close>

theorem teleportation_instance_kept_witness:
  "MotionPlan_calls example_now (flushed_pid_state 0.2, first_teleport, [hold_at 0], 4)
     (flushed_pid_state 0.5, first_teleport, [hold_at 10], 6)
   \<and> first_teleport 1 = Some 0.3
   \<and> MotionPlan example_constants example_externals example_controller example_parameters
       example_now 0 [1] ghost_states example_attributes example_buffers [] [] [] []
       [no_hazard_record] [False] no_pid_state no_teleports [hold_at 5] 0
     = Inr (flushed_pid_state 0.2, first_teleport, [hold_at 0], 4)
   \<and> ghost_states ([1] ! 0) = Some (vehicle_at 0 10 False)
   \<and> \<not> physics_enabled (vehicle_at 0 10 False)
   \<and> no_teleports ([1] ! 0) = None
   \<and> first_teleport ([1] ! 0) = Some (example_now 3)
   \<and> MotionPlan example_constants example_externals example_controller example_parameters
       example_now 0 [1] ghost_states example_attributes example_buffers [] [] [] []
       [no_hazard_record] [False] (flushed_pid_state 0.2) first_teleport [hold_at 0] 4
     = Inr (flushed_pid_state 0.5, first_teleport, [hold_at 10], 6)
   \<and> example_buffers ([1] ! 0) = Some ego_route
   \<and> example_attributes ([1] ! 0) = Some car
   \<and> \<not> GetSynchronousMode example_parameters
   \<and> \<not> [False] ! 0
   \<and> HYBRID_MODE_DT example_constants < example_now 4 - 0.3
   \<and> [hold_at 10] ! 0
     = ApplyTransform ([1] ! 0)
         (teleport_target example_constants example_externals ego_route
            (location (vehicle_at 0 10 False))
            (min (GetVehicleTargetVelocity example_parameters ([1] ! 0) (speed_limit car) / 3.6) 10))"
proof -
  have ego: "ghost_states ([1] ! 0) = Some (vehicle_at 0 10 False)"
    by (simp add: ghost_states_def)
  have ghost: "\<not> physics_enabled (vehicle_at 0 10 False)"
    by (simp add: vehicle_at_simps)
  have first: "no_teleports ([1] ! 0) = None"
    by (simp add: no_teleports_def)
  have later: "first_teleport ([1] ! 0) = Some 0.3" "example_buffers ([1] ! 0) = Some ego_route"
    "example_attributes ([1] ! 0) = Some car" "\<not> GetSynchronousMode example_parameters"
    "\<not> [False] ! 0"
    by (simp_all add: first_teleport_def example_map_simps example_parameters_def)
  have due: "HYBRID_MODE_DT example_constants < example_now 4 - 0.3"
    by (simp add: example_constants_simps example_now_def)
  have once: "first_teleport 1 = Some 0.3"
    using teleportation_instance_kept [THEN conjunct1, rule_format, OF ex_ghost_run, of 1 "0.3"]
    by (simp add: first_teleport_def)
  have inserted: "first_teleport ([1] ! 0) = Some (example_now 3)"
    using teleportation_instance_kept
            [THEN conjunct2, rule_format, OF ex_plan_ghost_first ego ghost, THEN conjunct1,
             rule_format, OF first]
    by (simp add: no_pid_state_def eval_nat_numeral)
  have teleported: "[hold_at 10] ! 0
     = ApplyTransform ([1] ! 0)
         (teleport_target example_constants example_externals ego_route
            (location (vehicle_at 0 10 False))
            (min (GetVehicleTargetVelocity example_parameters ([1] ! 0) (speed_limit car) / 3.6) 10))"
    using teleportation_instance_kept
            [THEN conjunct2, rule_format, OF ex_plan_ghost_second ego ghost, THEN conjunct2,
             rule_format, of "0.3" ego_route car 10]
      later ex_ghost_handling due
    by (simp add: flushed_pid_state_def)
  from ex_ghost_run once ex_plan_ghost_first ego ghost first inserted ex_plan_ghost_second
    later due teleported
  show ?thesis by blast
qed

end
